theory Spec2Isabelle
  imports Main "HOL-Library.AList"
begin

section \<open>JavaScript values and plain objects\<close>

text \<open>
  The render-time data of \<^verbatim>\<open>index.js\<close> are plain JavaScript objects. A value is
  \<^verbatim>\<open>undefined\<close>, \<^verbatim>\<open>null\<close>, a boolean or a string; every other value (number, array,
  object, function) is \<open>JOther s\<close>, where \<open>s\<close> is its string conversion, the only thing
  the adapter ever does with such a value (\<^verbatim>\<open>layout + this.extname\<close>).
  Strings are lists of code units below 256.

  An object is the list of its own enumerable properties in insertion order.
  Property names that only the prototype chain of \<^verbatim>\<open>{}\<close> answers
  (\<^verbatim>\<open>constructor\<close>, \<^verbatim>\<open>toString\<close>, ...) are not modelled: template names, block names and
  data keys are taken to be different from them, which \<open>plainName\<close> and \<open>plainObj\<close> below
  say of a name and of the keys of an object.
\<close>

datatype jsval = JUndefined | JNull | JBool bool | JStr string | JOther string

type_synonym obj = "(string \<times> jsval) list"

text \<open>\<^verbatim>\<open>Object.keys(o)\<close>, \<^verbatim>\<open>Object.prototype.hasOwnProperty.call(o, k)\<close>, \<^verbatim>\<open>o[k]\<close>
  and \<^verbatim>\<open>o[k] = v\<close>.\<close>

definition keys :: "obj \<Rightarrow> string list" where
  "keys ob = remdups (map fst ob)"

definition hasOwn :: "obj \<Rightarrow> string \<Rightarrow> bool" where
  "hasOwn ob k = (map_of ob k \<noteq> None)"

definition getProp :: "obj \<Rightarrow> string \<Rightarrow> jsval" where
  "getProp ob k = (case map_of ob k of None \<Rightarrow> JUndefined | Some v \<Rightarrow> v)"

definition setProp :: "obj \<Rightarrow> string \<Rightarrow> jsval \<Rightarrow> obj" where
  "setProp ob k v = AList.update k v ob"

text \<open>String conversion, as \<^verbatim>\<open>layout + this.extname\<close> applies it to its left operand.\<close>

fun toString :: "jsval \<Rightarrow> string" where
  "toString JUndefined = ''undefined''"
| "toString JNull = ''null''"
| "toString (JBool b) = (if b then ''true'' else ''false'')"
| "toString (JStr s) = s"
| "toString (JOther s) = s"

section \<open>\<^verbatim>\<open>merge\<close> (index.js, lines 10 to 19)\<close>

text \<open>
  \<^verbatim>\<open>
  function merge(obj1, obj2) {
    const c = {};
    let keys = Object.keys(obj2);
    for (let i = 0; i !== keys.length; i++) c[keys[i]] = obj2[keys[i]];
    keys = Object.keys(obj1);
    for (let i = 0; i !== keys.length; i++) {
      if (!Object.prototype.hasOwnProperty.call(c, keys[i])) c[keys[i]] = obj1[keys[i]];
    }
    return c;
  }
  \<close>
  The two loops are folds over the key lists; \<open>c\<close> is the accumulator.
\<close>

definition merge :: "obj \<Rightarrow> obj \<Rightarrow> obj" where
  "merge obj1 obj2 =
     (let c = fold (\<lambda>k c. setProp c k (getProp obj2 k)) (keys obj2) [];
          c = fold (\<lambda>k c. if \<not> hasOwn c k then setProp c k (getProp obj1 k) else c) (keys obj1) c
      in c)"

section \<open>The layout pattern (index.js, line 8)\<close>

text \<open>
  \<^verbatim>\<open>const rLayoutPattern = /{{!<\s+([A-Za-z0-9\._\-\/]+)\s*}}/;\<close>

  The character classes of the pattern are pairwise disjoint and disjoint from the
  braces, so the greedy match never backtracks: \<open>matchHere\<close> decides whether the pattern
  matches at the start of a string and returns the captured group, and \<open>rLayoutExec\<close>
  is the leftmost match that \<^verbatim>\<open>exec\<close> and \<^verbatim>\<open>test\<close> find (the pattern has no \<^verbatim>\<open>g\<close> flag,
  hence no \<^verbatim>\<open>lastIndex\<close>).
\<close>

definition isSpace :: "char \<Rightarrow> bool" where
  "isSpace c = (of_char c \<in> {9, 10, 11, 12, 13, 32, 160 :: nat})"

definition isNameChar :: "char \<Rightarrow> bool" where
  "isNameChar c =
     (let n = (of_char c :: nat) in
        (65 \<le> n \<and> n \<le> 90) \<or> (97 \<le> n \<and> n \<le> 122) \<or> (48 \<le> n \<and> n \<le> 57)
        \<or> c = CHR ''.'' \<or> c = CHR ''_'' \<or> c = CHR ''-'' \<or> c = CHR ''/'')"

definition stripPrefix :: "string \<Rightarrow> string \<Rightarrow> string option" where
  "stripPrefix p s = (if take (length p) s = p then Some (drop (length p) s) else None)"

definition matchHere :: "string \<Rightarrow> string option" where
  "matchHere s =
     (case stripPrefix ''{{!<'' s of
        None \<Rightarrow> None
      | Some s1 \<Rightarrow>
          (let ws = takeWhile isSpace s1; s2 = dropWhile isSpace s1;
               name = takeWhile isNameChar s2; s3 = dropWhile isNameChar s2;
               s4 = dropWhile isSpace s3
           in if ws \<noteq> [] \<and> name \<noteq> [] \<and> stripPrefix ''}}'' s4 \<noteq> None
              then Some name else None))"

fun rLayoutExec :: "string \<Rightarrow> string option" where
  "rLayoutExec [] = matchHere []"
| "rLayoutExec (c # cs) =
     (case matchHere (c # cs) of Some name \<Rightarrow> Some name | None \<Rightarrow> rLayoutExec cs)"

definition rLayoutTest :: "string \<Rightarrow> bool" where
  "rLayoutTest s = (rLayoutExec s \<noteq> None)"

text \<open>\<open>noEarlierMatch pre s\<close>: in \<open>pre @ s\<close>, no match of the pattern starts inside \<open>pre\<close>.\<close>

fun noEarlierMatch :: "string \<Rightarrow> string \<Rightarrow> bool" where
  "noEarlierMatch [] s = True"
| "noEarlierMatch (c # cs) s = (matchHere (c # cs @ s) = None \<and> noEarlierMatch cs s)"

section \<open>Errors, the engine and the outside world\<close>

text \<open>
  Every \<^verbatim>\<open>throw\<close> and every rejected promise is an \<open>error\<close> value.
  \<open>MissingTemplateError message extra\<close> is the class of lines 25 to 32; \<open>extra\<close> is
  \<open>None\<close> when the second constructor argument is \<^verbatim>\<open>undefined\<close>.
\<close>

datatype error =
    MissingTemplateError string "string option"
  | BadOptionsError string
  | TypeError string
  | FsError string
  | RenderError string

text \<open>
  The block store \<^verbatim>\<open>this.blocks\<close> maps a block name to an array of fragments. The
  code keeps a reference to an array while a callback runs (\<^verbatim>\<open>content\<close>) and replaces
  the array by a fresh one (\<^verbatim>\<open>block\<close>), so arrays have an identity: the number stored
  with the fragments counts the arrays that \<^verbatim>\<open>this.blocks[name]\<close> has held before.
\<close>

type_synonym blockstore = "string \<Rightarrow> (nat \<times> string list) option"

record koa_ctx =
  state :: "obj option"
  body :: "string option"

text \<open>
  A compiled template is opaque: called with the data (and, through
  \<^verbatim>\<open>templateOptions.data.koa\<close>, the request), it reads the engine's partial table,
  may call the helpers, which work on the block store, and returns a string or throws.
\<close>

type_synonym template =
  "koa_ctx \<Rightarrow> obj \<Rightarrow> (string \<Rightarrow> string option) \<Rightarrow> blockstore \<Rightarrow> (error + string) \<times> blockstore"

text \<open>
  The collaborators the adapter calls: \<^verbatim>\<open>fs.statSync\<close> (true when it returns),
  \<^verbatim>\<open>fs.promises.readFile\<close> and \<^verbatim>\<open>glob\<close> (\<open>None\<close> when the promise rejects),
  \<^verbatim>\<open>path.join\<close>, \<^verbatim>\<open>path.isAbsolute\<close> and \<^verbatim>\<open>handlebars.compile\<close>. They are parameters
  of the model; the file system may differ from one call to the next.
\<close>

record world =
  statSync :: "string \<Rightarrow> bool"
  readFile :: "string \<Rightarrow> string option"
  glob :: "string \<Rightarrow> string \<Rightarrow> string list option"
  path_join :: "string \<Rightarrow> string \<Rightarrow> string"
  path_isAbsolute :: "string \<Rightarrow> bool"
  compile :: "string \<Rightarrow> template"

text \<open>What the adapter does to the outside, in order: the instrumentation of the model.\<close>

datatype event =
    StatSync string
  | ReadFile string
  | Glob string string
  | Compile string
  | LogMessage string
  | LogError error

section \<open>The instance (index.js, lines 49 to 94)\<close>

datatype pathspec = PathStr string | PathList "string list"

record cache_entry =
  template :: template
  entryLayoutTemplate :: "template option"

text \<open>
  The fields \<^verbatim>\<open>configure\<close> sets, \<^verbatim>\<open>this.pathCache\<close> and \<^verbatim>\<open>this.layoutTemplate\<close> (the
  default layout slot), the partial table of the engine instance and the trace.
  \<open>entryLayoutTemplate\<close> is \<^verbatim>\<open>cache[tpl].layoutTemplate\<close>.
\<close>

record hbs =
  viewPath :: "string list"
  extname :: string
  partialsPath :: pathspec
  defaultLayout :: string
  layoutsPath :: string
  locals :: obj
  disableCache :: bool
  partialsRegistered :: bool
  cache :: "string \<Rightarrow> cache_entry option"
  pathCache :: "string \<Rightarrow> string option"
  blocks :: blockstore
  layoutTemplate :: "template option"
  partials :: "string \<Rightarrow> string option"
  trace :: "event list"

record options =
  opt_viewPath :: "pathspec option"
  opt_extname :: "string option"
  opt_partialsPath :: "pathspec option"
  opt_defaultLayout :: "string option"
  opt_layoutsPath :: "string option"
  opt_locals :: "obj option"
  opt_disableCache :: "bool option"

text \<open>\<^verbatim>\<open>x || d\<close> on an optional string: the empty string is falsy.\<close>

definition orDefault :: "string option \<Rightarrow> string \<Rightarrow> string" where
  "orDefault x d = (case x of None \<Rightarrow> d | Some s \<Rightarrow> if s = [] then d else s)"

text \<open>
  \<^verbatim>\<open>configure\<close> on a fresh instance. \<^verbatim>\<open>!options.viewPath\<close> holds for a missing option
  and for the empty string; an array is truthy, also the empty one.
\<close>

definition configure :: "options \<Rightarrow> error + hbs" where
  "configure opts =
     (if opt_viewPath opts = None \<or> opt_viewPath opts = Some (PathStr [])
      then Inl (BadOptionsError ''The option `viewPath` must be specified.'')
      else Inr \<lparr>
        viewPath = (case opt_viewPath opts of Some (PathList vs) \<Rightarrow> vs | Some (PathStr v) \<Rightarrow> [v] | None \<Rightarrow> []),
        extname = orDefault (opt_extname opts) ''.hbs'',
        partialsPath = (case opt_partialsPath opts of None \<Rightarrow> PathList []
                        | Some (PathStr p) \<Rightarrow> if p = [] then PathList [] else PathStr p
                        | Some (PathList ps) \<Rightarrow> PathList ps),
        defaultLayout = orDefault (opt_defaultLayout opts) [],
        layoutsPath = orDefault (opt_layoutsPath opts) [],
        locals = (case opt_locals opts of None \<Rightarrow> [] | Some l \<Rightarrow> l),
        disableCache = (case opt_disableCache opts of None \<Rightarrow> False | Some b \<Rightarrow> b),
        partialsRegistered = False,
        cache = Map.empty,
        pathCache = Map.empty,
        blocks = Map.empty,
        layoutTemplate = None,
        partials = Map.empty,
        trace = [] \<rparr>)"

definition emit :: "event list \<Rightarrow> hbs \<Rightarrow> hbs" where
  "emit evs h = h\<lparr>trace := trace h @ evs\<rparr>"

section \<open>The block helpers (index.js, lines 83 to 91 and 259 to 268)\<close>

definition fragments :: "blockstore \<Rightarrow> string \<Rightarrow> string list" where
  "fragments bs name = (case bs name of None \<Rightarrow> [] | Some (g, fs) \<Rightarrow> fs)"

text \<open>\<^verbatim>\<open>array.join('\n')\<close> on an array of strings.\<close>

fun joinLines :: "string list \<Rightarrow> string" where
  "joinLines [] = []"
| "joinLines [f] = f"
| "joinLines (f # g # fs) = f @ [CHR 0x0A] @ joinLines (g # fs)"

text \<open>
  \<^verbatim>\<open>
  Hbs.prototype.block = function (name) {
    const val = (this.blocks[name] || []).join('\n');
    this.blocks[name] = [];
    return val;
  };
  \<close>
\<close>

definition block :: "blockstore \<Rightarrow> string \<Rightarrow> string \<times> blockstore" where
  "block bs name =
     (let val = joinLines (fragments bs name)
      in (val, bs(name \<mapsto> (case bs name of None \<Rightarrow> 0 | Some (g, fs) \<Rightarrow> Suc g, []))))"

text \<open>
  \<^verbatim>\<open>
  Hbs.prototype.content = function (name, options, context) {
    const block = this.blocks[name] || (this.blocks[name] = []);
    block.push(options.fn(context));
  };
  \<close>
  \<open>fn\<close> is \<^verbatim>\<open>options.fn\<close> applied to the context: it renders the inner template and
  may itself call the helpers. The push goes to the array read before the call: when the
  callback has replaced the array of this name, the fragment does not reach the store.
\<close>

definition content ::
  "blockstore \<Rightarrow> string \<Rightarrow> (blockstore \<Rightarrow> (error + string) \<times> blockstore) \<Rightarrow> (error + unit) \<times> blockstore" where
  "content bs name fn =
     (let bs0 = (case bs name of None \<Rightarrow> bs(name \<mapsto> (0, [])) | Some a \<Rightarrow> bs);
          g0 = (case bs0 name of None \<Rightarrow> 0 | Some (g, fs) \<Rightarrow> g)
      in case fn bs0 of
           (Inl e, bs1) \<Rightarrow> (Inl e, bs1)
         | (Inr frag, bs1) \<Rightarrow>
             (case bs1 name of
                Some (g1, fs) \<Rightarrow>
                  if g1 = g0 then (Inr (), bs1(name \<mapsto> (g1, fs @ [frag]))) else (Inr (), bs1)
              | None \<Rightarrow> (Inr (), bs1)))"

text \<open>
  The helper registered under \<^verbatim>\<open>blockHelperName\<close>; \<open>fn\<close> is \<open>None\<close> when
  \<^verbatim>\<open>typeof options.fn\<close> is not \<^verbatim>\<open>'function'\<close> (the helper used inline).
  \<^verbatim>\<open>
  function (name, options) {
    let val = self.block(name);
    if (val === '' && typeof options.fn === 'function') val = options.fn(this);
    return val;
  }
  \<close>
\<close>

definition blockHelper ::
  "blockstore \<Rightarrow> string \<Rightarrow> (blockstore \<Rightarrow> (error + string) \<times> blockstore) option
     \<Rightarrow> (error + string) \<times> blockstore" where
  "blockHelper bs name fn =
     (case block bs name of
        (val, bs1) \<Rightarrow>
          (case fn of
             Some f \<Rightarrow> if val = [] then f bs1 else (Inr val, bs1)
           | None \<Rightarrow> (Inr val, bs1)))"

text \<open>The helper registered under \<^verbatim>\<open>contentHelperName\<close>:
  \<^verbatim>\<open>function (name, options) { return self.content(name, options, this); }\<close>.\<close>

definition contentHelper ::
  "blockstore \<Rightarrow> string \<Rightarrow> (blockstore \<Rightarrow> (error + string) \<times> blockstore) \<Rightarrow> (error + unit) \<times> blockstore" where
  "contentHelper bs name fn = content bs name fn"

text \<open>
  \<open>contributeAll bs name frags\<close>: the store after the content helper has been called for
  \<open>name\<close> once for each fragment of \<open>frags\<close>, in order, with an inner template that
  renders to that fragment and calls no helper.
\<close>

fun contributeAll :: "blockstore \<Rightarrow> string \<Rightarrow> string list \<Rightarrow> blockstore" where
  "contributeAll bs name [] = bs"
| "contributeAll bs name (f # fs) =
     contributeAll (snd (contentHelper bs name (\<lambda>b. (Inr f, b)))) name fs"

text \<open>
  What the adapter relies on when it compiles \<^verbatim>\<open>'{{{body}}}'\<close> as the layout that wraps
  nothing: the engine renders this template to the string held by the \<^verbatim>\<open>body\<close> key of its
  data. The engine is not part of the repository, so this is a condition on the world.
\<close>

definition passthroughEngine :: "world \<Rightarrow> bool" where
  "passthroughEngine w =
     (\<forall>ctx d tab bs b. getProp d ''body'' = JStr b \<longrightarrow>
        fst (compile w ''{{{body}}}'' ctx d tab bs) = Inr b)"

section \<open>Path resolution (index.js, lines 240 to 257)\<close>

text \<open>
  \<^verbatim>\<open>
  Hbs.prototype.getTemplatePath = function (tpl) {
    const cache = this.pathCache || (this.pathCache = {});
    if (cache[tpl]) return cache[tpl];
    for (let i = 0; i !== this.viewPath.length; i++) {
      const viewPath = this.viewPath[i];
      const tplPath = path.join(viewPath, tpl + this.extname);
      try {
        fs.statSync(tplPath);
        if (!this.disableCache) cache[tpl] = tplPath;
        return tplPath;
      } catch (e) { continue; }
    }
    return void 0;
  };
  \<close>
  \<open>probe\<close> is the loop over the remaining view roots. A path is truthy when it is not
  the empty string.
\<close>

fun probe :: "world \<Rightarrow> hbs \<Rightarrow> string \<Rightarrow> string list \<Rightarrow> string option \<times> hbs" where
  "probe w h tpl [] = (None, h)"
| "probe w h tpl (root # roots) =
     (let tplPath = path_join w root (tpl @ extname h);
          h1 = emit [StatSync tplPath] h
      in if statSync w tplPath
         then (Some tplPath,
               if \<not> disableCache h1 then h1\<lparr>pathCache := (pathCache h1)(tpl \<mapsto> tplPath)\<rparr> else h1)
         else probe w h1 tpl roots)"

definition getTemplatePath :: "world \<Rightarrow> hbs \<Rightarrow> string \<Rightarrow> string option \<times> hbs" where
  "getTemplatePath w h tpl =
     (case pathCache h tpl of
        Some p \<Rightarrow> if p \<noteq> [] then (Some p, h) else probe w h tpl (viewPath h)
      | None \<Rightarrow> probe w h tpl (viewPath h))"

section \<open>Partial registration (index.js, lines 206 to 238)\<close>

text \<open>\<^verbatim>\<open>file.slice(0, -1 * n)\<close>: for \<open>n = 0\<close> the end index is \<open>-0\<close>, that is \<open>0\<close>.\<close>

definition sliceOff :: "string \<Rightarrow> nat \<Rightarrow> string" where
  "sliceOff file n = (if n = 0 then [] else take (length file - n) file)"

text \<open>The loop \<^verbatim>\<open>self.registerPartial(names[i], partials[i])\<close> over the partial table.\<close>

fun registerAll :: "(string \<times> string) list \<Rightarrow> (string \<Rightarrow> string option) \<Rightarrow> (string \<Rightarrow> string option)" where
  "registerAll [] tab = tab"
| "registerAll ((name, src) # rest) tab = registerAll rest (tab(name \<mapsto> src))"

text \<open>The \<^verbatim>\<open>catch\<close> block of \<^verbatim>\<open>registerPartials\<close>: two calls of \<^verbatim>\<open>console.error\<close>.\<close>

definition caught :: "error \<Rightarrow> hbs \<Rightarrow> hbs" where
  "caught e h = emit [LogMessage ''Error caught while registering partials'', LogError e] h"

text \<open>
  \<^verbatim>\<open>
  Hbs.prototype.registerPartials = async function () {
    const self = this;
    if (!Array.isArray(this.partialsPath)) this.partialsPath = [this.partialsPath];
    try {
      const resultList = await Promise.all(
        this.partialsPath.map((root) => glob('**/*' + self.extname, { cwd: root })));
      if (!resultList.length) return;
      const files = [];
      const names = [];
      resultList.forEach((result, i) => {
        result.forEach((file) => {
          files.push(path.join(self.partialsPath[i], file));
          names.push(file.slice(0, -1 * self.extname.length));
        });
      });
      const partials = await Promise.all(files.map(read));
      for (let i = 0; i !== partials.length; i++) {
        self.registerPartial(names[i], partials[i]);
      }
      self.partialsRegistered = true;
    } catch (e) {
      console.error('Error caught while registering partials');
      console.error(e);
    }
  };
  \<close>
  \<^verbatim>\<open>Promise.all\<close> starts every call before it waits: all the events are in the trace
  also when one of the promises rejects.
\<close>

definition partialRoots :: "hbs \<Rightarrow> string list" where
  "partialRoots h = (case partialsPath h of PathList rs \<Rightarrow> rs | PathStr r \<Rightarrow> [r])"

definition partialFiles :: "world \<Rightarrow> string list \<Rightarrow> string list list \<Rightarrow> string list" where
  "partialFiles w roots resultList =
     concat (map (\<lambda>(root, result). map (\<lambda>file. path_join w root file) result) (zip roots resultList))"

definition partialNames :: "hbs \<Rightarrow> string list list \<Rightarrow> string list" where
  "partialNames h resultList =
     concat (map (\<lambda>result. map (\<lambda>file. sliceOff file (length (extname h))) result) resultList)"

definition registerPartials :: "world \<Rightarrow> hbs \<Rightarrow> hbs" where
  "registerPartials w h0 =
     (let roots = partialRoots h0;
          h = h0\<lparr>partialsPath := PathList roots\<rparr>;
          pat = ''**/*'' @ extname h;
          h1 = emit (map (\<lambda>root. Glob pat root) roots) h;
          globbed = map (\<lambda>root. glob w pat root) roots
      in if None \<in> set globbed
         then caught (FsError pat) h1
         else
           (let resultList = map the globbed
            in if resultList = [] then h1
               else
                 (let files = partialFiles w roots resultList;
                      names = partialNames h resultList;
                      h2 = emit (map ReadFile files) h1;
                      sources = map (readFile w) files
                  in if None \<in> set sources
                     then caught (FsError (hd (filter (\<lambda>f. readFile w f = None) files))) h2
                     else h2\<lparr>partials := registerAll (zip names (map the sources)) (partials h2),
                             partialsRegistered := True\<rparr>)))"

section \<open>Layouts (index.js, lines 162 to 193)\<close>

text \<open>
  \<^verbatim>\<open>
  Hbs.prototype.getLayoutPath = function (layout) {
    if (this.layoutsPath) return path.join(this.layoutsPath, layout + this.extname);
    return path.join(this.viewPath[0], layout + this.extname);
  };
  \<close>
  \<^verbatim>\<open>this.viewPath[0]\<close> is \<^verbatim>\<open>undefined\<close> for the empty array, and \<^verbatim>\<open>path.join\<close> throws a
  \<^verbatim>\<open>TypeError\<close> on an argument that is not a string.
\<close>

definition getLayoutPath :: "world \<Rightarrow> hbs \<Rightarrow> jsval \<Rightarrow> error + string" where
  "getLayoutPath w h layout =
     (if layoutsPath h \<noteq> [] then Inr (path_join w (layoutsPath h) (toString layout @ extname h))
      else (case viewPath h of
              [] \<Rightarrow> Inl (TypeError ''The path argument must be of type string. Received undefined'')
            | root # roots \<Rightarrow> Inr (path_join w root (toString layout @ extname h))))"

text \<open>
  \<^verbatim>\<open>
  Hbs.prototype.loadLayoutFile = async function (layout) {
    const file = this.getLayoutPath(layout);
    return read(file);
  };
  \<close>
\<close>

definition loadLayoutFile :: "world \<Rightarrow> hbs \<Rightarrow> jsval \<Rightarrow> (error + string) \<times> hbs" where
  "loadLayoutFile w h layout =
     (case getLayoutPath w h layout of
        Inl e \<Rightarrow> (Inl e, h)
      | Inr file \<Rightarrow>
          (case readFile w file of
             None \<Rightarrow> (Inl (FsError file), emit [ReadFile file] h)
           | Some rawLayout \<Rightarrow> (Inr rawLayout, emit [ReadFile file] h)))"

text \<open>
  \<^verbatim>\<open>
  Hbs.prototype.cacheLayout = async function (layout) {
    if (!layout && !this.defaultLayout) {
      return this.handlebars.compile('{{{body}}}');
    }
    if (!layout) layout = this.defaultLayout;
    try {
      const rawLayout = await this.loadLayoutFile(layout);
      return this.handlebars.compile(rawLayout);
    } catch (err) {
      console.error(err.stack || err);
      return undefined;
    }
  };
  \<close>
  The argument is \<open>None\<close> for \<^verbatim>\<open>undefined\<close>; the result is \<open>None\<close> for \<^verbatim>\<open>undefined\<close>.
\<close>

definition falsy :: "string option \<Rightarrow> bool" where
  "falsy s = (s = None \<or> s = Some [])"

definition cacheLayout :: "world \<Rightarrow> hbs \<Rightarrow> string option \<Rightarrow> template option \<times> hbs" where
  "cacheLayout w h layout =
     (if falsy layout \<and> defaultLayout h = []
      then (Some (compile w ''{{{body}}}''), emit [Compile ''{{{body}}}''] h)
      else
        (let layout1 = (case layout of None \<Rightarrow> defaultLayout h
                        | Some l \<Rightarrow> if l = [] then defaultLayout h else l)
         in case loadLayoutFile w h (JStr layout1) of
              (Inr rawLayout, h1) \<Rightarrow> (Some (compile w rawLayout), emit [Compile rawLayout] h1)
            | (Inl err, h1) \<Rightarrow> (None, emit [LogError err] h1)))"

text \<open>
  \<^verbatim>\<open>
  Hbs.prototype.getLayoutTemplate = async function () {
    if (this.disableCache || !this.layoutTemplate) {
      this.layoutTemplate = await this.cacheLayout();
    }
    return this.layoutTemplate;
  };
  \<close>
\<close>

definition getLayoutTemplate :: "world \<Rightarrow> hbs \<Rightarrow> template option \<times> hbs" where
  "getLayoutTemplate w h =
     (if disableCache h \<or> layoutTemplate h = None
      then (case cacheLayout w h None of (t, h1) \<Rightarrow> (t, h1\<lparr>layoutTemplate := t\<rparr>))
      else (layoutTemplate h, h))"

section \<open>The renderer (index.js, lines 109 to 160)\<close>

text \<open>
  The body of \<^verbatim>\<open>render(tpl, locals)\<close> is split at its blank lines; \<open>render\<close> below puts
  the parts together in the order of the source.

  Lines 123 and 124, with \<^verbatim>\<open>this.state || {}\<close> and \<^verbatim>\<open>locals || {}\<close>:
  \<^verbatim>\<open>
  locals = merge(this.state || {}, locals || {});
  locals = merge(hbs.locals, locals);
  \<close>
\<close>

definition orEmpty :: "obj option \<Rightarrow> obj" where
  "orEmpty ob = (case ob of None \<Rightarrow> [] | Some x \<Rightarrow> x)"

definition mergeLocals :: "hbs \<Rightarrow> koa_ctx \<Rightarrow> obj option \<Rightarrow> obj" where
  "mergeLocals h ctx callData = merge (locals h) (merge (orEmpty (state ctx)) (orEmpty callData))"

text \<open>
  Lines 126 to 128:
  \<^verbatim>\<open>
  if (hbs.disableCache || (!hbs.partialsRegistered && hbs.partialsPath !== '')) {
    await hbs.registerPartials();
  }
  \<close>
\<close>

definition ensurePartials :: "world \<Rightarrow> hbs \<Rightarrow> hbs" where
  "ensurePartials w h =
     (if disableCache h \<or> (\<not> partialsRegistered h \<and> partialsPath h \<noteq> PathStr [])
      then registerPartials w h else h)"

text \<open>
  Lines 130 to 145:
  \<^verbatim>\<open>
  if (hbs.disableCache || !hbs.cache[tpl]) {
    const rawTemplate = await read(tplPath);
    hbs.cache[tpl] = { template: hbs.handlebars.compile(rawTemplate) };

    if (typeof locals.layout !== 'undefined' || rLayoutPattern.test(rawTemplate)) {
      let layout = locals.layout;
      if (typeof layout === 'undefined') layout = rLayoutPattern.exec(rawTemplate)[1];

      if (layout !== false) {
        const rawLayout = await hbs.loadLayoutFile(layout);
        hbs.cache[tpl].layoutTemplate = hbs.handlebars.compile(rawLayout);
      } else {
        hbs.cache[tpl].layoutTemplate = hbs.handlebars.compile('{{{body}}}');
      }
    }
  }
  \<close>
  \<open>chooseLayout\<close> is the value of \<^verbatim>\<open>layout\<close> after line 136, \<open>None\<close> when the outer
  condition of line 134 is false. \<open>setEntryLayout\<close> is the assignment to
  \<^verbatim>\<open>hbs.cache[tpl].layoutTemplate\<close>, which throws when there is no entry.
\<close>

definition chooseLayout :: "obj \<Rightarrow> string \<Rightarrow> jsval option" where
  "chooseLayout merged rawTemplate =
     (if getProp merged ''layout'' \<noteq> JUndefined \<or> rLayoutTest rawTemplate
      then (if getProp merged ''layout'' = JUndefined
            then map_option JStr (rLayoutExec rawTemplate)
            else Some (getProp merged ''layout''))
      else None)"

definition setEntryLayout :: "hbs \<Rightarrow> string \<Rightarrow> template \<Rightarrow> string \<Rightarrow> (error + unit) \<times> hbs" where
  "setEntryLayout h tpl t src =
     (case cache h tpl of
        None \<Rightarrow> (Inl (TypeError ''Cannot set properties of undefined''), emit [Compile src] h)
      | Some e \<Rightarrow>
          (Inr (), emit [Compile src] (h\<lparr>cache := (cache h)(tpl \<mapsto> e\<lparr>entryLayoutTemplate := Some t\<rparr>)\<rparr>)))"

definition cacheTemplate :: "world \<Rightarrow> hbs \<Rightarrow> string \<Rightarrow> string \<Rightarrow> obj \<Rightarrow> (error + unit) \<times> hbs" where
  "cacheTemplate w h tpl tplPath merged =
     (if disableCache h \<or> cache h tpl = None
      then
        (case readFile w tplPath of
           None \<Rightarrow> (Inl (FsError tplPath), emit [ReadFile tplPath] h)
         | Some rawTemplate \<Rightarrow>
             (let h1 = emit [ReadFile tplPath, Compile rawTemplate]
                         (h\<lparr>cache := (cache h)(tpl \<mapsto>
                              \<lparr>template = compile w rawTemplate, entryLayoutTemplate = None\<rparr>)\<rparr>)
              in if getProp merged ''layout'' \<noteq> JUndefined \<or> rLayoutTest rawTemplate
                 then
                   (case chooseLayout merged rawTemplate of
                      None \<Rightarrow> (Inl (TypeError ''Cannot read properties of null''), h1)
                    | Some layout \<Rightarrow>
                        if layout \<noteq> JBool False
                        then
                          (case loadLayoutFile w h1 layout of
                             (Inl e, h2) \<Rightarrow> (Inl e, h2)
                           | (Inr rawLayout, h2) \<Rightarrow>
                               setEntryLayout h2 tpl (compile w rawLayout) rawLayout)
                        else setEntryLayout h1 tpl (compile w ''{{{body}}}'') ''{{{body}}}'')
                 else (Inr (), h1)))
      else (Inr (), h))"

text \<open>
  Lines 157 and 158, on the templates chosen in lines 147 to 152
  (\<open>None\<close>: \<^verbatim>\<open>layoutTemplate\<close> is \<^verbatim>\<open>undefined\<close>, and the call of line 158 throws):
  \<^verbatim>\<open>
  locals.body = template(locals, hbs.templateOptions);
  this.body = layoutTemplate(locals, hbs.templateOptions);
  \<close>
  \<open>layoutData\<close> is \<^verbatim>\<open>locals\<close> after the assignment of line 157. Lines 154 and 155 put
  the request under \<^verbatim>\<open>data.koa\<close> of the options both calls receive; the model hands the
  request to the templates as their first argument, and the other template options, which
  \<^verbatim>\<open>configure\<close> fixes, belong to the engine.
\<close>

definition layoutData :: "obj \<Rightarrow> string \<Rightarrow> obj" where
  "layoutData merged bodyText = setProp merged ''body'' (JStr bodyText)"

definition runTemplates ::
  "template \<Rightarrow> template option \<Rightarrow> koa_ctx \<Rightarrow> obj \<Rightarrow> hbs \<Rightarrow> (error + koa_ctx) \<times> hbs" where
  "runTemplates t lt ctx merged h =
     (case t ctx merged (partials h) (blocks h) of
        (Inl e, bs) \<Rightarrow> (Inl e, h\<lparr>blocks := bs\<rparr>)
      | (Inr bodyText, bs) \<Rightarrow>
          (case lt of
             None \<Rightarrow> (Inl (TypeError ''layoutTemplate is not a function''), h\<lparr>blocks := bs\<rparr>)
           | Some l \<Rightarrow>
               (case l ctx (layoutData merged bodyText) (partials h) bs of
                  (Inl e, bs1) \<Rightarrow> (Inl e, h\<lparr>blocks := bs1\<rparr>)
                | (Inr out, bs1) \<Rightarrow> (Inr (ctx\<lparr>body := Some out\<rparr>), h\<lparr>blocks := bs1\<rparr>))))"

text \<open>
  Lines 147 to 152:
  \<^verbatim>\<open>
  const template = hbs.cache[tpl].template;
  let layoutTemplate = hbs.cache[tpl].layoutTemplate;
  if (!layoutTemplate) {
    layoutTemplate = await hbs.getLayoutTemplate();
  }
  \<close>
\<close>

definition pickLayout :: "world \<Rightarrow> hbs \<Rightarrow> cache_entry \<Rightarrow> template option \<times> hbs" where
  "pickLayout w h e =
     (case entryLayoutTemplate e of
        None \<Rightarrow> getLayoutTemplate w h
      | Some l \<Rightarrow> (Some l, h))"

text \<open>
  Lines 113 to 121:
  \<^verbatim>\<open>
  let tplPath = hbs.getTemplatePath(tpl);
  if (path.isAbsolute(tpl)) {
    tplPath = tpl + hbs.extname;
  }
  if (!tplPath) {
    throw new MissingTemplateError('The template specified does not exist.', tplPath);
  }
  \<close>
\<close>

definition resolveTemplate :: "world \<Rightarrow> hbs \<Rightarrow> string \<Rightarrow> (error + string) \<times> hbs" where
  "resolveTemplate w h tpl =
     (case getTemplatePath w h tpl of
        (found, h1) \<Rightarrow>
          (let tplPath = (if path_isAbsolute w tpl then Some (tpl @ extname h1) else found)
           in case tplPath of
                None \<Rightarrow> (Inl (MissingTemplateError ''The template specified does not exist.'' tplPath), h1)
              | Some p \<Rightarrow>
                  if p = []
                  then (Inl (MissingTemplateError ''The template specified does not exist.'' tplPath), h1)
                  else (Inr p, h1)))"

text \<open>
  \<open>render w h ctx tpl callData\<close> is \<^verbatim>\<open>ctx.render(tpl, callData)\<close> on the instance \<open>h\<close> in
  the world \<open>w\<close>: the rejection or the request with its new \<^verbatim>\<open>body\<close>, and the instance
  as the call leaves it, also when it is rejected half way. A call runs from its first
  line to its last: two renders that overlap at an \<^verbatim>\<open>await\<close> are not modelled.
\<close>

definition render ::
  "world \<Rightarrow> hbs \<Rightarrow> koa_ctx \<Rightarrow> string \<Rightarrow> obj option \<Rightarrow> (error + koa_ctx) \<times> hbs" where
  "render w h ctx tpl callData =
     (case resolveTemplate w h tpl of
        (Inl e, h1) \<Rightarrow> (Inl e, h1)
      | (Inr tplPath, h1) \<Rightarrow>
          (let merged = mergeLocals h1 ctx callData;
               h2 = ensurePartials w h1
           in case cacheTemplate w h2 tpl tplPath merged of
                (Inl e, h3) \<Rightarrow> (Inl e, h3)
              | (Inr u, h3) \<Rightarrow>
                  (case cache h3 tpl of
                     None \<Rightarrow> (Inl (TypeError ''Cannot read properties of undefined''), h3)
                   | Some e \<Rightarrow>
                       (case pickLayout w h3 e of
                          (lt, h4) \<Rightarrow> runTemplates (template e) lt ctx merged h4))))"

text \<open>A sequence of render calls on one instance, each in its own world.\<close>

fun renders :: "(world \<times> koa_ctx \<times> string \<times> obj option) list \<Rightarrow> hbs \<Rightarrow> hbs" where
  "renders [] h = h"
| "renders ((w, ctx, tpl, callData) # calls) h = renders calls (snd (render w h ctx tpl callData))"

section \<open>Notions the properties are stated with\<close>

text \<open>
  A name is warm on an instance when caching is enabled, the path cache holds a truthy
  path for it, and the template cache holds an entry for it that has a layout, its own or
  the one of the default layout slot.
\<close>

definition warm :: "hbs \<Rightarrow> string \<Rightarrow> bool" where
  "warm h tpl =
     (\<not> disableCache h
      \<and> (case pathCache h tpl of None \<Rightarrow> False | Some p \<Rightarrow> p \<noteq> [])
      \<and> (case cache h tpl of
            None \<Rightarrow> False
          | Some e \<Rightarrow> entryLayoutTemplate e \<noteq> None \<or> layoutTemplate h \<noteq> None))"

text \<open>The events a call has added to the trace, between the instance before and after.\<close>

definition newEvents :: "hbs \<Rightarrow> hbs \<Rightarrow> event list" where
  "newEvents h h' = drop (length (trace h)) (trace h')"

text \<open>
  The events of a partial registration on the instance \<open>h\<close>: the globs of its partial
  roots, the reads of the files these globs list, and the log. No \<^verbatim>\<open>statSync\<close> and no
  \<^verbatim>\<open>compile\<close> is among them.
\<close>

definition globbed :: "world \<Rightarrow> hbs \<Rightarrow> string list list" where
  "globbed w h =
     map (\<lambda>root. case glob w (''**/*'' @ extname h) root of None \<Rightarrow> [] | Some fs \<Rightarrow> fs)
       (partialRoots h)"


text \<open>
  The two parallel arrays \<^verbatim>\<open>names\<close> and \<^verbatim>\<open>files\<close> that \<^verbatim>\<open>registerPartials\<close> builds, as one
  list of pairs: the name and the path of every file the globs list.
\<close>

definition partialPairs :: "world \<Rightarrow> nat \<Rightarrow> string list \<Rightarrow> string list list \<Rightarrow> (string \<times> string) list" where
  "partialPairs w n roots resultList =
     concat (map (\<lambda>(root, result). map (\<lambda>f. (sliceOff f n, path_join w root f)) result)
       (zip roots resultList))"

text \<open>
  The names the model is about. The code keeps \<^verbatim>\<open>pathCache\<close>, \<^verbatim>\<open>cache\<close>, \<^verbatim>\<open>blocks\<close> and the
  merged data in plain objects, which answer the property names of \<^verbatim>\<open>Object.prototype\<close>
  through their prototype chain; a template name, a block name or a data key that is one
  of \<open>protoNames\<close> is outside the model. \<open>plainName\<close>, \<open>plainObj\<close> and \<open>plainCalls\<close> say of a
  name, of the keys of an object and of the template names and data of a sequence of
  render calls that they are inside it.
\<close>

definition protoNames :: "string list" where
  "protoNames =
     [''constructor'', ''hasOwnProperty'', ''isPrototypeOf'', ''propertyIsEnumerable'',
      ''toLocaleString'', ''toString'', ''valueOf'', ''__proto__'', ''__defineGetter__'',
      ''__defineSetter__'', ''__lookupGetter__'', ''__lookupSetter__'']"

definition plainName :: "string \<Rightarrow> bool" where
  "plainName n = (n \<notin> set protoNames)"

definition plainObj :: "obj \<Rightarrow> bool" where
  "plainObj ob = list_all plainName (map fst ob)"


text \<open>The instance \<open>h\<close> with the entry \<open>e\<close> stored for the name and the events \<open>evs\<close> added to
  the trace.\<close>

definition withEntry :: "hbs \<Rightarrow> string \<Rightarrow> cache_entry \<Rightarrow> event list \<Rightarrow> hbs" where
  "withEntry h tpl e evs = emit evs (h\<lparr>cache := (cache h)(tpl \<mapsto> e)\<rparr>)"

section \<open>A small world to run the model in\<close>

text \<open>
  The theorems below hold for every world. To run the model, \<open>demoWorld\<close> has a handful
  of files under \<^verbatim>\<open>/views\<close> and \<^verbatim>\<open>/partials\<close>, POSIX paths, and an engine that knows the
  templates of these files: text, the \<^verbatim>\<open>body\<close> variable, one call of the content helper
  and one call of the block helper.
\<close>

definition textTemplate :: "string \<Rightarrow> template" where
  "textTemplate s = (\<lambda>ctx d tab bs. (Inr s, bs))"

definition bodyTemplate :: "string \<Rightarrow> string \<Rightarrow> template" where
  "bodyTemplate pre post = (\<lambda>ctx d tab bs. (Inr (pre @ toString (getProp d ''body'') @ post), bs))"

definition contentTemplate :: "string \<Rightarrow> string \<Rightarrow> string \<Rightarrow> template" where
  "contentTemplate name frag rest =
     (\<lambda>ctx d tab bs.
        case contentHelper bs name (\<lambda>b. (Inr frag, b)) of
          (Inl e, bs1) \<Rightarrow> (Inl e, bs1)
        | (Inr u, bs1) \<Rightarrow> (Inr rest, bs1))"

definition blockTemplate :: "string \<Rightarrow> string \<Rightarrow> string \<Rightarrow> template" where
  "blockTemplate pre name post =
     (\<lambda>ctx d tab bs.
        case blockHelper bs name None of
          (Inl e, bs1) \<Rightarrow> (Inl e, bs1)
        | (Inr v, bs1) \<Rightarrow> (Inr (pre @ v @ post @ toString (getProp d ''body'')), bs1))"

definition demoCompile :: "string \<Rightarrow> template" where
  "demoCompile src =
     (if src = ''{{{body}}}'' then bodyTemplate [] []
      else if src = ''<html>{{{body}}}</html>'' then bodyTemplate ''<html>'' ''</html>''
      else if src = ''{{#contentFor title}}Home{{/contentFor}}<p>hi</p>''
        then contentTemplate ''title'' ''Home'' ''<p>hi</p>''
      else if src = ''<title>{{{block title}}}</title>{{{body}}}''
        then blockTemplate ''<title>'' ''title'' ''</title>''
      else textTemplate src)"

definition demoFiles :: "string \<Rightarrow> string option" where
  "demoFiles p =
     (if p = ''/views/home.hbs'' then Some ''<p>hi</p>''
      else if p = ''/views/main.hbs'' then Some ''<html>{{{body}}}</html>''
      else if p = ''/views/post.hbs'' then Some ''{{!< main}}<p>post</p>''
      else if p = ''/views/late.hbs'' then Some (''<p>late</p>'' @ [CHR 0x0A] @ ''{{!< main}}'')
      else if p = ''/views/head.hbs'' then Some ''{{#contentFor title}}Home{{/contentFor}}<p>hi</p>''
      else if p = ''/views/titled.hbs'' then Some ''<title>{{{block title}}}</title>{{{body}}}''
      else if p = ''/partials/nav.hbs'' then Some ''<nav></nav>''
      else if p = ''/partials/sub/dir/name.hbs'' then Some ''<b></b>''
      else None)"

definition demoWorld :: world where
  "demoWorld = \<lparr>
     statSync = (\<lambda>p. demoFiles p \<noteq> None),
     readFile = demoFiles,
     glob = (\<lambda>pat cwd. if pat = ''**/*.hbs'' \<and> cwd = ''/partials''
                          then Some [''nav.hbs'', ''sub/dir/name.hbs''] else Some []),
     path_join = (\<lambda>a b. a @ ''/'' @ b),
     path_isAbsolute = (\<lambda>p. case p of [] \<Rightarrow> False | c # cs \<Rightarrow> c = CHR ''/''),
     compile = demoCompile \<rparr>"

definition demoOptions :: options where
  "demoOptions = \<lparr>
     opt_viewPath = Some (PathStr ''/views''),
     opt_extname = None,
     opt_partialsPath = None,
     opt_defaultLayout = None,
     opt_layoutsPath = None,
     opt_locals = None,
     opt_disableCache = None \<rparr>"

text \<open>The instance \<^verbatim>\<open>configure(demoOptions)\<close> returns, and a request with no state.\<close>

definition demoHbs :: hbs where
  "demoHbs = \<lparr>
     viewPath = [''/views''],
     extname = ''.hbs'',
     partialsPath = PathList [],
     defaultLayout = [],
     layoutsPath = [],
     locals = [],
     disableCache = False,
     partialsRegistered = False,
     cache = Map.empty,
     pathCache = Map.empty,
     blocks = Map.empty,
     layoutTemplate = None,
     partials = Map.empty,
     trace = [] \<rparr>"

definition demoCtx :: koa_ctx where
  "demoCtx = \<lparr> state = None, body = None \<rparr>"



text \<open>An instance with a partial root.\<close>

definition demoPartialsHbs :: hbs where
  "demoPartialsHbs = demoHbs\<lparr>partialsPath := PathStr ''/partials''\<rparr>"

text \<open>The instance after \<^verbatim>\<open>home\<close> has been rendered in the layout \<^verbatim>\<open>main\<close>, and the instance
  after \<^verbatim>\<open>post\<close> has been rendered with no data.\<close>

definition demoAfterMain :: hbs where
  "demoAfterMain = snd (render demoWorld demoHbs demoCtx ''home'' (Some [(''layout'', JStr ''main'')]))"

definition demoAfterPost :: hbs where
  "demoAfterPost = snd (render demoWorld demoHbs demoCtx ''post'' None)"

text \<open>The instance \<^verbatim>\<open>configure\<close> returns when the default layout \<^verbatim>\<open>missing\<close> is asked for;
  no file \<^verbatim>\<open>/views/missing.hbs\<close> exists.\<close>

definition demoMissingHbs :: hbs where
  "demoMissingHbs = demoHbs\<lparr>defaultLayout := ''missing''\<rparr>"

text \<open>
  An instance whose default layout is \<^verbatim>\<open>main\<close>, and the same instance after a render of
  \<^verbatim>\<open>home\<close> that asked for the layout \<^verbatim>\<open>absent\<close>, which has no file, and was rejected.
\<close>

definition demoMainHbs :: hbs where
  "demoMainHbs = demoHbs\<lparr>defaultLayout := ''main''\<rparr>"

definition demoAfterRejected :: hbs where
  "demoAfterRejected =
     snd (render demoWorld demoMainHbs demoCtx ''home'' (Some [(''layout'', JStr ''absent'')]))"




definition demoAfterHead :: hbs where
  "demoAfterHead = snd (render demoWorld demoHbs demoCtx ''head'' None)"



section \<open>Objects and \<^verbatim>\<open>merge\<close>\<close>

lemma map_of_setProp:
  "map_of (setProp ob k v) = (map_of ob)(k \<mapsto> v)"
  by (simp add: setProp_def update_conv')

lemma fold_assign_lookup:
  "map_of (fold (\<lambda>k c. setProp c k (f k)) ks c0) k =
     (if k \<in> set ks then Some (f k) else map_of c0 k)"
  by (induction ks arbitrary: c0) (auto simp: map_of_setProp)

lemma fold_fill_lookup:
  "map_of (fold (\<lambda>k c. if \<not> hasOwn c k then setProp c k (f k) else c) ks c0) k =
     (case map_of c0 k of Some v \<Rightarrow> Some v
      | None \<Rightarrow> if k \<in> set ks then Some (f k) else None)"
  by (induction ks arbitrary: c0) (auto simp: map_of_setProp hasOwn_def split: option.splits)

lemma in_keys: "k \<in> set (keys ob) \<longleftrightarrow> map_of ob k \<noteq> None"
  by (simp add: keys_def map_of_eq_None_iff)

lemma map_of_merge:
  "map_of (merge obj1 obj2) k =
     (case map_of obj2 k of Some v \<Rightarrow> Some v | None \<Rightarrow> map_of obj1 k)"
  by (auto simp: merge_def Let_def fold_fill_lookup fold_assign_lookup in_keys getProp_def
           split: option.splits)

lemma getProp_merge:
  "getProp (merge obj1 obj2) k = (if hasOwn obj2 k then getProp obj2 k else getProp obj1 k)"
  by (simp add: getProp_def hasOwn_def map_of_merge split: option.splits)

section \<open>What each step leaves alone\<close>

text \<open>Evaluation of the model on closed inputs unfolds these definitions.\<close>

lemmas model_defs =
  render_def resolveTemplate_def getTemplatePath_def mergeLocals_def orEmpty_def
  ensurePartials_def registerPartials_def partialRoots_def partialFiles_def partialNames_def
  sliceOff_def caught_def cacheTemplate_def chooseLayout_def setEntryLayout_def
  loadLayoutFile_def getLayoutPath_def pickLayout_def getLayoutTemplate_def cacheLayout_def
  falsy_def runTemplates_def layoutData_def emit_def merge_def keys_def hasOwn_def
  getProp_def setProp_def rLayoutTest_def matchHere_def stripPrefix_def isSpace_def
  isNameChar_def block_def content_def blockHelper_def contentHelper_def fragments_def
  Let_def

lemmas demo_defs =
  demoWorld_def demoHbs_def demoCtx_def demoFiles_def demoCompile_def textTemplate_def
  bodyTemplate_def contentTemplate_def blockTemplate_def


lemma emit_fields [simp]:
  "viewPath (emit evs h) = viewPath h" "extname (emit evs h) = extname h"
  "partialsPath (emit evs h) = partialsPath h" "defaultLayout (emit evs h) = defaultLayout h"
  "layoutsPath (emit evs h) = layoutsPath h" "locals (emit evs h) = locals h"
  "disableCache (emit evs h) = disableCache h"
  "partialsRegistered (emit evs h) = partialsRegistered h"
  "cache (emit evs h) = cache h" "pathCache (emit evs h) = pathCache h"
  "blocks (emit evs h) = blocks h" "layoutTemplate (emit evs h) = layoutTemplate h"
  "partials (emit evs h) = partials h" "trace (emit evs h) = trace h @ evs"
  by (simp_all add: emit_def)

lemma probe_fields [simp]:
  "viewPath (snd (probe w h tpl roots)) = viewPath h"
  "extname (snd (probe w h tpl roots)) = extname h"
  "partialsPath (snd (probe w h tpl roots)) = partialsPath h"
  "defaultLayout (snd (probe w h tpl roots)) = defaultLayout h"
  "layoutsPath (snd (probe w h tpl roots)) = layoutsPath h"
  "locals (snd (probe w h tpl roots)) = locals h"
  "disableCache (snd (probe w h tpl roots)) = disableCache h"
  "partialsRegistered (snd (probe w h tpl roots)) = partialsRegistered h"
  "cache (snd (probe w h tpl roots)) = cache h"
  "blocks (snd (probe w h tpl roots)) = blocks h"
  "layoutTemplate (snd (probe w h tpl roots)) = layoutTemplate h"
  "partials (snd (probe w h tpl roots)) = partials h"
  by (induction roots arbitrary: h, simp, simp add: Let_def)+




lemma getTemplatePath_fields [simp]:
  "viewPath (snd (getTemplatePath w h tpl)) = viewPath h"
  "extname (snd (getTemplatePath w h tpl)) = extname h"
  "partialsPath (snd (getTemplatePath w h tpl)) = partialsPath h"
  "defaultLayout (snd (getTemplatePath w h tpl)) = defaultLayout h"
  "layoutsPath (snd (getTemplatePath w h tpl)) = layoutsPath h"
  "locals (snd (getTemplatePath w h tpl)) = locals h"
  "disableCache (snd (getTemplatePath w h tpl)) = disableCache h"
  "partialsRegistered (snd (getTemplatePath w h tpl)) = partialsRegistered h"
  "cache (snd (getTemplatePath w h tpl)) = cache h"
  "blocks (snd (getTemplatePath w h tpl)) = blocks h"
  "layoutTemplate (snd (getTemplatePath w h tpl)) = layoutTemplate h"
  "partials (snd (getTemplatePath w h tpl)) = partials h"
  by (simp_all add: getTemplatePath_def split: option.splits)

lemma resolveTemplate_snd:
  "snd (resolveTemplate w h tpl) = snd (getTemplatePath w h tpl)"
  by (simp add: resolveTemplate_def Let_def split: prod.splits option.splits)

lemma caught_fields [simp]:
  "viewPath (caught e h) = viewPath h" "extname (caught e h) = extname h"
  "partialsPath (caught e h) = partialsPath h" "defaultLayout (caught e h) = defaultLayout h"
  "layoutsPath (caught e h) = layoutsPath h" "locals (caught e h) = locals h"
  "disableCache (caught e h) = disableCache h"
  "partialsRegistered (caught e h) = partialsRegistered h"
  "cache (caught e h) = cache h" "pathCache (caught e h) = pathCache h"
  "blocks (caught e h) = blocks h" "layoutTemplate (caught e h) = layoutTemplate h"
  "partials (caught e h) = partials h"
  by (simp_all add: caught_def)

lemma registerPartials_fields [simp]:
  "viewPath (registerPartials w h) = viewPath h"
  "extname (registerPartials w h) = extname h"
  "defaultLayout (registerPartials w h) = defaultLayout h"
  "layoutsPath (registerPartials w h) = layoutsPath h"
  "locals (registerPartials w h) = locals h"
  "disableCache (registerPartials w h) = disableCache h"
  "cache (registerPartials w h) = cache h"
  "pathCache (registerPartials w h) = pathCache h"
  "blocks (registerPartials w h) = blocks h"
  "layoutTemplate (registerPartials w h) = layoutTemplate h"
  by (simp_all add: registerPartials_def Let_def)

lemma ensurePartials_fields [simp]:
  "viewPath (ensurePartials w h) = viewPath h"
  "extname (ensurePartials w h) = extname h"
  "defaultLayout (ensurePartials w h) = defaultLayout h"
  "layoutsPath (ensurePartials w h) = layoutsPath h"
  "locals (ensurePartials w h) = locals h"
  "disableCache (ensurePartials w h) = disableCache h"
  "cache (ensurePartials w h) = cache h"
  "pathCache (ensurePartials w h) = pathCache h"
  "blocks (ensurePartials w h) = blocks h"
  "layoutTemplate (ensurePartials w h) = layoutTemplate h"
  by (simp_all add: ensurePartials_def)

lemma loadLayoutFile_fields [simp]:
  "viewPath (snd (loadLayoutFile w h l)) = viewPath h"
  "extname (snd (loadLayoutFile w h l)) = extname h"
  "partialsPath (snd (loadLayoutFile w h l)) = partialsPath h"
  "defaultLayout (snd (loadLayoutFile w h l)) = defaultLayout h"
  "layoutsPath (snd (loadLayoutFile w h l)) = layoutsPath h"
  "locals (snd (loadLayoutFile w h l)) = locals h"
  "disableCache (snd (loadLayoutFile w h l)) = disableCache h"
  "partialsRegistered (snd (loadLayoutFile w h l)) = partialsRegistered h"
  "cache (snd (loadLayoutFile w h l)) = cache h"
  "pathCache (snd (loadLayoutFile w h l)) = pathCache h"
  "blocks (snd (loadLayoutFile w h l)) = blocks h"
  "layoutTemplate (snd (loadLayoutFile w h l)) = layoutTemplate h"
  "partials (snd (loadLayoutFile w h l)) = partials h"
  by (simp_all add: loadLayoutFile_def split: sum.splits option.splits)


lemma emit_emit [simp]: "emit evs (emit evs' h) = emit (evs' @ evs) h"
  by (simp add: emit_def)

lemma emit_Nil [simp]: "emit [] h = h"
  by (simp add: emit_def)

lemma loadLayoutFile_snd: "\<exists>evs. snd (loadLayoutFile w h l) = emit evs h"
proof (cases "getLayoutPath w h l")
  case (Inl e)
  then have "snd (loadLayoutFile w h l) = emit [] h"
    by (simp add: loadLayoutFile_def)
  then show ?thesis by blast
next
  case (Inr fl)
  then have "snd (loadLayoutFile w h l) = emit [ReadFile fl] h"
    by (simp add: loadLayoutFile_def split: option.splits)
  then show ?thesis by blast
qed

lemma cacheLayout_snd: "\<exists>evs. snd (cacheLayout w h l) = emit evs h"
proof (cases "falsy l \<and> defaultLayout h = []")
  case True
  then have "snd (cacheLayout w h l) = emit [Compile ''{{{body}}}''] h"
    by (simp add: cacheLayout_def)
  then show ?thesis by blast
next
  case False
  define l1 where "l1 = (case l of None \<Rightarrow> defaultLayout h | Some x \<Rightarrow> if x = [] then defaultLayout h else x)"
  obtain r h1 where ld: "loadLayoutFile w h (JStr l1) = (r, h1)"
    by (cases "loadLayoutFile w h (JStr l1)")
  obtain evs where h1: "h1 = emit evs h"
    using loadLayoutFile_snd [of w h "JStr l1"] ld by auto
  from False ld have "\<exists>evs'. snd (cacheLayout w h l) = emit evs' h1"
    by (cases r) (auto simp: cacheLayout_def Let_def l1_def)
  with h1 show ?thesis by auto
qed

lemma cacheLayout_fields [simp]:
  "viewPath (snd (cacheLayout w h l)) = viewPath h"
  "extname (snd (cacheLayout w h l)) = extname h"
  "partialsPath (snd (cacheLayout w h l)) = partialsPath h"
  "defaultLayout (snd (cacheLayout w h l)) = defaultLayout h"
  "layoutsPath (snd (cacheLayout w h l)) = layoutsPath h"
  "locals (snd (cacheLayout w h l)) = locals h"
  "disableCache (snd (cacheLayout w h l)) = disableCache h"
  "partialsRegistered (snd (cacheLayout w h l)) = partialsRegistered h"
  "cache (snd (cacheLayout w h l)) = cache h"
  "pathCache (snd (cacheLayout w h l)) = pathCache h"
  "blocks (snd (cacheLayout w h l)) = blocks h"
  "layoutTemplate (snd (cacheLayout w h l)) = layoutTemplate h"
  "partials (snd (cacheLayout w h l)) = partials h"
  using cacheLayout_snd [of w h l] by auto

lemma getLayoutTemplate_fields [simp]:
  "viewPath (snd (getLayoutTemplate w h)) = viewPath h"
  "extname (snd (getLayoutTemplate w h)) = extname h"
  "partialsPath (snd (getLayoutTemplate w h)) = partialsPath h"
  "defaultLayout (snd (getLayoutTemplate w h)) = defaultLayout h"
  "layoutsPath (snd (getLayoutTemplate w h)) = layoutsPath h"
  "locals (snd (getLayoutTemplate w h)) = locals h"
  "disableCache (snd (getLayoutTemplate w h)) = disableCache h"
  "partialsRegistered (snd (getLayoutTemplate w h)) = partialsRegistered h"
  "cache (snd (getLayoutTemplate w h)) = cache h"
  "pathCache (snd (getLayoutTemplate w h)) = pathCache h"
  "blocks (snd (getLayoutTemplate w h)) = blocks h"
  "partials (snd (getLayoutTemplate w h)) = partials h"
  by (simp_all add: getLayoutTemplate_def split: prod.splits)
    (metis cacheLayout_fields snd_conv)+

lemma getLayoutTemplate_result:
  "layoutTemplate (snd (getLayoutTemplate w h)) = fst (getLayoutTemplate w h)"
  by (simp add: getLayoutTemplate_def split: prod.splits)

lemma getLayoutTemplate_cached:
  "\<not> disableCache h \<Longrightarrow> layoutTemplate h = Some t \<Longrightarrow> getLayoutTemplate w h = (Some t, h)"
  by (simp add: getLayoutTemplate_def)

lemma setEntryLayout_fields [simp]:
  "viewPath (snd (setEntryLayout h tpl t src)) = viewPath h"
  "extname (snd (setEntryLayout h tpl t src)) = extname h"
  "partialsPath (snd (setEntryLayout h tpl t src)) = partialsPath h"
  "defaultLayout (snd (setEntryLayout h tpl t src)) = defaultLayout h"
  "layoutsPath (snd (setEntryLayout h tpl t src)) = layoutsPath h"
  "locals (snd (setEntryLayout h tpl t src)) = locals h"
  "disableCache (snd (setEntryLayout h tpl t src)) = disableCache h"
  "partialsRegistered (snd (setEntryLayout h tpl t src)) = partialsRegistered h"
  "pathCache (snd (setEntryLayout h tpl t src)) = pathCache h"
  "blocks (snd (setEntryLayout h tpl t src)) = blocks h"
  "layoutTemplate (snd (setEntryLayout h tpl t src)) = layoutTemplate h"
  "partials (snd (setEntryLayout h tpl t src)) = partials h"
  by (simp_all add: setEntryLayout_def split: option.splits)

lemma setEntryLayout_other:
  "x \<noteq> tpl \<Longrightarrow> cache (snd (setEntryLayout h tpl t src)) x = cache h x"
  by (simp add: setEntryLayout_def split: option.splits)

lemma loadLayoutFileE:
  "loadLayoutFile w h l = (r, h') \<Longrightarrow> \<exists>evs. h' = emit evs h"
  using loadLayoutFile_snd [of w h l] by simp

lemma setEntryLayoutE:
  "setEntryLayout h tpl t src = (r, h') \<Longrightarrow>
     \<exists>c. h' = emit [Compile src] (h\<lparr>cache := c\<rparr>) \<and> (\<forall>x. x \<noteq> tpl \<longrightarrow> c x = cache h x)"
proof (cases "cache h tpl")
  case None
  assume "setEntryLayout h tpl t src = (r, h')"
  with None have "h' = emit [Compile src] (h\<lparr>cache := cache h\<rparr>)"
    by (simp add: setEntryLayout_def)
  then show ?thesis by blast
next
  case (Some e)
  assume "setEntryLayout h tpl t src = (r, h')"
  with Some have "h' = emit [Compile src] (h\<lparr>cache := (cache h)(tpl \<mapsto> e\<lparr>entryLayoutTemplate := Some t\<rparr>)\<rparr>)"
    by (auto simp: setEntryLayout_def)
  then show ?thesis by (intro exI [of _ "(cache h)(tpl \<mapsto> e\<lparr>entryLayoutTemplate := Some t\<rparr>)"]) simp
qed

lemma emit_cache_upd: "emit evs (h\<lparr>cache := c\<rparr>) = (emit evs h)\<lparr>cache := c\<rparr>"
  by (simp add: emit_def)

lemma cacheTemplate_hit:
  "\<not> disableCache h \<Longrightarrow> cache h tpl = Some e \<Longrightarrow> cacheTemplate w h tpl p m = (Inr (), h)"
  by (simp add: cacheTemplate_def)

lemma cacheTemplateE:
  assumes "cacheTemplate w h tpl p m = (r, h')"
  shows "\<exists>evs c. h' = emit evs (h\<lparr>cache := c\<rparr>) \<and> (\<forall>x. x \<noteq> tpl \<longrightarrow> c x = cache h x)"
proof (cases "disableCache h \<or> cache h tpl = None")
  case False
  with assms have "h' = emit [] (h\<lparr>cache := cache h\<rparr>)"
    by (simp add: cacheTemplate_def)
  then show ?thesis by blast
next
  case miss: True
  show ?thesis
  proof (cases "readFile w p")
    case None
    with miss assms have "h' = emit [ReadFile p] (h\<lparr>cache := cache h\<rparr>)"
      by (auto simp: cacheTemplate_def)
    then show ?thesis by blast
  next
    case (Some raw)
    define c1 where "c1 = (cache h)(tpl \<mapsto> \<lparr>template = compile w raw, entryLayoutTemplate = None\<rparr>)"
    define h1 where "h1 = emit [ReadFile p, Compile raw] (h\<lparr>cache := c1\<rparr>)"
    have c1: "\<forall>x. x \<noteq> tpl \<longrightarrow> c1 x = cache h x" by (simp add: c1_def)
    have ct: "cacheTemplate w h tpl p m =
        (if getProp m ''layout'' \<noteq> JUndefined \<or> rLayoutTest raw
         then (case chooseLayout m raw of
                  None \<Rightarrow> (Inl (TypeError ''Cannot read properties of null''), h1)
                | Some layout \<Rightarrow>
                    if layout \<noteq> JBool False
                    then (case loadLayoutFile w h1 layout of
                            (Inl e, h2) \<Rightarrow> (Inl e, h2)
                          | (Inr rawLayout, h2) \<Rightarrow> setEntryLayout h2 tpl (compile w rawLayout) rawLayout)
                    else setEntryLayout h1 tpl (compile w ''{{{body}}}'') ''{{{body}}}'')
         else (Inr (), h1))"
      unfolding h1_def c1_def cacheTemplate_def Let_def using miss Some by auto
    have base: "\<exists>evs c. h1 = emit evs (h\<lparr>cache := c\<rparr>) \<and> (\<forall>x. x \<noteq> tpl \<longrightarrow> c x = cache h x)"
      using c1 h1_def by blast
    have step_set: "\<exists>evs c. h'' = emit evs (h\<lparr>cache := c\<rparr>) \<and> (\<forall>x. x \<noteq> tpl \<longrightarrow> c x = cache h x)"
      if "setEntryLayout (emit evs0 (h\<lparr>cache := c1\<rparr>)) tpl t src = (r', h'')" for evs0 t src r' h''
    proof -
      from setEntryLayoutE [OF that] obtain c where
        c: "h'' = emit [Compile src] (emit evs0 (h\<lparr>cache := c1\<rparr>)\<lparr>cache := c\<rparr>)"
           "\<forall>x. x \<noteq> tpl \<longrightarrow> c x = cache (emit evs0 (h\<lparr>cache := c1\<rparr>)) x"
        by blast
      have "h'' = emit (evs0 @ [Compile src]) (h\<lparr>cache := c\<rparr>)"
        using c(1) by (simp add: emit_def)
      moreover have "\<forall>x. x \<noteq> tpl \<longrightarrow> c x = cache h x"
        using c(2) c1 by simp
      ultimately show ?thesis by blast
    qed
    show ?thesis
    proof (cases "getProp m ''layout'' \<noteq> JUndefined \<or> rLayoutTest raw")
      case False
      with ct assms have "h' = h1" by simp
      with base show ?thesis by simp
    next
      case True
      show ?thesis
      proof (cases "chooseLayout m raw")
        case None
        with True ct assms have "h' = h1" by simp
        with base show ?thesis by simp
      next
        case (Some layout)
        show ?thesis
        proof (cases "layout = JBool False")
          case True
          with Some \<open>getProp m ''layout'' \<noteq> JUndefined \<or> rLayoutTest raw\<close> ct assms
          have "setEntryLayout h1 tpl (compile w ''{{{body}}}'') ''{{{body}}}'' = (r, h')"
            by simp
          then show ?thesis unfolding h1_def by (rule step_set)
        next
          case False
          obtain r2 h2 where ld: "loadLayoutFile w h1 layout = (r2, h2)"
            by (cases "loadLayoutFile w h1 layout")
          from loadLayoutFileE [OF ld] obtain evs2 where h2: "h2 = emit evs2 h1" by blast
          show ?thesis
          proof (cases r2)
            case (Inl e)
            with False Some ld \<open>getProp m ''layout'' \<noteq> JUndefined \<or> rLayoutTest raw\<close> ct assms
            have "h' = h2" by simp
            with h2 have "h' = emit ([ReadFile p, Compile raw] @ evs2) (h\<lparr>cache := c1\<rparr>)"
              by (simp add: h1_def)
            with c1 show ?thesis by blast
          next
            case (Inr rawLayout)
            with False Some ld \<open>getProp m ''layout'' \<noteq> JUndefined \<or> rLayoutTest raw\<close> ct assms
            have "setEntryLayout h2 tpl (compile w rawLayout) rawLayout = (r, h')" by simp
            then have "setEntryLayout (emit ([ReadFile p, Compile raw] @ evs2) (h\<lparr>cache := c1\<rparr>))
                          tpl (compile w rawLayout) rawLayout = (r, h')"
              by (simp add: h2 h1_def)
            then show ?thesis by (rule step_set)
          qed
        qed
      qed
    qed
  qed
qed

section \<open>What a successful render has done\<close>


lemma resolveTemplateE:
  "resolveTemplate w h tpl = (r, h1) \<Longrightarrow> h1 = snd (getTemplatePath w h tpl)"
  using resolveTemplate_snd [of w h tpl] by simp

lemma runTemplates_success:
  assumes "runTemplates t lt ctx m h = (Inr ctx', h')"
  shows "\<exists>l b bs out. lt = Some l \<and> t ctx m (partials h) (blocks h) = (Inr b, bs)
           \<and> l ctx (layoutData m b) (partials h) bs = (Inr out, blocks h')
           \<and> ctx' = ctx\<lparr>body := Some out\<rparr> \<and> h' = h\<lparr>blocks := blocks h'\<rparr>"
  using assms
  by (auto simp: runTemplates_def split: prod.splits sum.splits option.splits)

lemma pickLayoutE:
  assumes "pickLayout w h e = (lt, h')"
  shows "(entryLayoutTemplate e = lt \<and> lt \<noteq> None \<and> h' = h)
       \<or> (entryLayoutTemplate e = None \<and> getLayoutTemplate w h = (lt, h'))"
  using assms by (auto simp: pickLayout_def split: option.splits)

lemma render_success:
  assumes "render w h ctx tpl callData = (Inr ctx', h')"
  shows "\<exists>p h1 h3 e l h4 b bs out.
           resolveTemplate w h tpl = (Inr p, h1)
         \<and> cacheTemplate w (ensurePartials w h1) tpl p (mergeLocals h ctx callData) = (Inr (), h3)
         \<and> cache h3 tpl = Some e
         \<and> pickLayout w h3 e = (Some l, h4)
         \<and> template e ctx (mergeLocals h ctx callData) (partials h4) (blocks h4) = (Inr b, bs)
         \<and> l ctx (layoutData (mergeLocals h ctx callData) b) (partials h4) bs = (Inr out, blocks h')
         \<and> ctx' = ctx\<lparr>body := Some out\<rparr> \<and> h' = h4\<lparr>blocks := blocks h'\<rparr>"
proof -
  obtain r1 h1 where r1: "resolveTemplate w h tpl = (r1, h1)"
    by (cases "resolveTemplate w h tpl")
  from assms r1 obtain p where p: "r1 = Inr p"
    by (cases r1) (auto simp: render_def)
  have h1: "h1 = snd (getTemplatePath w h tpl)" using r1 by (rule resolveTemplateE)
  have m: "mergeLocals h1 ctx callData = mergeLocals h ctx callData"
    by (simp add: mergeLocals_def h1)
  obtain r3 h3 where r3: "cacheTemplate w (ensurePartials w h1) tpl p (mergeLocals h ctx callData) = (r3, h3)"
    by (cases "cacheTemplate w (ensurePartials w h1) tpl p (mergeLocals h ctx callData)")
  from assms r1 p r3 m have r3': "r3 = Inr ()"
    by (cases r3) (auto simp: render_def Let_def)
  from assms r1 p r3 m r3' obtain e where e: "cache h3 tpl = Some e"
    by (cases "cache h3 tpl") (auto simp: render_def Let_def)
  obtain lt h4 where pl: "pickLayout w h3 e = (lt, h4)"
    by (cases "pickLayout w h3 e")
  from assms r1 p r3 m r3' e pl have rt: "runTemplates (template e) lt ctx (mergeLocals h ctx callData) h4 = (Inr ctx', h')"
    by (simp add: render_def Let_def)
  from runTemplates_success [OF rt] r1 p r3 r3' e pl show ?thesis
    by blast
qed

lemma pickLayout_fields:
  assumes "pickLayout w h e = (lt, h')"
  shows "cache h' = cache h" "blocks h' = blocks h" "partials h' = partials h"
        "locals h' = locals h" "disableCache h' = disableCache h" "pathCache h' = pathCache h"
        "partialsRegistered h' = partialsRegistered h" "partialsPath h' = partialsPath h"
        "viewPath h' = viewPath h" "extname h' = extname h"
        "entryLayoutTemplate e = None \<Longrightarrow> layoutTemplate h' = lt"
proof -
  from pickLayoutE [OF assms] consider
    (own) "entryLayoutTemplate e = lt" "lt \<noteq> None" "h' = h"
    | (dflt) "entryLayoutTemplate e = None" "getLayoutTemplate w h = (lt, h')"
    by fastforce
  then have "cache h' = cache h \<and> blocks h' = blocks h \<and> partials h' = partials h
      \<and> locals h' = locals h \<and> disableCache h' = disableCache h \<and> pathCache h' = pathCache h
      \<and> partialsRegistered h' = partialsRegistered h \<and> partialsPath h' = partialsPath h
      \<and> viewPath h' = viewPath h \<and> extname h' = extname h
      \<and> (entryLayoutTemplate e = None \<longrightarrow> layoutTemplate h' = lt)"
  proof cases
    case own
    then show ?thesis by auto
  next
    case dflt
    then have h': "h' = snd (getLayoutTemplate w h)" and lt: "lt = fst (getLayoutTemplate w h)"
      by simp_all
    show ?thesis unfolding h' lt by (simp add: getLayoutTemplate_result)
  qed
  then show "cache h' = cache h" "blocks h' = blocks h" "partials h' = partials h"
        "locals h' = locals h" "disableCache h' = disableCache h" "pathCache h' = pathCache h"
        "partialsRegistered h' = partialsRegistered h" "partialsPath h' = partialsPath h"
        "viewPath h' = viewPath h" "extname h' = extname h"
        "entryLayoutTemplate e = None \<Longrightarrow> layoutTemplate h' = lt"
    by simp_all
qed

lemma render_templates:
  assumes "render w h ctx tpl callData = (Inr ctx', h')"
  shows "\<exists>e l b bs out.
           cache h' tpl = Some e
         \<and> (entryLayoutTemplate e = Some l \<or> entryLayoutTemplate e = None \<and> layoutTemplate h' = Some l)
         \<and> template e ctx (mergeLocals h ctx callData) (partials h') (blocks h) = (Inr b, bs)
         \<and> l ctx (layoutData (mergeLocals h ctx callData) b) (partials h') bs = (Inr out, blocks h')
         \<and> ctx' = ctx\<lparr>body := Some out\<rparr>"
proof -
  from render_success [OF assms] obtain p h1 h3 e l h4 b bs out where
    r: "resolveTemplate w h tpl = (Inr p, h1)"
    and c: "cacheTemplate w (ensurePartials w h1) tpl p (mergeLocals h ctx callData) = (Inr (), h3)"
    and e: "cache h3 tpl = Some e"
    and pl: "pickLayout w h3 e = (Some l, h4)"
    and t: "template e ctx (mergeLocals h ctx callData) (partials h4) (blocks h4) = (Inr b, bs)"
    and lt: "l ctx (layoutData (mergeLocals h ctx callData) b) (partials h4) bs = (Inr out, blocks h')"
    and ctx': "ctx' = ctx\<lparr>body := Some out\<rparr>" and h': "h' = h4\<lparr>blocks := blocks h'\<rparr>"
    by blast
  have h1: "h1 = snd (getTemplatePath w h tpl)" using r by (rule resolveTemplateE)
  from cacheTemplateE [OF c] obtain evs c3 where
    h3: "h3 = emit evs ((ensurePartials w h1)\<lparr>cache := c3\<rparr>)" by blast
  have b3: "blocks h3 = blocks h" by (simp add: h3 h1)
  have b4: "blocks h4 = blocks h" using pickLayout_fields(2) [OF pl] b3 by simp
  have p4: "partials h' = partials h4" by (subst h') simp
  have c4: "cache h' = cache h3" using pickLayout_fields(1) [OF pl] by (subst h') simp
  have lay: "entryLayoutTemplate e = Some l \<or> entryLayoutTemplate e = None \<and> layoutTemplate h' = Some l"
  proof (cases "entryLayoutTemplate e")
    case None
    from pickLayout_fields(11) [OF pl None] have "layoutTemplate h4 = Some l" .
    then have "layoutTemplate h' = Some l" by (subst h') simp
    with None show ?thesis by simp
  next
    case (Some x)
    with pickLayoutE [OF pl] show ?thesis by auto
  qed
  from e c4 lay t lt ctx' b4 p4 show ?thesis by auto
qed

lemma render_config:
  "locals (snd (render w h ctx tpl callData)) = locals h"
  "disableCache (snd (render w h ctx tpl callData)) = disableCache h"
  "viewPath (snd (render w h ctx tpl callData)) = viewPath h"
  "extname (snd (render w h ctx tpl callData)) = extname h"
proof -
  obtain r1 h1 where r1: "resolveTemplate w h tpl = (r1, h1)"
    by (cases "resolveTemplate w h tpl")
  have h1: "h1 = snd (getTemplatePath w h tpl)" using r1 by (rule resolveTemplateE)
  have "locals (snd (render w h ctx tpl callData)) = locals h
      \<and> disableCache (snd (render w h ctx tpl callData)) = disableCache h
      \<and> viewPath (snd (render w h ctx tpl callData)) = viewPath h
      \<and> extname (snd (render w h ctx tpl callData)) = extname h"
  proof (cases r1)
    case (Inl e)
    with r1 h1 show ?thesis by (simp add: render_def)
  next
    case (Inr p)
    obtain r3 h3 where r3: "cacheTemplate w (ensurePartials w h1) tpl p (mergeLocals h1 ctx callData) = (r3, h3)"
      by (cases "cacheTemplate w (ensurePartials w h1) tpl p (mergeLocals h1 ctx callData)")
    from cacheTemplateE [OF r3] obtain evs c3 where
      h3: "h3 = emit evs ((ensurePartials w h1)\<lparr>cache := c3\<rparr>)" by blast
    have f3: "locals h3 = locals h" "disableCache h3 = disableCache h"
             "viewPath h3 = viewPath h" "extname h3 = extname h"
      by (simp_all add: h3 h1)
    show ?thesis
    proof (cases r3)
      case (Inl e)
      with r1 Inr r3 f3 show ?thesis by (simp add: render_def Let_def)
    next
      case u: (Inr u)
      show ?thesis
      proof (cases "cache h3 tpl")
        case None
        with r1 Inr r3 u f3 show ?thesis by (simp add: render_def Let_def)
      next
        case (Some e)
        obtain lt h4 where pl: "pickLayout w h3 e = (lt, h4)" by (cases "pickLayout w h3 e")
        have "\<exists>bs. snd (runTemplates (template e) lt ctx (mergeLocals h1 ctx callData) h4) = h4\<lparr>blocks := bs\<rparr>"
          by (auto simp: runTemplates_def split: prod.splits sum.splits option.splits)
        then obtain bs where "snd (render w h ctx tpl callData) = h4\<lparr>blocks := bs\<rparr>"
          using r1 Inr r3 u Some pl by (auto simp: render_def Let_def)
        with pickLayout_fields [OF pl] f3 show ?thesis by simp
      qed
    qed
  qed
  then show "locals (snd (render w h ctx tpl callData)) = locals h"
    "disableCache (snd (render w h ctx tpl callData)) = disableCache h"
    "viewPath (snd (render w h ctx tpl callData)) = viewPath h"
    "extname (snd (render w h ctx tpl callData)) = extname h"
    by simp_all
qed

section \<open>The render-time data\<close>




section \<open>The layout directive\<close>


lemma nameChar_not_space: "isNameChar c \<Longrightarrow> \<not> isSpace c"
  by (auto simp: isNameChar_def isSpace_def Let_def)

lemma brace_not_class: "\<not> isSpace CHR ''}''" "\<not> isNameChar CHR ''}''"
  by (simp_all add: isNameChar_def isSpace_def)

lemma takeWhile_stop:
  "(\<And>x. x \<in> set xs \<Longrightarrow> P x) \<Longrightarrow> ys = [] \<or> \<not> P (hd ys) \<Longrightarrow> takeWhile P (xs @ ys) = xs"
  by (cases ys) (simp_all add: takeWhile_append2)

lemma dropWhile_stop:
  "(\<And>x. x \<in> set xs \<Longrightarrow> P x) \<Longrightarrow> ys = [] \<or> \<not> P (hd ys) \<Longrightarrow> dropWhile P (xs @ ys) = ys"
  by (cases ys) (simp_all add: dropWhile_append2)

lemma matchHere_marker:
  assumes ws: "ws \<noteq> []" "\<And>c. c \<in> set ws \<Longrightarrow> isSpace c"
    and name: "name \<noteq> []" "\<And>c. c \<in> set name \<Longrightarrow> isNameChar c"
    and ws': "\<And>c. c \<in> set ws' \<Longrightarrow> isSpace c"
  shows "matchHere (''{{!<'' @ ws @ name @ ws' @ ''}}'' @ post) = Some name"
proof -
  have sp: "stripPrefix ''{{!<'' (''{{!<'' @ ws @ name @ ws' @ ''}}'' @ post)
              = Some (ws @ name @ ws' @ ''}}'' @ post)"
    by (simp add: stripPrefix_def)
  have hd_name: "\<not> isSpace (hd (name @ ws' @ ''}}'' @ post))"
    using name by (cases name) (auto dest: nameChar_not_space)
  have hd_ws': "\<not> isNameChar (hd (ws' @ ''}}'' @ post))"
    using ws' by (cases ws') (auto simp: brace_not_class dest: nameChar_not_space)
  have hd_close: "\<not> isSpace (hd (''}}'' @ post))"
    by (simp add: brace_not_class)
  have t1: "takeWhile isSpace (ws @ name @ ws' @ ''}}'' @ post) = ws"
    by (rule takeWhile_stop) (use ws hd_name in auto)
  have d1: "dropWhile isSpace (ws @ name @ ws' @ ''}}'' @ post) = name @ ws' @ ''}}'' @ post"
    by (rule dropWhile_stop) (use ws hd_name in auto)
  have t2: "takeWhile isNameChar (name @ ws' @ ''}}'' @ post) = name"
    by (rule takeWhile_stop) (use name hd_ws' in auto)
  have d2: "dropWhile isNameChar (name @ ws' @ ''}}'' @ post) = ws' @ ''}}'' @ post"
    by (rule dropWhile_stop) (use name hd_ws' in auto)
  have d3: "dropWhile isSpace (ws' @ ''}}'' @ post) = ''}}'' @ post"
    by (rule dropWhile_stop) (use ws' hd_close in auto)
  have cl: "stripPrefix ''}}'' (''}}'' @ post) = Some post"
    by (simp add: stripPrefix_def)
  show ?thesis
    unfolding matchHere_def sp by (simp add: Let_def t1 d1 t2 d2 d3 cl ws name del: append.simps)
qed

lemma rLayoutExec_here: "matchHere s = Some name \<Longrightarrow> rLayoutExec s = Some name"
  by (cases s) simp_all

lemma rLayoutTest_append: "matchHere s = Some name \<Longrightarrow> rLayoutTest (pre @ s)"
  by (induction pre) (auto simp: rLayoutTest_def rLayoutExec_here split: option.splits)

lemma rLayoutExec_leftmost:
  "matchHere s = Some name \<Longrightarrow> noEarlierMatch pre s \<Longrightarrow> rLayoutExec (pre @ s) = Some name"
  by (induction pre) (simp_all add: rLayoutExec_here)

text \<open>
  Claim C7, as the code has it. The pattern is not anchored: a marker
  \<^verbatim>\<open>{{!< layoutName }}\<close> (white space, a name of letters, digits, dots, underscores,
  hyphens and slashes, optional white space) is found wherever it stands in the template
  source, on the first line or after any text \<open>pre\<close>. The name taken is the one of the
  leftmost match: it is this marker's when no match starts before it, and then it is the
  layout chosen when the data have no \<^verbatim>\<open>layout\<close>.
\<close>

theorem C7_marker_anywhere:
  assumes "ws \<noteq> []" and "\<forall>c\<in>set ws. isSpace c"
    and "name \<noteq> []" and "\<forall>c\<in>set name. isNameChar c"
    and "\<forall>c\<in>set ws'. isSpace c"
  shows "rLayoutTest (pre @ ''{{!<'' @ ws @ name @ ws' @ ''}}'' @ post)
       \<and> (noEarlierMatch pre (''{{!<'' @ ws @ name @ ws' @ ''}}'' @ post) \<longrightarrow>
            rLayoutExec (pre @ ''{{!<'' @ ws @ name @ ws' @ ''}}'' @ post) = Some name
          \<and> (getProp merged ''layout'' = JUndefined \<longrightarrow>
               chooseLayout merged (pre @ ''{{!<'' @ ws @ name @ ws' @ ''}}'' @ post)
                 = Some (JStr name)))"
proof -
  have here: "matchHere (''{{!<'' @ ws @ name @ ws' @ ''}}'' @ post) = Some name"
    using assms by (intro matchHere_marker) auto
  have found: "rLayoutTest (pre @ ''{{!<'' @ ws @ name @ ws' @ ''}}'' @ post)"
    using here by (rule rLayoutTest_append)
  have first: "rLayoutExec (pre @ ''{{!<'' @ ws @ name @ ws' @ ''}}'' @ post) = Some name"
    if "noEarlierMatch pre (''{{!<'' @ ws @ name @ ws' @ ''}}'' @ post)"
    using here that by (rule rLayoutExec_leftmost)
  have chosen: "chooseLayout merged (pre @ ''{{!<'' @ ws @ name @ ws' @ ''}}'' @ post)
                 = Some (JStr name)"
    if "noEarlierMatch pre (''{{!<'' @ ws @ name @ ws' @ ''}}'' @ post)"
      and "getProp merged ''layout'' = JUndefined"
    using first [OF that(1)] that(2) found by (simp add: chooseLayout_def)
  from found first chosen show ?thesis by blast
qed

text \<open>The marker on the second line of a source.\<close>

theorem C7_marker_anywhere_witness:
  "rLayoutTest (''<p>late</p>'' @ [CHR 0x0A] @ ''{{!<'' @ '' '' @ ''main'' @ [] @ ''}}'' @ [])
   \<and> rLayoutExec (''<p>late</p>'' @ [CHR 0x0A] @ ''{{!<'' @ '' '' @ ''main'' @ [] @ ''}}'' @ [])
       = Some ''main''
   \<and> chooseLayout [] (''<p>late</p>'' @ [CHR 0x0A] @ ''{{!<'' @ '' '' @ ''main'' @ [] @ ''}}'' @ [])
       = Some (JStr ''main'')"
proof -
  have "noEarlierMatch (''<p>late</p>'' @ [CHR 0x0A]) (''{{!<'' @ '' '' @ ''main'' @ [] @ ''}}'' @ [])"
    by (simp add: matchHere_def stripPrefix_def)
  moreover have "getProp [] ''layout'' = JUndefined"
    by (simp add: getProp_def)
  moreover have "'' '' \<noteq> [] \<and> (\<forall>c\<in>set '' ''. isSpace c) \<and> ''main'' \<noteq> []
      \<and> (\<forall>c\<in>set ''main''. isNameChar c) \<and> (\<forall>c\<in>set []. isSpace c)"
    by (simp add: isSpace_def isNameChar_def)
  ultimately show ?thesis
    using C7_marker_anywhere [of "'' ''" "''main''" "[]" "''<p>late</p>'' @ [CHR 0x0A]" "[]" "[]"]
    by simp
qed

text \<open>
  The claim as the specification words it has a marker after the first line select no
  layout. The template \<^verbatim>\<open>late\<close> carries its marker on the second line, and is rendered
  inside the layout \<^verbatim>\<open>main\<close>.
\<close>

theorem C7_counterexample:
  "readFile demoWorld ''/views/late.hbs'' = Some (''<p>late</p>'' @ [CHR 0x0A] @ ''{{!< main}}'')
   \<and> rLayoutExec (''<p>late</p>'' @ [CHR 0x0A] @ ''{{!< main}}'') = Some ''main''
   \<and> fst (render demoWorld demoHbs demoCtx ''late'' None)
       = Inr (demoCtx\<lparr>body := Some (''<html><p>late</p>'' @ [CHR 0x0A] @ ''{{!< main}}</html>'')\<rparr>)"
  by (simp add: model_defs demo_defs)

section \<open>The block store\<close>


lemma fragments_block: "fragments (snd (block bs name)) name = []"
  by (simp add: block_def fragments_def Let_def)

lemma block_other: "n \<noteq> name \<Longrightarrow> snd (block bs name) n = bs n"
  by (simp add: block_def Let_def)

lemma fst_block: "fst (block bs name) = joinLines (fragments bs name)"
  by (simp add: block_def Let_def)

lemma content_pure:
  "content bs name (\<lambda>b. (Inr f, b)) =
     (Inr (), bs(name \<mapsto> (case bs name of None \<Rightarrow> 0 | Some (g, fs) \<Rightarrow> g, fragments bs name @ [f])))"
  by (auto simp: content_def fragments_def Let_def split: option.splits)

lemma fragments_content_pure:
  "fragments (snd (contentHelper bs name (\<lambda>b. (Inr f, b)))) n =
     (if n = name then fragments bs name @ [f] else fragments bs n)"
  by (simp add: contentHelper_def content_pure fragments_def)

lemma fragments_contributeAll:
  "fragments (contributeAll bs name frags) n =
     (if n = name then fragments bs name @ frags else fragments bs n)"
  by (induction frags arbitrary: bs) (simp_all add: fragments_content_pure)

text \<open>The general step: an inner template that itself works on the store.\<close>

lemma content_callback:
  assumes "fn (case bs name of None \<Rightarrow> bs(name \<mapsto> (0, [])) | Some a \<Rightarrow> bs) = (Inr frag, bs1)"
    and "bs1 name = Some (g, fs)"
    and "g = (case bs name of None \<Rightarrow> 0 | Some (g0, fs0) \<Rightarrow> g0)"
  shows "content bs name fn = (Inr (), bs1(name \<mapsto> (g, fs @ [frag])))"
  using assms by (auto simp: content_def Let_def split: option.splits)

lemma content_callback_replaced:
  assumes "fn (case bs name of None \<Rightarrow> bs(name \<mapsto> (0, [])) | Some a \<Rightarrow> bs) = (Inr frag, bs1)"
    and "bs1 name = Some (g, fs)"
    and "g \<noteq> (case bs name of None \<Rightarrow> 0 | Some (g0, fs0) \<Rightarrow> g0)"
  shows "content bs name fn = (Inr (), bs1)"
  using assms by (auto simp: content_def Let_def split: option.splits)

lemma joinLines_Nil_iff: "fragments bs name = [] \<Longrightarrow> fst (block bs name) = []"
  by (simp add: fst_block)

lemma contributeAll_other: "n \<noteq> name \<Longrightarrow> contributeAll bs name frags n = bs n"
  by (induction frags arbitrary: bs) (simp_all add: contentHelper_def content_pure)

lemma body_of_layoutData: "toString (getProp (layoutData m b) ''body'') = b"
  by (simp add: getProp_def layoutData_def map_of_setProp)

lemma blockHelper_inline:
  "blockHelper bs name None = (Inr (fst (block bs name)), snd (block bs name))"
  by (simp add: blockHelper_def split: prod.splits)

lemma runTemplates_blockTemplate:
  assumes "t ctx m (partials h) (blocks h) = (Inr b, bs)"
  shows "runTemplates t (Some (blockTemplate pre name post)) ctx m h
           = (Inr (ctx\<lparr>body := Some (pre @ fst (block bs name) @ post @ b)\<rparr>),
              h\<lparr>blocks := snd (block bs name)\<rparr>)"
  using assms
  by (simp add: runTemplates_def blockTemplate_def blockHelper_inline body_of_layoutData)

text \<open>
  Claim C5, as the code has it. The block name is a plain name. Retrieving a block returns
  the fragments the store of the instance holds for the name, joined by newlines: after the
  fragments \<open>frags\<close> have been contributed to \<open>name\<close>, these are the fragments the store held
  for \<open>name\<close> before, followed by \<open>frags\<close>. So a render whose body template contributes
  \<open>frags\<close> and whose layout prints the block prints the fragments that earlier renders have
  left in the store of the instance, then \<open>frags\<close>; it prints exactly \<open>frags\<close> when the store
  held nothing for the name. The retrieval clears the sequence of this name and leaves the
  other names alone, as a contribution does, and a second retrieval returns the empty
  string. A name whose sequence in the store is empty or absent yields the empty string,
  and the block helper then returns what the fallback of the layout renders; a retrieval
  that is not empty is the helper's result, and so is every retrieval of the helper that
  has no fallback.
\<close>

theorem C5_block_retrieval:
  assumes "plainName name"
  shows "fst (block (contributeAll bs name frags) name) = joinLines (fragments bs name @ frags)
   \<and> (t ctx m (partials h) (blocks h) = (Inr b, contributeAll (blocks h) name frags)
      \<longrightarrow> runTemplates t (Some (blockTemplate pre name post)) ctx m h
            = (Inr (ctx\<lparr>body := Some (pre @ joinLines (fragments (blocks h) name @ frags)
                                        @ post @ b)\<rparr>),
               h\<lparr>blocks := snd (block (contributeAll (blocks h) name frags) name)\<rparr>))
   \<and> fragments (snd (block bs name)) name = []
   \<and> fst (block (snd (block bs name)) name) = []
   \<and> (\<forall>n. n \<noteq> name \<longrightarrow> snd (block bs name) n = bs n)
   \<and> (\<forall>n. n \<noteq> name \<longrightarrow> contributeAll bs name frags n = bs n)
   \<and> (fragments bs name = [] \<longrightarrow>
        fst (block bs name) = []
      \<and> blockHelper bs name (Some fallback) = fallback (snd (block bs name)))
   \<and> (fst (block bs name) \<noteq> [] \<longrightarrow>
        blockHelper bs name fn = (Inr (fst (block bs name)), snd (block bs name)))
   \<and> blockHelper bs name None = (Inr (fst (block bs name)), snd (block bs name))"
proof -
  have a: "fst (block (contributeAll bs name frags) name) = joinLines (fragments bs name @ frags)"
    for bs
    by (simp add: fst_block fragments_contributeAll)
  have r: "runTemplates t (Some (blockTemplate pre name post)) ctx m h
            = (Inr (ctx\<lparr>body := Some (pre @ joinLines (fragments (blocks h) name @ frags)
                                        @ post @ b)\<rparr>),
               h\<lparr>blocks := snd (block (contributeAll (blocks h) name frags) name)\<rparr>)"
    if "t ctx m (partials h) (blocks h) = (Inr b, contributeAll (blocks h) name frags)"
    unfolding runTemplates_blockTemplate [where t = t and ctx = ctx and m = m and h = h, OF that] a ..
  have b: "fragments (snd (block bs name)) name = []"
    by (rule fragments_block)
  have c: "fst (block (snd (block bs name)) name) = []"
    by (simp add: fst_block fragments_block)
  have o1: "\<forall>n. n \<noteq> name \<longrightarrow> snd (block bs name) n = bs n"
    by (simp add: block_other)
  have o2: "\<forall>n. n \<noteq> name \<longrightarrow> contributeAll bs name frags n = bs n"
    by (simp add: contributeAll_other)
  have d: "fst (block bs name) = [] \<and> blockHelper bs name (Some fallback) = fallback (snd (block bs name))"
    if "fragments bs name = []"
  proof -
    obtain v bs1 where blk: "block bs name = (v, bs1)" by (cases "block bs name")
    with that fst_block [of bs name] have "v = []" by simp
    with blk show ?thesis by (simp add: blockHelper_def)
  qed
  have e: "blockHelper bs name fn = (Inr (fst (block bs name)), snd (block bs name))"
    if "fst (block bs name) \<noteq> []"
  proof -
    obtain v bs1 where blk: "block bs name = (v, bs1)" by (cases "block bs name")
    with that have "v \<noteq> []" by simp
    with blk show ?thesis by (cases fn) (simp_all add: blockHelper_def)
  qed
  have f: "blockHelper bs name None = (Inr (fst (block bs name)), snd (block bs name))"
    by (rule blockHelper_inline)
  show ?thesis
    apply (intro conjI impI)
            apply (rule a)
           apply (erule r)
          apply (rule b)
         apply (rule c)
        apply (rule o1)
       apply (rule o2)
      apply (erule d [THEN conjunct1])
     apply (erule d [THEN conjunct2])
     apply (erule e)
    apply (rule f)
    done
qed

text \<open>
  The theorem at work: two contributions, a second retrieval, another name, a fallback, and
  the templates \<^verbatim>\<open>head\<close>, which contributes to \<^verbatim>\<open>title\<close>, and \<^verbatim>\<open>home\<close>, which does not, run
  in a layout that retrieves \<^verbatim>\<open>title\<close>: on the fresh instance, and on the instance on
  which \<^verbatim>\<open>head\<close> has been rendered in a layout that retrieves nothing.
\<close>

theorem C5_block_retrieval_witness:
  "plainName ''title'' \<and> plainName ''sidebar''
   \<and> fst (block (contributeAll Map.empty ''title'' [''a'', ''b'']) ''title'') = ''a'' @ [CHR 0x0A] @ ''b''
   \<and> fst (block (snd (block (contributeAll Map.empty ''title'' [''a'', ''b'']) ''title'')) ''title'') = []
   \<and> snd (block (contributeAll Map.empty ''title'' [''a'', ''b'']) ''title'') ''sidebar'' = None
   \<and> fragments Map.empty ''sidebar'' = []
   \<and> blockHelper Map.empty ''sidebar'' (Some (\<lambda>b. (Inr ''default'', b)))
       = (Inr ''default'', snd (block Map.empty ''sidebar''))
   \<and> fst (block (contributeAll Map.empty ''title'' [''a'', ''b'']) ''title'') \<noteq> []
   \<and> blockHelper (contributeAll Map.empty ''title'' [''a'', ''b'']) ''title'' (Some (\<lambda>b. (Inr ''default'', b)))
       = (Inr (''a'' @ [CHR 0x0A] @ ''b''), snd (block (contributeAll Map.empty ''title'' [''a'', ''b'']) ''title''))
   \<and> compile demoWorld ''{{#contentFor title}}Home{{/contentFor}}<p>hi</p>'' demoCtx []
         (partials demoHbs) (blocks demoHbs)
       = (Inr ''<p>hi</p>'', contributeAll (blocks demoHbs) ''title'' [''Home''])
   \<and> fragments (blocks demoHbs) ''title'' = []
   \<and> runTemplates (compile demoWorld ''{{#contentFor title}}Home{{/contentFor}}<p>hi</p>'')
         (Some (blockTemplate ''<title>'' ''title'' ''</title>'')) demoCtx [] demoHbs
       = (Inr (demoCtx\<lparr>body := Some ''<title>Home</title><p>hi</p>''\<rparr>),
          demoHbs\<lparr>blocks := snd (block (contributeAll (blocks demoHbs) ''title'' [''Home'']) ''title'')\<rparr>)
   \<and> compile demoWorld ''<p>hi</p>'' demoCtx [] (partials demoAfterHead) (blocks demoAfterHead)
       = (Inr ''<p>hi</p>'', contributeAll (blocks demoAfterHead) ''title'' [])
   \<and> fragments (blocks demoAfterHead) ''title'' = [''Home'']
   \<and> runTemplates (compile demoWorld ''<p>hi</p>'')
         (Some (blockTemplate ''<title>'' ''title'' ''</title>'')) demoCtx [] demoAfterHead
       = (Inr (demoCtx\<lparr>body := Some ''<title>Home</title><p>hi</p>''\<rparr>),
          demoAfterHead\<lparr>blocks := snd (block (contributeAll (blocks demoAfterHead) ''title'' []) ''title'')\<rparr>)
   \<and> fst (render demoWorld demoHbs demoCtx ''head'' (Some [(''layout'', JStr ''titled'')]))
       = Inr (demoCtx\<lparr>body := Some ''<title>Home</title><p>hi</p>''\<rparr>)
   \<and> fragments (blocks (snd (render demoWorld demoHbs demoCtx ''head'' (Some [(''layout'', JStr ''titled'')])))) ''title'' = []"
proof -
  have pn: "plainName ''title''" "plainName ''sidebar''"
    by (simp_all add: plainName_def protoNames_def)
  note ab = C5_block_retrieval [OF pn(1), of "contributeAll Map.empty ''title'' [''a'', ''b'']" "[]"]
  have empty: "fragments Map.empty ''sidebar'' = []"
    by (simp add: fragments_def)
  have full: "fst (block (contributeAll Map.empty ''title'' [''a'', ''b'']) ''title'') = ''a'' @ [CHR 0x0A] @ ''b''"
    unfolding C5_block_retrieval [OF pn(1), THEN conjunct1] by (simp add: fragments_def)
  have twice: "fst (block (snd (block (contributeAll Map.empty ''title'' [''a'', ''b'']) ''title'')) ''title'') = []"
    by (rule ab [THEN conjunct2, THEN conjunct2, THEN conjunct2, THEN conjunct1])
  have ne: "''sidebar'' \<noteq> ''title''" by simp
  have other1: "snd (block (contributeAll Map.empty ''title'' [''a'', ''b'']) ''title'') ''sidebar''
            = contributeAll Map.empty ''title'' [''a'', ''b''] ''sidebar''"
    by (rule ab [THEN conjunct2, THEN conjunct2, THEN conjunct2, THEN conjunct2, THEN conjunct1,
                 THEN spec, THEN mp, OF ne])
  have other2: "contributeAll Map.empty ''title'' [''a'', ''b''] ''sidebar'' = Map.empty ''sidebar''"
    by (rule C5_block_retrieval [OF pn(1), THEN conjunct2, THEN conjunct2, THEN conjunct2, THEN conjunct2,
                  THEN conjunct2, THEN conjunct1, THEN spec, THEN mp, OF ne])
  have other: "snd (block (contributeAll Map.empty ''title'' [''a'', ''b'']) ''title'') ''sidebar'' = None"
    unfolding other1 other2 by simp
  have fallback: "blockHelper Map.empty ''sidebar'' (Some (\<lambda>b. (Inr ''default'', b)))
       = (Inr ''default'', snd (block Map.empty ''sidebar''))"
    by (rule C5_block_retrieval [OF pn(2), THEN conjunct2, THEN conjunct2, THEN conjunct2, THEN conjunct2,
                  THEN conjunct2, THEN conjunct2, THEN conjunct1, THEN mp, OF empty,
                  THEN conjunct2])
  have nonempty: "fst (block (contributeAll Map.empty ''title'' [''a'', ''b'']) ''title'') \<noteq> []"
    unfolding full by simp
  have printed: "blockHelper (contributeAll Map.empty ''title'' [''a'', ''b'']) ''title'' (Some (\<lambda>b. (Inr ''default'', b)))
       = (Inr (''a'' @ [CHR 0x0A] @ ''b''), snd (block (contributeAll Map.empty ''title'' [''a'', ''b'']) ''title''))"
    using mp [OF ab [THEN conjunct2, THEN conjunct2, THEN conjunct2, THEN conjunct2,
                     THEN conjunct2, THEN conjunct2, THEN conjunct2, THEN conjunct1] nonempty,
              of "Some (\<lambda>b. (Inr ''default'', b))"]
    unfolding full .
  have body1: "compile demoWorld ''{{#contentFor title}}Home{{/contentFor}}<p>hi</p>'' demoCtx []
         (partials demoHbs) (blocks demoHbs)
       = (Inr ''<p>hi</p>'', contributeAll (blocks demoHbs) ''title'' [''Home''])"
    by (simp add: demo_defs contentHelper_def content_def Let_def)
  have fr1: "fragments (blocks demoHbs) ''title'' = []"
    by (simp add: fragments_def demoHbs_def)
  have run1: "runTemplates (compile demoWorld ''{{#contentFor title}}Home{{/contentFor}}<p>hi</p>'')
         (Some (blockTemplate ''<title>'' ''title'' ''</title>'')) demoCtx [] demoHbs
       = (Inr (demoCtx\<lparr>body := Some (''<title>'' @ joinLines (fragments (blocks demoHbs) ''title'' @ [''Home''])
                                        @ ''</title>'' @ ''<p>hi</p>'')\<rparr>),
          demoHbs\<lparr>blocks := snd (block (contributeAll (blocks demoHbs) ''title'' [''Home'']) ''title'')\<rparr>)"
    by (rule mp [OF C5_block_retrieval [where t = "compile demoWorld ''{{#contentFor title}}Home{{/contentFor}}<p>hi</p>''"
                          and ctx = demoCtx and m = "[]" and h = demoHbs and frags = "[''Home'']"
                          and b = "''<p>hi</p>''",
                        OF pn(1), THEN conjunct2, THEN conjunct1] body1])
  have run1': "runTemplates (compile demoWorld ''{{#contentFor title}}Home{{/contentFor}}<p>hi</p>'')
         (Some (blockTemplate ''<title>'' ''title'' ''</title>'')) demoCtx [] demoHbs
       = (Inr (demoCtx\<lparr>body := Some ''<title>Home</title><p>hi</p>''\<rparr>),
          demoHbs\<lparr>blocks := snd (block (contributeAll (blocks demoHbs) ''title'' [''Home'']) ''title'')\<rparr>)"
    unfolding run1 fr1 by simp
  have body2: "compile demoWorld ''<p>hi</p>'' demoCtx [] (partials demoAfterHead) (blocks demoAfterHead)
       = (Inr ''<p>hi</p>'', contributeAll (blocks demoAfterHead) ''title'' [])"
    by (simp add: demoWorld_def demoCompile_def textTemplate_def)
  have fr2: "fragments (blocks demoAfterHead) ''title'' = [''Home'']"
    by (simp add: demoAfterHead_def model_defs demo_defs)
  have run2: "runTemplates (compile demoWorld ''<p>hi</p>'')
         (Some (blockTemplate ''<title>'' ''title'' ''</title>'')) demoCtx [] demoAfterHead
       = (Inr (demoCtx\<lparr>body := Some (''<title>'' @ joinLines (fragments (blocks demoAfterHead) ''title'' @ [])
                                        @ ''</title>'' @ ''<p>hi</p>'')\<rparr>),
          demoAfterHead\<lparr>blocks := snd (block (contributeAll (blocks demoAfterHead) ''title'' []) ''title'')\<rparr>)"
    by (rule mp [OF C5_block_retrieval [where t = "compile demoWorld ''<p>hi</p>''"
                          and ctx = demoCtx and m = "[]" and h = demoAfterHead and frags = "[]"
                          and b = "''<p>hi</p>''",
                        OF pn(1), THEN conjunct2, THEN conjunct1] body2])
  have run2': "runTemplates (compile demoWorld ''<p>hi</p>'')
         (Some (blockTemplate ''<title>'' ''title'' ''</title>'')) demoCtx [] demoAfterHead
       = (Inr (demoCtx\<lparr>body := Some ''<title>Home</title><p>hi</p>''\<rparr>),
          demoAfterHead\<lparr>blocks := snd (block (contributeAll (blocks demoAfterHead) ''title'' []) ''title'')\<rparr>)"
    unfolding run2 fr2 by simp
  have run: "fst (render demoWorld demoHbs demoCtx ''head'' (Some [(''layout'', JStr ''titled'')]))
       = Inr (demoCtx\<lparr>body := Some ''<title>Home</title><p>hi</p>''\<rparr>)"
    "fragments (blocks (snd (render demoWorld demoHbs demoCtx ''head'' (Some [(''layout'', JStr ''titled'')])))) ''title'' = []"
    by (simp_all add: model_defs demo_defs)
  show ?thesis
    by (intro conjI pn full twice other empty fallback nonempty printed body1 fr1 run1' body2 fr2
        run2' run)
qed

text \<open>
  The claim as the specification words it has a retrieval return what the body rendering
  of this render has contributed, and the empty string, so the fallback, for a name it has
  not contributed to. After \<^verbatim>\<open>head\<close> has been rendered in a layout that retrieves nothing,
  the store still holds its fragment: a render of \<^verbatim>\<open>home\<close>, which contributes nothing, in
  the layout \<^verbatim>\<open>titled\<close> prints \<^verbatim>\<open>Home\<close> in the title, where a fresh instance prints the empty
  string, and the block helper returns \<^verbatim>\<open>Home\<close> and not its fallback.
\<close>

theorem C5_counterexample:
  "fragments (blocks demoHbs) ''title'' = []
   \<and> fst (render demoWorld demoHbs demoCtx ''head'' None)
       = Inr (demoCtx\<lparr>body := Some ''<p>hi</p>''\<rparr>)
   \<and> fragments (blocks demoAfterHead) ''title'' = [''Home'']
   \<and> readFile demoWorld ''/views/home.hbs'' = Some ''<p>hi</p>''
   \<and> snd (compile demoWorld ''<p>hi</p>'' demoCtx
            (mergeLocals demoAfterHead demoCtx (Some [(''layout'', JStr ''titled'')]))
            (partials demoAfterHead) (blocks demoAfterHead))
       = blocks demoAfterHead
   \<and> fst (render demoWorld demoHbs demoCtx ''home'' (Some [(''layout'', JStr ''titled'')]))
       = Inr (demoCtx\<lparr>body := Some ''<title></title><p>hi</p>''\<rparr>)
   \<and> fst (render demoWorld demoAfterHead demoCtx ''home'' (Some [(''layout'', JStr ''titled'')]))
       = Inr (demoCtx\<lparr>body := Some ''<title>Home</title><p>hi</p>''\<rparr>)
   \<and> fst (blockHelper (blocks demoAfterHead) ''title'' (Some (\<lambda>b. (Inr ''Untitled'', b))))
       = Inr ''Home''"
  by (simp add: demoAfterHead_def model_defs demo_defs)


text \<open>
  Claim C10. The instance has one store, and no line of \<^verbatim>\<open>render\<close> resets it: when a
  render delivers a body, its body template has worked on the store as the calls before
  left it (\<open>blocks h\<close>), its layout template on the store as the body template left it, and
  the store of the instance afterwards is the one the layout template left. So for a name
  to which the body template has added the fragments \<open>frags\<close> and whose sequence the layout
  template has left alone, the store after the render still holds the fragments from
  before the render followed by \<open>frags\<close>, and the next retrieval, in whatever render it
  happens, returns them joined with what has been contributed since.
\<close>

theorem C10_blocks_persist:
  assumes "render w h ctx tpl callData = (Inr ctx', h')"
  shows "\<exists>e l b bs out.
           cache h' tpl = Some e
         \<and> (entryLayoutTemplate e = Some l \<or> entryLayoutTemplate e = None \<and> layoutTemplate h' = Some l)
         \<and> template e ctx (mergeLocals h ctx callData) (partials h') (blocks h) = (Inr b, bs)
         \<and> l ctx (layoutData (mergeLocals h ctx callData) b) (partials h') bs = (Inr out, blocks h')
         \<and> (\<forall>name frags more.
               fragments bs name = fragments (blocks h) name @ frags
               \<and> fragments (blocks h') name = fragments bs name \<longrightarrow>
                 fragments (blocks h') name = fragments (blocks h) name @ frags
               \<and> fst (block (contributeAll (blocks h') name more) name)
                   = joinLines (fragments (blocks h) name @ frags @ more))"
proof -
  from render_templates [OF assms] obtain e l b bs out where
    t: "cache h' tpl = Some e"
      "entryLayoutTemplate e = Some l \<or> entryLayoutTemplate e = None \<and> layoutTemplate h' = Some l"
      "template e ctx (mergeLocals h ctx callData) (partials h') (blocks h) = (Inr b, bs)"
      "l ctx (layoutData (mergeLocals h ctx callData) b) (partials h') bs = (Inr out, blocks h')"
    by blast
  have "fragments (blocks h') name = fragments (blocks h) name @ frags
      \<and> fst (block (contributeAll (blocks h') name more) name)
          = joinLines (fragments (blocks h) name @ frags @ more)"
    if "fragments bs name = fragments (blocks h) name @ frags"
      and "fragments (blocks h') name = fragments bs name" for name frags more
    using that by (simp add: fst_block fragments_contributeAll)
  with t show ?thesis by blast
qed

text \<open>
  The theorem at work: \<^verbatim>\<open>head\<close> contributes to \<^verbatim>\<open>title\<close> and is rendered in the pass-through
  layout, which retrieves nothing. The fragment is in the store after the render, and the
  next render, of the template \<^verbatim>\<open>home\<close> in the layout \<^verbatim>\<open>titled\<close>, prints it; after two
  renders of \<^verbatim>\<open>head\<close> it prints both fragments.
\<close>

theorem C10_blocks_persist_witness:
  "render demoWorld demoHbs demoCtx ''head'' None
     = (Inr (demoCtx\<lparr>body := Some ''<p>hi</p>''\<rparr>), snd (render demoWorld demoHbs demoCtx ''head'' None))
   \<and> fragments (blocks demoHbs) ''title'' = []
   \<and> fragments (blocks (snd (render demoWorld demoHbs demoCtx ''head'' None))) ''title'' = [''Home'']
   \<and> fst (render demoWorld (snd (render demoWorld demoHbs demoCtx ''head'' None)) demoCtx
            ''home'' (Some [(''layout'', JStr ''titled'')]))
       = Inr (demoCtx\<lparr>body := Some ''<title>Home</title><p>hi</p>''\<rparr>)
   \<and> fst (render demoWorld (renders [(demoWorld, demoCtx, ''head'', None), (demoWorld, demoCtx, ''head'', None)] demoHbs)
            demoCtx ''home'' (Some [(''layout'', JStr ''titled'')]))
       = Inr (demoCtx\<lparr>body := Some (''<title>Home'' @ [CHR 0x0A] @ ''Home</title><p>hi</p>'')\<rparr>)"
proof -
  have run: "render demoWorld demoHbs demoCtx ''head'' None
     = (Inr (demoCtx\<lparr>body := Some ''<p>hi</p>''\<rparr>), snd (render demoWorld demoHbs demoCtx ''head'' None))"
    by (simp add: prod_eq_iff model_defs demo_defs)
  have rest: "fragments (blocks demoHbs) ''title'' = []
   \<and> fragments (blocks (snd (render demoWorld demoHbs demoCtx ''head'' None))) ''title'' = [''Home'']
   \<and> fst (render demoWorld (snd (render demoWorld demoHbs demoCtx ''head'' None)) demoCtx
            ''home'' (Some [(''layout'', JStr ''titled'')]))
       = Inr (demoCtx\<lparr>body := Some ''<title>Home</title><p>hi</p>''\<rparr>)
   \<and> fst (render demoWorld (renders [(demoWorld, demoCtx, ''head'', None), (demoWorld, demoCtx, ''head'', None)] demoHbs)
            demoCtx ''home'' (Some [(''layout'', JStr ''titled'')]))
       = Inr (demoCtx\<lparr>body := Some (''<title>Home'' @ [CHR 0x0A] @ ''Home</title><p>hi</p>'')\<rparr>)"
    by (simp add: model_defs demo_defs)
  from C10_blocks_persist [OF run] run rest show ?thesis by simp
qed

section \<open>Failures\<close>


lemma resolveTemplate_error:
  assumes "resolveTemplate w h tpl = (Inl e, h1)"
  shows "e = MissingTemplateError ''The template specified does not exist.'' None
       \<or> e = MissingTemplateError ''The template specified does not exist.'' (Some [])"
  using assms
  by (auto simp: resolveTemplate_def Let_def split: prod.splits option.splits if_splits)

lemma runTemplates_no_layout:
  "fst (runTemplates t None ctx m h) \<noteq> Inr c"
  by (simp add: runTemplates_def split: prod.splits sum.splits)

lemma cacheLayout_failure:
  assumes "defaultLayout h \<noteq> []" and "getLayoutPath w h (JStr (defaultLayout h)) = Inr lp"
    and "readFile w lp = None"
  shows "cacheLayout w h None = (None, emit [ReadFile lp, LogError (FsError lp)] h)"
  using assms by (simp add: cacheLayout_def falsy_def loadLayoutFile_def)

section \<open>Compiling and caching a template\<close>


lemma cacheTemplate_miss:
  assumes "disableCache h \<or> cache h tpl = None" and "readFile w p = Some raw"
  shows "cacheTemplate w h tpl p m =
     (if getProp m ''layout'' \<noteq> JUndefined \<or> rLayoutTest raw
      then (case chooseLayout m raw of
              None \<Rightarrow> (Inl (TypeError ''Cannot read properties of null''),
                        emit [ReadFile p, Compile raw]
                          (h\<lparr>cache := (cache h)(tpl \<mapsto> \<lparr>template = compile w raw, entryLayoutTemplate = None\<rparr>)\<rparr>))
            | Some layout \<Rightarrow>
                if layout \<noteq> JBool False
                then (case loadLayoutFile w
                             (emit [ReadFile p, Compile raw]
                                (h\<lparr>cache := (cache h)(tpl \<mapsto> \<lparr>template = compile w raw, entryLayoutTemplate = None\<rparr>)\<rparr>))
                             layout of
                        (Inl e, h2) \<Rightarrow> (Inl e, h2)
                      | (Inr rawLayout, h2) \<Rightarrow> setEntryLayout h2 tpl (compile w rawLayout) rawLayout)
                else setEntryLayout
                       (emit [ReadFile p, Compile raw]
                          (h\<lparr>cache := (cache h)(tpl \<mapsto> \<lparr>template = compile w raw, entryLayoutTemplate = None\<rparr>)\<rparr>))
                       tpl (compile w ''{{{body}}}'') ''{{{body}}}'')
      else (Inr (),
            emit [ReadFile p, Compile raw]
              (h\<lparr>cache := (cache h)(tpl \<mapsto> \<lparr>template = compile w raw, entryLayoutTemplate = None\<rparr>)\<rparr>)))"
  unfolding cacheTemplate_def Let_def using assms by auto

text \<open>The entry a compiling call leaves, by the layout chosen.\<close>

lemma cacheTemplate_miss_false:
  assumes "disableCache h \<or> cache h tpl = None" and "readFile w p = Some raw"
    and "chooseLayout m raw = Some (JBool False)"
  shows "\<exists>h3. cacheTemplate w h tpl p m = (Inr (), h3)
           \<and> cache h3 tpl = Some \<lparr>template = compile w raw,
                                   entryLayoutTemplate = Some (compile w ''{{{body}}}'')\<rparr>
           \<and> partials h3 = partials h \<and> blocks h3 = blocks h"
proof -
  have c: "getProp m ''layout'' \<noteq> JUndefined \<or> rLayoutTest raw"
    using assms(3) by (auto simp: chooseLayout_def split: if_splits)
  show ?thesis
    unfolding cacheTemplate_miss [OF assms(1,2)] using c assms(3)
    by (simp add: setEntryLayout_def)
qed

lemma loadLayoutFile_ok:
  assumes "getLayoutPath w h layout = Inr lp" and "readFile w lp = Some rawLayout"
  shows "loadLayoutFile w h layout = (Inr rawLayout, emit [ReadFile lp] h)"
  using assms by (simp add: loadLayoutFile_def)

lemma getLayoutPath_cong:
  "layoutsPath h' = layoutsPath h \<Longrightarrow> viewPath h' = viewPath h \<Longrightarrow> extname h' = extname h
     \<Longrightarrow> getLayoutPath w h' layout = getLayoutPath w h layout"
  by (simp add: getLayoutPath_def split: list.splits)

lemma cacheTemplate_miss_named:
  assumes "disableCache h \<or> cache h tpl = None" and "readFile w p = Some raw"
    and "chooseLayout m raw = Some layout" and "layout \<noteq> JBool False"
    and "getLayoutPath w h layout = Inr lp" and "readFile w lp = Some rawLayout"
  shows "\<exists>h3. cacheTemplate w h tpl p m = (Inr (), h3)
           \<and> cache h3 tpl = Some \<lparr>template = compile w raw,
                                   entryLayoutTemplate = Some (compile w rawLayout)\<rparr>
           \<and> partials h3 = partials h \<and> blocks h3 = blocks h"
proof -
  have c: "getProp m ''layout'' \<noteq> JUndefined \<or> rLayoutTest raw"
    using assms(3) by (auto simp: chooseLayout_def split: if_splits)
  define h1 where "h1 = emit [ReadFile p, Compile raw]
       (h\<lparr>cache := (cache h)(tpl \<mapsto> \<lparr>template = compile w raw, entryLayoutTemplate = None\<rparr>)\<rparr>)"
  have "getLayoutPath w h1 layout = getLayoutPath w h layout"
    by (rule getLayoutPath_cong) (simp_all add: h1_def)
  with assms(5) have "getLayoutPath w h1 layout = Inr lp" by simp
  then have ld: "loadLayoutFile w h1 layout = (Inr rawLayout, emit [ReadFile lp] h1)"
    using assms(6) by (rule loadLayoutFile_ok)
  show ?thesis
    unfolding cacheTemplate_miss [OF assms(1,2)] using c assms(3,4) ld
    by (simp add: setEntryLayout_def h1_def)
qed

section \<open>The layout of a render\<close>


lemma render_unfold:
  assumes "resolveTemplate w h tpl = (Inr p, h1)"
  shows "render w h ctx tpl callData =
     (case cacheTemplate w (ensurePartials w h1) tpl p (mergeLocals h ctx callData) of
        (Inl e, h3) \<Rightarrow> (Inl e, h3)
      | (Inr u, h3) \<Rightarrow>
          (case cache h3 tpl of
             None \<Rightarrow> (Inl (TypeError ''Cannot read properties of undefined''), h3)
           | Some e \<Rightarrow>
               (case pickLayout w h3 e of
                  (lt, h4) \<Rightarrow> runTemplates (template e) lt ctx (mergeLocals h ctx callData) h4)))"
proof -
  have h1: "h1 = snd (getTemplatePath w h tpl)" using assms by (rule resolveTemplateE)
  have m: "mergeLocals h1 ctx callData = mergeLocals h ctx callData"
    by (simp add: mergeLocals_def h1)
  have "render w h ctx tpl callData =
     (case cacheTemplate w (ensurePartials w h1) tpl p (mergeLocals h1 ctx callData) of
        (Inl e, h3) \<Rightarrow> (Inl e, h3)
      | (Inr u, h3) \<Rightarrow>
          (case cache h3 tpl of
             None \<Rightarrow> (Inl (TypeError ''Cannot read properties of undefined''), h3)
           | Some e \<Rightarrow>
               (case pickLayout w h3 e of
                  (lt, h4) \<Rightarrow> runTemplates (template e) lt ctx (mergeLocals h1 ctx callData) h4)))"
    unfolding render_def assms Let_def by simp
  then show ?thesis unfolding m .
qed

lemma render_cache_hit:
  assumes "\<not> disableCache h" and "cache h tpl = Some e" and "entryLayoutTemplate e = Some l"
    and "resolveTemplate w h tpl = (Inr p, h1)"
  shows "render w h ctx tpl callData =
           runTemplates (template e) (Some l) ctx (mergeLocals h ctx callData) (ensurePartials w h1)"
proof -
  have h1: "h1 = snd (getTemplatePath w h tpl)" using assms(4) by (rule resolveTemplateE)
  have "\<not> disableCache (ensurePartials w h1)" "cache (ensurePartials w h1) tpl = Some e"
    using assms(1,2) by (simp_all add: h1)
  then have ct: "cacheTemplate w (ensurePartials w h1) tpl p (mergeLocals h ctx callData)
                  = (Inr (), ensurePartials w h1)"
    by (rule cacheTemplate_hit)
  show ?thesis
    unfolding render_unfold [OF assms(4)] ct
    using \<open>cache (ensurePartials w h1) tpl = Some e\<close> assms(3)
    by (simp add: pickLayout_def)
qed

lemma layout_of_callData:
  "map_of callData ''layout'' = Some v \<Longrightarrow> getProp (mergeLocals h ctx (Some callData)) ''layout'' = v"
  by (simp add: getProp_def mergeLocals_def map_of_merge orEmpty_def)

lemma render_layout_false:
  assumes eng: "passthroughEngine w"
    and lay: "getProp (mergeLocals h ctx callData) ''layout'' = JBool False"
    and res: "resolveTemplate w h tpl = (Inr p, h1)"
    and miss: "disableCache h \<or> cache h tpl = None"
    and raw: "readFile w p = Some raw"
    and run: "compile w raw ctx (mergeLocals h ctx callData) (partials (ensurePartials w h1)) (blocks h)
                = (Inr b, bs)"
  shows "fst (render w h ctx tpl callData) = Inr (ctx\<lparr>body := Some b\<rparr>)"
proof -
  have h1: "h1 = snd (getTemplatePath w h tpl)" using res by (rule resolveTemplateE)
  have miss2: "disableCache (ensurePartials w h1) \<or> cache (ensurePartials w h1) tpl = None"
    using miss by (simp add: h1)
  have ch: "chooseLayout (mergeLocals h ctx callData) raw = Some (JBool False)"
    using lay by (simp add: chooseLayout_def)
  from cacheTemplate_miss_false [OF miss2 raw ch] obtain h3 where
    h3: "cacheTemplate w (ensurePartials w h1) tpl p (mergeLocals h ctx callData) = (Inr (), h3)"
      "cache h3 tpl = Some \<lparr>template = compile w raw, entryLayoutTemplate = Some (compile w ''{{{body}}}'')\<rparr>"
      "partials h3 = partials (ensurePartials w h1)" "blocks h3 = blocks (ensurePartials w h1)"
    by blast
  have b3: "blocks h3 = blocks h" using h3(4) by (simp add: h1)
  obtain r bs' where lt: "compile w ''{{{body}}}'' ctx (layoutData (mergeLocals h ctx callData) b)
                            (partials h3) bs = (r, bs')"
    by (cases "compile w ''{{{body}}}'' ctx (layoutData (mergeLocals h ctx callData) b) (partials h3) bs")
  have "getProp (layoutData (mergeLocals h ctx callData) b) ''body'' = JStr b"
    by (simp add: getProp_def layoutData_def map_of_setProp)
  with eng have "fst (compile w ''{{{body}}}'' ctx (layoutData (mergeLocals h ctx callData) b)
                        (partials h3) bs) = Inr b"
    unfolding passthroughEngine_def by blast
  with lt have r: "r = Inr b" by simp
  show ?thesis
    unfolding render_unfold [OF res] h3(1)
    using h3(2) run lt r b3 h3(3)
    by (simp add: pickLayout_def runTemplates_def)
qed

lemma render_cache_hit_any:
  assumes "\<not> disableCache h" and "cache h tpl = Some e"
    and "resolveTemplate w h tpl = (Inr p, h1)"
  shows "render w h ctx tpl callData =
           (case pickLayout w (ensurePartials w h1) e of
              (lt, h4) \<Rightarrow> runTemplates (template e) lt ctx (mergeLocals h ctx callData) h4)"
proof -
  have h1: "h1 = snd (getTemplatePath w h tpl)" using assms(3) by (rule resolveTemplateE)
  have "\<not> disableCache (ensurePartials w h1)" "cache (ensurePartials w h1) tpl = Some e"
    using assms(1,2) by (simp_all add: h1)
  then have ct: "cacheTemplate w (ensurePartials w h1) tpl p (mergeLocals h ctx callData)
                  = (Inr (), ensurePartials w h1)"
    by (rule cacheTemplate_hit)
  show ?thesis
    unfolding render_unfold [OF assms(3)] ct
    using \<open>cache (ensurePartials w h1) tpl = Some e\<close> by simp
qed

text \<open>A compiling call, by the layout line 136 settles on: the instance it leaves.\<close>

lemma cacheTemplate_false_state:
  assumes "disableCache h \<or> cache h tpl = None" and "readFile w p = Some raw"
    and "chooseLayout m raw = Some (JBool False)"
  shows "cacheTemplate w h tpl p m =
           (Inr (), withEntry h tpl
              \<lparr>template = compile w raw, entryLayoutTemplate = Some (compile w ''{{{body}}}'')\<rparr>
              [ReadFile p, Compile raw, Compile ''{{{body}}}''])"
proof -
  have c: "getProp m ''layout'' \<noteq> JUndefined \<or> rLayoutTest raw"
    using assms(3) by (auto simp: chooseLayout_def split: if_splits)
  show ?thesis
    unfolding cacheTemplate_miss [OF assms(1,2)] using c assms(3)
    by (simp add: setEntryLayout_def withEntry_def emit_def)
qed

lemma cacheTemplate_named_state:
  assumes "disableCache h \<or> cache h tpl = None" and "readFile w p = Some raw"
    and "chooseLayout m raw = Some layout" and "layout \<noteq> JBool False"
    and "getLayoutPath w h layout = Inr lp" and "readFile w lp = Some rawLayout"
  shows "cacheTemplate w h tpl p m =
           (Inr (), withEntry h tpl
              \<lparr>template = compile w raw, entryLayoutTemplate = Some (compile w rawLayout)\<rparr>
              [ReadFile p, Compile raw, ReadFile lp, Compile rawLayout])"
proof -
  have c: "getProp m ''layout'' \<noteq> JUndefined \<or> rLayoutTest raw"
    using assms(3) by (auto simp: chooseLayout_def split: if_splits)
  define h1 where "h1 = emit [ReadFile p, Compile raw]
       (h\<lparr>cache := (cache h)(tpl \<mapsto> \<lparr>template = compile w raw, entryLayoutTemplate = None\<rparr>)\<rparr>)"
  have "getLayoutPath w h1 layout = getLayoutPath w h layout"
    by (rule getLayoutPath_cong) (simp_all add: h1_def)
  with assms(5) have "getLayoutPath w h1 layout = Inr lp" by simp
  then have ld: "loadLayoutFile w h1 layout = (Inr rawLayout, emit [ReadFile lp] h1)"
    using assms(6) by (rule loadLayoutFile_ok)
  show ?thesis
    unfolding cacheTemplate_miss [OF assms(1,2)] using c assms(3,4) ld
    by (simp add: setEntryLayout_def h1_def withEntry_def emit_def)
qed

lemma cacheTemplate_unreadable_state:
  assumes "disableCache h \<or> cache h tpl = None" and "readFile w p = Some raw"
    and "chooseLayout m raw = Some layout" and "layout \<noteq> JBool False"
    and "getLayoutPath w h layout = Inr lp" and "readFile w lp = None"
  shows "cacheTemplate w h tpl p m =
           (Inl (FsError lp), withEntry h tpl
              \<lparr>template = compile w raw, entryLayoutTemplate = None\<rparr>
              [ReadFile p, Compile raw, ReadFile lp])"
proof -
  have c: "getProp m ''layout'' \<noteq> JUndefined \<or> rLayoutTest raw"
    using assms(3) by (auto simp: chooseLayout_def split: if_splits)
  define h1 where "h1 = emit [ReadFile p, Compile raw]
       (h\<lparr>cache := (cache h)(tpl \<mapsto> \<lparr>template = compile w raw, entryLayoutTemplate = None\<rparr>)\<rparr>)"
  have "getLayoutPath w h1 layout = getLayoutPath w h layout"
    by (rule getLayoutPath_cong) (simp_all add: h1_def)
  with assms(5) have "getLayoutPath w h1 layout = Inr lp" by simp
  then have ld: "loadLayoutFile w h1 layout = (Inl (FsError lp), emit [ReadFile lp] h1)"
    using assms(6) by (simp add: loadLayoutFile_def)
  show ?thesis
    unfolding cacheTemplate_miss [OF assms(1,2)] using c assms(3,4) ld
    by (simp add: h1_def withEntry_def emit_def)
qed

lemma withEntry_fields [simp]:
  "cache (withEntry h tpl e evs) tpl = Some e"
  "partials (withEntry h tpl e evs) = partials h"
  "blocks (withEntry h tpl e evs) = blocks h"
  "disableCache (withEntry h tpl e evs) = disableCache h"
  "layoutTemplate (withEntry h tpl e evs) = layoutTemplate h"
  "trace (withEntry h tpl e evs) = trace h @ evs"
  by (simp_all add: withEntry_def)

text \<open>A render whose compiling step leaves an entry with a layout of its own.\<close>

lemma render_compiled:
  assumes "resolveTemplate w h tpl = (Inr p, h1)"
    and "cacheTemplate w (ensurePartials w h1) tpl p (mergeLocals h ctx callData)
           = (Inr (), withEntry (ensurePartials w h1) tpl
                \<lparr>template = t, entryLayoutTemplate = Some l\<rparr> evs)"
  shows "render w h ctx tpl callData =
           runTemplates t (Some l) ctx (mergeLocals h ctx callData)
             (withEntry (ensurePartials w h1) tpl \<lparr>template = t, entryLayoutTemplate = Some l\<rparr> evs)"
  unfolding render_unfold [OF assms(1)] assms(2) by (simp add: pickLayout_def)

lemma render_unreadable:
  assumes "resolveTemplate w h tpl = (Inr p, h1)"
    and "cacheTemplate w (ensurePartials w h1) tpl p (mergeLocals h ctx callData) = (Inl e, h3)"
  shows "render w h ctx tpl callData = (Inl e, h3)"
  unfolding render_unfold [OF assms(1)] assms(2) by simp


lemma cacheTemplate_nopath_state:
  assumes "disableCache h \<or> cache h tpl = None" and "readFile w p = Some raw"
    and "chooseLayout m raw = Some layout" and "layout \<noteq> JBool False"
    and "getLayoutPath w h layout = Inl err"
  shows "cacheTemplate w h tpl p m =
           (Inl err, withEntry h tpl
              \<lparr>template = compile w raw, entryLayoutTemplate = None\<rparr>
              [ReadFile p, Compile raw])"
proof -
  have c: "getProp m ''layout'' \<noteq> JUndefined \<or> rLayoutTest raw"
    using assms(3) by (auto simp: chooseLayout_def split: if_splits)
  define h1 where "h1 = emit [ReadFile p, Compile raw]
       (h\<lparr>cache := (cache h)(tpl \<mapsto> \<lparr>template = compile w raw, entryLayoutTemplate = None\<rparr>)\<rparr>)"
  have "getLayoutPath w h1 layout = getLayoutPath w h layout"
    by (rule getLayoutPath_cong) (simp_all add: h1_def)
  with assms(5) have "getLayoutPath w h1 layout = Inl err" by simp
  then have ld: "loadLayoutFile w h1 layout = (Inl err, h1)"
    by (simp add: loadLayoutFile_def)
  show ?thesis
    unfolding cacheTemplate_miss [OF assms(1,2)] using c assms(3,4) ld
    by (simp add: h1_def withEntry_def emit_def)
qed

text \<open>
  Claim C1, as the code has it. The template name and the keys of the data are plain names.
  The call-site data say \<^verbatim>\<open>layout: false\<close> and the name resolves to the path \<open>p\<close>. When the
  call compiles the template (caching is disabled, or the cache has no entry for the name),
  the source \<open>raw\<close> of the file is compiled with the pass-through layout, whatever directive
  \<open>raw\<close> holds: if the body template renders the merged data to \<open>b\<close>, the call delivers \<open>b\<close>.
  When caching is enabled and the cache has an entry for the name, the data are not looked
  at: the call runs the template of the entry in the layout lines 147 to 152 pick for it,
  which is the layout stored in the entry when it has one, and otherwise the default layout
  of the instance, read and compiled on this call when the instance holds none yet.
\<close>

theorem C1_layout_false:
  assumes "passthroughEngine w"
    and "plainName tpl" and "plainObj (locals h)" and "plainObj (orEmpty (state ctx))"
    and "plainObj callData"
    and "map_of callData ''layout'' = Some (JBool False)"
    and "resolveTemplate w h tpl = (Inr p, h1)"
  shows "((disableCache h \<or> cache h tpl = None)
          \<and> readFile w p = Some raw
          \<and> compile w raw ctx (mergeLocals h ctx (Some callData))
                (partials (ensurePartials w h1)) (blocks h) = (Inr b, bs)
          \<longrightarrow> fst (render w h ctx tpl (Some callData)) = Inr (ctx\<lparr>body := Some b\<rparr>))
       \<and> (\<not> disableCache h \<and> cache h tpl = Some e
          \<longrightarrow> render w h ctx tpl (Some callData)
                = (case pickLayout w (ensurePartials w h1) e of
                     (lt, h4) \<Rightarrow>
                       runTemplates (template e) lt ctx (mergeLocals h ctx (Some callData)) h4))"
proof -
  have lay: "getProp (mergeLocals h ctx (Some callData)) ''layout'' = JBool False"
    using assms(6) by (rule layout_of_callData)
  have first: "fst (render w h ctx tpl (Some callData)) = Inr (ctx\<lparr>body := Some b\<rparr>)"
    if "disableCache h \<or> cache h tpl = None" and "readFile w p = Some raw"
      and "compile w raw ctx (mergeLocals h ctx (Some callData))
                (partials (ensurePartials w h1)) (blocks h) = (Inr b, bs)"
    using assms(1) lay assms(7) that by (rule render_layout_false)
  have second: "render w h ctx tpl (Some callData)
                = (case pickLayout w (ensurePartials w h1) e of
                     (lt, h4) \<Rightarrow>
                       runTemplates (template e) lt ctx (mergeLocals h ctx (Some callData)) h4)"
    if "\<not> disableCache h" and "cache h tpl = Some e"
    using that assms(7) by (rule render_cache_hit_any)
  from first second show ?thesis by blast
qed

text \<open>
  The theorem at work: the template \<^verbatim>\<open>post\<close>, whose first line is a directive, not
  rendered before; the template \<^verbatim>\<open>home\<close> on the instance that has rendered it in the
  layout \<^verbatim>\<open>main\<close>; and the template \<^verbatim>\<open>home\<close> on the instance whose default layout is
  \<^verbatim>\<open>main\<close>, after a render that was rejected because its layout file could not be read.
  That render left an entry with no layout: the render with \<^verbatim>\<open>layout: false\<close> reads and
  compiles the default layout and delivers the body wrapped in it.
\<close>

theorem C1_layout_false_witness:
  "passthroughEngine demoWorld
   \<and> plainName ''post'' \<and> plainName ''home''
   \<and> plainObj (locals demoHbs) \<and> plainObj (locals demoAfterMain)
   \<and> plainObj (locals demoAfterRejected) \<and> plainObj (orEmpty (state demoCtx))
   \<and> plainObj [(''layout'', JBool False)]
   \<and> map_of [(''layout'', JBool False)] ''layout'' = Some (JBool False)
   \<and> resolveTemplate demoWorld demoHbs ''post''
       = (Inr ''/views/post.hbs'', snd (resolveTemplate demoWorld demoHbs ''post''))
   \<and> cache demoHbs ''post'' = None
   \<and> readFile demoWorld ''/views/post.hbs'' = Some ''{{!< main}}<p>post</p>''
   \<and> rLayoutExec ''{{!< main}}<p>post</p>'' = Some ''main''
   \<and> fst (render demoWorld demoHbs demoCtx ''post'' (Some [(''layout'', JBool False)]))
       = Inr (demoCtx\<lparr>body := Some ''{{!< main}}<p>post</p>''\<rparr>)
   \<and> resolveTemplate demoWorld demoAfterMain ''home''
       = (Inr ''/views/home.hbs'', snd (resolveTemplate demoWorld demoAfterMain ''home''))
   \<and> \<not> disableCache demoAfterMain
   \<and> cache demoAfterMain ''home''
       = Some \<lparr>template = compile demoWorld ''<p>hi</p>'',
               entryLayoutTemplate = Some (compile demoWorld ''<html>{{{body}}}</html>'')\<rparr>
   \<and> render demoWorld demoAfterMain demoCtx ''home'' (Some [(''layout'', JBool False)])
       = runTemplates (compile demoWorld ''<p>hi</p>'')
           (Some (compile demoWorld ''<html>{{{body}}}</html>'')) demoCtx
           (mergeLocals demoAfterMain demoCtx (Some [(''layout'', JBool False)]))
           (ensurePartials demoWorld (snd (resolveTemplate demoWorld demoAfterMain ''home'')))
   \<and> fst (render demoWorld demoMainHbs demoCtx ''home'' (Some [(''layout'', JStr ''absent'')]))
       = Inl (FsError ''/views/absent.hbs'')
   \<and> resolveTemplate demoWorld demoAfterRejected ''home''
       = (Inr ''/views/home.hbs'', snd (resolveTemplate demoWorld demoAfterRejected ''home''))
   \<and> \<not> disableCache demoAfterRejected
   \<and> cache demoAfterRejected ''home''
       = Some \<lparr>template = compile demoWorld ''<p>hi</p>'', entryLayoutTemplate = None\<rparr>
   \<and> layoutTemplate demoAfterRejected = None
   \<and> render demoWorld demoAfterRejected demoCtx ''home'' (Some [(''layout'', JBool False)])
       = (case getLayoutTemplate demoWorld
                 (ensurePartials demoWorld (snd (resolveTemplate demoWorld demoAfterRejected ''home''))) of
            (lt, h4) \<Rightarrow>
              runTemplates (compile demoWorld ''<p>hi</p>'') lt demoCtx
                (mergeLocals demoAfterRejected demoCtx (Some [(''layout'', JBool False)])) h4)
   \<and> fst (render demoWorld demoAfterRejected demoCtx ''home'' (Some [(''layout'', JBool False)]))
       = Inr (demoCtx\<lparr>body := Some ''<html><p>hi</p></html>''\<rparr>)
   \<and> newEvents demoAfterRejected
        (snd (render demoWorld demoAfterRejected demoCtx ''home'' (Some [(''layout'', JBool False)])))
       = [ReadFile ''/views/main.hbs'', Compile ''<html>{{{body}}}</html>'']"
proof -
  have eng: "passthroughEngine demoWorld"
    by (simp add: passthroughEngine_def demoWorld_def demoCompile_def bodyTemplate_def)
  have pn: "plainName ''post''" "plainName ''home''"
    by (simp_all add: plainName_def protoNames_def)
  have po: "plainObj (locals demoHbs)" "plainObj (locals demoAfterMain)"
    "plainObj (locals demoAfterRejected)" "plainObj (orEmpty (state demoCtx))"
    "plainObj [(''layout'', JBool False)]"
    by (simp_all add: plainObj_def plainName_def protoNames_def orEmpty_def demoAfterMain_def
        demoAfterRejected_def demoMainHbs_def render_config demoHbs_def demoCtx_def configure_def
        demoOptions_def)
  have lay: "map_of [(''layout'', JBool False)] ''layout'' = Some (JBool False)"
    by simp
  have res: "resolveTemplate demoWorld demoHbs ''post''
       = (Inr ''/views/post.hbs'', snd (resolveTemplate demoWorld demoHbs ''post''))"
    by (simp add: prod_eq_iff model_defs demo_defs)
  have miss: "cache demoHbs ''post'' = None"
    by (simp add: demoHbs_def)
  have raw: "readFile demoWorld ''/views/post.hbs'' = Some ''{{!< main}}<p>post</p>''"
    by (simp add: demo_defs)
  have dir: "rLayoutExec ''{{!< main}}<p>post</p>'' = Some ''main''"
    by (simp add: model_defs)
  have run: "compile demoWorld ''{{!< main}}<p>post</p>'' demoCtx
               (mergeLocals demoHbs demoCtx (Some [(''layout'', JBool False)]))
               (partials (ensurePartials demoWorld (snd (resolveTemplate demoWorld demoHbs ''post''))))
               (blocks demoHbs)
             = (Inr ''{{!< main}}<p>post</p>'', blocks demoHbs)"
    by (simp add: demo_defs)
  have out: "fst (render demoWorld demoHbs demoCtx ''post'' (Some [(''layout'', JBool False)]))
       = Inr (demoCtx\<lparr>body := Some ''{{!< main}}<p>post</p>''\<rparr>)"
    by (rule mp [OF C1_layout_false [OF eng pn(1) po(1) po(4) po(5) lay res, THEN conjunct1]])
       (rule conjI, rule disjI2, rule miss, rule conjI, rule raw, rule run)
  have resA: "resolveTemplate demoWorld demoAfterMain ''home''
       = (Inr ''/views/home.hbs'', snd (resolveTemplate demoWorld demoAfterMain ''home''))"
    by (simp add: prod_eq_iff demoAfterMain_def model_defs demo_defs)
  have ndA: "\<not> disableCache demoAfterMain"
    by (simp add: demoAfterMain_def render_config demoHbs_def)
  have cacheA: "cache demoAfterMain ''home''
       = Some \<lparr>template = compile demoWorld ''<p>hi</p>'',
               entryLayoutTemplate = Some (compile demoWorld ''<html>{{{body}}}</html>'')\<rparr>"
    by (simp add: demoAfterMain_def model_defs demo_defs)
  have hit: "render demoWorld demoAfterMain demoCtx ''home'' (Some [(''layout'', JBool False)])
       = (case pickLayout demoWorld
                 (ensurePartials demoWorld (snd (resolveTemplate demoWorld demoAfterMain ''home'')))
                 \<lparr>template = compile demoWorld ''<p>hi</p>'',
                  entryLayoutTemplate = Some (compile demoWorld ''<html>{{{body}}}</html>'')\<rparr> of
            (lt, h4) \<Rightarrow>
              runTemplates (template \<lparr>template = compile demoWorld ''<p>hi</p>'',
                  entryLayoutTemplate = Some (compile demoWorld ''<html>{{{body}}}</html>'')\<rparr>)
                lt demoCtx
                (mergeLocals demoAfterMain demoCtx (Some [(''layout'', JBool False)])) h4)"
    by (rule mp [OF C1_layout_false [OF eng pn(2) po(2) po(4) po(5) lay resA, THEN conjunct2]])
       (intro conjI ndA cacheA)
  have hit': "render demoWorld demoAfterMain demoCtx ''home'' (Some [(''layout'', JBool False)])
       = runTemplates (compile demoWorld ''<p>hi</p>'')
           (Some (compile demoWorld ''<html>{{{body}}}</html>'')) demoCtx
           (mergeLocals demoAfterMain demoCtx (Some [(''layout'', JBool False)]))
           (ensurePartials demoWorld (snd (resolveTemplate demoWorld demoAfterMain ''home'')))"
    unfolding hit by (simp add: pickLayout_def)
  have rej: "fst (render demoWorld demoMainHbs demoCtx ''home'' (Some [(''layout'', JStr ''absent'')]))
       = Inl (FsError ''/views/absent.hbs'')"
    by (simp add: demoMainHbs_def model_defs demo_defs)
  have resR: "resolveTemplate demoWorld demoAfterRejected ''home''
       = (Inr ''/views/home.hbs'', snd (resolveTemplate demoWorld demoAfterRejected ''home''))"
    by (simp add: prod_eq_iff demoAfterRejected_def demoMainHbs_def model_defs demo_defs)
  have ndR: "\<not> disableCache demoAfterRejected"
    by (simp add: demoAfterRejected_def demoMainHbs_def render_config demoHbs_def)
  have cacheR: "cache demoAfterRejected ''home''
       = Some \<lparr>template = compile demoWorld ''<p>hi</p>'', entryLayoutTemplate = None\<rparr>"
    by (simp add: demoAfterRejected_def demoMainHbs_def model_defs demo_defs)
  have slotR: "layoutTemplate demoAfterRejected = None"
    by (simp add: demoAfterRejected_def demoMainHbs_def model_defs demo_defs)
  have hitR: "render demoWorld demoAfterRejected demoCtx ''home'' (Some [(''layout'', JBool False)])
       = (case pickLayout demoWorld
                 (ensurePartials demoWorld (snd (resolveTemplate demoWorld demoAfterRejected ''home'')))
                 \<lparr>template = compile demoWorld ''<p>hi</p>'', entryLayoutTemplate = None\<rparr> of
            (lt, h4) \<Rightarrow>
              runTemplates (template \<lparr>template = compile demoWorld ''<p>hi</p>'',
                  entryLayoutTemplate = None\<rparr>)
                lt demoCtx
                (mergeLocals demoAfterRejected demoCtx (Some [(''layout'', JBool False)])) h4)"
    by (rule mp [OF C1_layout_false [OF eng pn(2) po(3) po(4) po(5) lay resR, THEN conjunct2]])
       (intro conjI ndR cacheR)
  have hitR': "render demoWorld demoAfterRejected demoCtx ''home'' (Some [(''layout'', JBool False)])
       = (case getLayoutTemplate demoWorld
                 (ensurePartials demoWorld (snd (resolveTemplate demoWorld demoAfterRejected ''home''))) of
            (lt, h4) \<Rightarrow>
              runTemplates (compile demoWorld ''<p>hi</p>'') lt demoCtx
                (mergeLocals demoAfterRejected demoCtx (Some [(''layout'', JBool False)])) h4)"
    unfolding hitR by (simp add: pickLayout_def)
  have outR: "fst (render demoWorld demoAfterRejected demoCtx ''home'' (Some [(''layout'', JBool False)]))
       = Inr (demoCtx\<lparr>body := Some ''<html><p>hi</p></html>''\<rparr>)"
    by (simp add: demoAfterRejected_def demoMainHbs_def model_defs demo_defs)
  have evR: "newEvents demoAfterRejected
        (snd (render demoWorld demoAfterRejected demoCtx ''home'' (Some [(''layout'', JBool False)])))
       = [ReadFile ''/views/main.hbs'', Compile ''<html>{{{body}}}</html>'']"
    by (simp add: newEvents_def demoAfterRejected_def demoMainHbs_def model_defs demo_defs)
  show ?thesis
    by (intro conjI eng pn po lay res miss raw dir out resA ndA cacheA hit' rej resR ndR cacheR
        slotR hitR' outR evR)
qed


text \<open>
  The claim as the specification words it holds regardless of earlier renders of the name.
  After \<^verbatim>\<open>home\<close> has been rendered with \<^verbatim>\<open>layout: 'main'\<close>, a render of \<^verbatim>\<open>home\<close> with
  \<^verbatim>\<open>layout: false\<close> delivers the body wrapped in the layout \<^verbatim>\<open>main\<close>, not the body.
\<close>

theorem C1_counterexample:
  "readFile demoWorld ''/views/home.hbs'' = Some ''<p>hi</p>''
   \<and> fst (compile demoWorld ''<p>hi</p>'' demoCtx
            (mergeLocals (snd (render demoWorld demoHbs demoCtx ''home'' (Some [(''layout'', JStr ''main'')])))
               demoCtx (Some [(''layout'', JBool False)]))
            Map.empty Map.empty)
       = Inr ''<p>hi</p>''
   \<and> fst (render demoWorld
            (snd (render demoWorld demoHbs demoCtx ''home'' (Some [(''layout'', JStr ''main'')])))
            demoCtx ''home'' (Some [(''layout'', JBool False)]))
       = Inr (demoCtx\<lparr>body := Some ''<html><p>hi</p></html>''\<rparr>)"
  by (simp add: model_defs demo_defs)

lemma runTemplates_snd: "\<exists>bs. snd (runTemplates t lt ctx m h) = h\<lparr>blocks := bs\<rparr>"
  by (auto simp: runTemplates_def split: prod.splits sum.splits option.splits)

lemma render_cache_after:
  assumes "resolveTemplate w h tpl = (Inr p, h1)"
    and "cacheTemplate w (ensurePartials w h1) tpl p (mergeLocals h ctx callData) = (Inr (), h3)"
  shows "cache (snd (render w h ctx tpl callData)) = cache h3"
proof (cases "cache h3 tpl")
  case None
  then show ?thesis unfolding render_unfold [OF assms(1)] assms(2) by simp
next
  case (Some e)
  obtain lt h4 where pl: "pickLayout w h3 e = (lt, h4)" by (cases "pickLayout w h3 e")
  obtain bs where "snd (runTemplates (template e) lt ctx (mergeLocals h ctx callData) h4) = h4\<lparr>blocks := bs\<rparr>"
    using runTemplates_snd by blast
  then have "snd (render w h ctx tpl callData) = h4\<lparr>blocks := bs\<rparr>"
    unfolding render_unfold [OF assms(1)] assms(2) using Some pl by simp
  then show ?thesis using pickLayout_fields(1) [OF pl] by simp
qed

text \<open>
  Claim C6, as the code has it. The template name and the keys of the data are plain names.
  The name resolves to a file whose source \<open>raw\<close> holds a directive, \<open>name\<close> being the
  leftmost. The layout line 136 settles on is the directive's name when the merged data
  have no \<^verbatim>\<open>layout\<close> (the key is absent, or its value is \<^verbatim>\<open>undefined\<close>), and the value of the
  data otherwise, a falsy one included. A call that compiles the template (caching is
  disabled, or the cache has no entry for the name) renders with this layout: it runs the
  compiled \<open>raw\<close> in the pass-through layout for \<^verbatim>\<open>false\<close>, and otherwise in the compiled
  source of the layout file of that name; it is rejected, leaving an entry with no layout,
  when that file cannot be read or its path cannot be built. A call that finds an entry in
  the cache looks at neither the data nor the directive: it runs the template of the entry
  in the layout lines 147 to 152 pick for it, which is the layout stored in the entry when
  it has one, and otherwise the default layout of the instance.
\<close>

theorem C6_directive_precedence:
  assumes "plainName tpl" and "plainObj (locals h)" and "plainObj (orEmpty (state ctx))"
    and "plainObj (orEmpty callData)"
    and "resolveTemplate w h tpl = (Inr p, h1)"
    and "readFile w p = Some raw"
    and "rLayoutExec raw = Some name"
  shows "chooseLayout (mergeLocals h ctx callData) raw
           = Some (if getProp (mergeLocals h ctx callData) ''layout'' = JUndefined
                   then JStr name else getProp (mergeLocals h ctx callData) ''layout'')
       \<and> ((disableCache h \<or> cache h tpl = None)
            \<and> chooseLayout (mergeLocals h ctx callData) raw = Some (JBool False)
          \<longrightarrow> render w h ctx tpl callData
                = runTemplates (compile w raw) (Some (compile w ''{{{body}}}'')) ctx
                    (mergeLocals h ctx callData)
                    (withEntry (ensurePartials w h1) tpl
                       \<lparr>template = compile w raw,
                        entryLayoutTemplate = Some (compile w ''{{{body}}}'')\<rparr>
                       [ReadFile p, Compile raw, Compile ''{{{body}}}'']))
       \<and> ((disableCache h \<or> cache h tpl = None)
            \<and> chooseLayout (mergeLocals h ctx callData) raw = Some layout \<and> layout \<noteq> JBool False
            \<and> getLayoutPath w h layout = Inr lp \<and> readFile w lp = Some rawLayout
          \<longrightarrow> render w h ctx tpl callData
                = runTemplates (compile w raw) (Some (compile w rawLayout)) ctx
                    (mergeLocals h ctx callData)
                    (withEntry (ensurePartials w h1) tpl
                       \<lparr>template = compile w raw,
                        entryLayoutTemplate = Some (compile w rawLayout)\<rparr>
                       [ReadFile p, Compile raw, ReadFile lp, Compile rawLayout]))
       \<and> ((disableCache h \<or> cache h tpl = None)
            \<and> chooseLayout (mergeLocals h ctx callData) raw = Some layout \<and> layout \<noteq> JBool False
            \<and> getLayoutPath w h layout = Inr lp \<and> readFile w lp = None
          \<longrightarrow> render w h ctx tpl callData
                = (Inl (FsError lp),
                   withEntry (ensurePartials w h1) tpl
                     \<lparr>template = compile w raw, entryLayoutTemplate = None\<rparr>
                     [ReadFile p, Compile raw, ReadFile lp]))
       \<and> ((disableCache h \<or> cache h tpl = None)
            \<and> chooseLayout (mergeLocals h ctx callData) raw = Some layout \<and> layout \<noteq> JBool False
            \<and> getLayoutPath w h layout = Inl err
          \<longrightarrow> render w h ctx tpl callData
                = (Inl err,
                   withEntry (ensurePartials w h1) tpl
                     \<lparr>template = compile w raw, entryLayoutTemplate = None\<rparr>
                     [ReadFile p, Compile raw]))
       \<and> (\<not> disableCache h \<and> cache h tpl = Some e
          \<longrightarrow> render w h ctx tpl callData
                = (case pickLayout w (ensurePartials w h1) e of
                     (lt, h4) \<Rightarrow>
                       runTemplates (template e) lt ctx (mergeLocals h ctx callData) h4))"
proof -
  note res = assms(5) and raw = assms(6)
  have h1: "h1 = snd (getTemplatePath w h tpl)" using res by (rule resolveTemplateE)
  have miss2: "disableCache (ensurePartials w h1) \<or> cache (ensurePartials w h1) tpl = None"
    if "disableCache h \<or> cache h tpl = None"
    using that by (simp add: h1)
  have lp2: "getLayoutPath w (ensurePartials w h1) layout = getLayoutPath w h layout"
    by (rule getLayoutPath_cong) (simp_all add: h1)
  have first: "chooseLayout (mergeLocals h ctx callData) raw
           = Some (if getProp (mergeLocals h ctx callData) ''layout'' = JUndefined
                   then JStr name else getProp (mergeLocals h ctx callData) ''layout'')"
    using assms(7) by (simp add: chooseLayout_def rLayoutTest_def)
  have second: "render w h ctx tpl callData
                = runTemplates (compile w raw) (Some (compile w ''{{{body}}}'')) ctx
                    (mergeLocals h ctx callData)
                    (withEntry (ensurePartials w h1) tpl
                       \<lparr>template = compile w raw,
                        entryLayoutTemplate = Some (compile w ''{{{body}}}'')\<rparr>
                       [ReadFile p, Compile raw, Compile ''{{{body}}}''])"
    if miss: "disableCache h \<or> cache h tpl = None"
      and ch: "chooseLayout (mergeLocals h ctx callData) raw = Some (JBool False)"
    using res cacheTemplate_false_state [OF miss2 [OF miss] raw ch] by (rule render_compiled)
  have third: "render w h ctx tpl callData
                = runTemplates (compile w raw) (Some (compile w rawLayout)) ctx
                    (mergeLocals h ctx callData)
                    (withEntry (ensurePartials w h1) tpl
                       \<lparr>template = compile w raw,
                        entryLayoutTemplate = Some (compile w rawLayout)\<rparr>
                       [ReadFile p, Compile raw, ReadFile lp, Compile rawLayout])"
    if miss: "disableCache h \<or> cache h tpl = None"
      and ch: "chooseLayout (mergeLocals h ctx callData) raw = Some layout" "layout \<noteq> JBool False"
      and lp: "getLayoutPath w h layout = Inr lp" "readFile w lp = Some rawLayout"
  proof -
    have "getLayoutPath w (ensurePartials w h1) layout = Inr lp" using lp2 lp(1) by simp
    from res cacheTemplate_named_state [OF miss2 [OF miss] raw ch this lp(2)]
    show ?thesis by (rule render_compiled)
  qed
  have fourth: "render w h ctx tpl callData
                = (Inl (FsError lp),
                   withEntry (ensurePartials w h1) tpl
                     \<lparr>template = compile w raw, entryLayoutTemplate = None\<rparr>
                     [ReadFile p, Compile raw, ReadFile lp])"
    if miss: "disableCache h \<or> cache h tpl = None"
      and ch: "chooseLayout (mergeLocals h ctx callData) raw = Some layout" "layout \<noteq> JBool False"
      and lp: "getLayoutPath w h layout = Inr lp" "readFile w lp = None"
  proof -
    have "getLayoutPath w (ensurePartials w h1) layout = Inr lp" using lp2 lp(1) by simp
    from res cacheTemplate_unreadable_state [OF miss2 [OF miss] raw ch this lp(2)]
    show ?thesis by (rule render_unreadable)
  qed
  have fifth: "render w h ctx tpl callData
                = (Inl err,
                   withEntry (ensurePartials w h1) tpl
                     \<lparr>template = compile w raw, entryLayoutTemplate = None\<rparr>
                     [ReadFile p, Compile raw])"
    if miss: "disableCache h \<or> cache h tpl = None"
      and ch: "chooseLayout (mergeLocals h ctx callData) raw = Some layout" "layout \<noteq> JBool False"
      and lp: "getLayoutPath w h layout = Inl err"
  proof -
    have "getLayoutPath w (ensurePartials w h1) layout = Inl err" using lp2 lp by simp
    from res cacheTemplate_nopath_state [OF miss2 [OF miss] raw ch this]
    show ?thesis by (rule render_unreadable)
  qed
  have sixth: "render w h ctx tpl callData
                = (case pickLayout w (ensurePartials w h1) e of
                     (lt, h4) \<Rightarrow>
                       runTemplates (template e) lt ctx (mergeLocals h ctx callData) h4)"
    if "\<not> disableCache h" and "cache h tpl = Some e"
    using that res by (rule render_cache_hit_any)
  show ?thesis
    apply (intro conjI impI)
         apply (rule first)
        apply (rule second; simp)
       apply (rule third; simp)
      apply (rule fourth; simp)
     apply (rule fifth; simp)
    apply (rule sixth; simp)
    done
qed


text \<open>
  The theorem at work on the template \<^verbatim>\<open>post\<close>, whose directive names \<^verbatim>\<open>main\<close>: on a
  fresh instance with no layout, with \<^verbatim>\<open>titled\<close>, with \<^verbatim>\<open>false\<close> and with the unreadable
  \<^verbatim>\<open>absent\<close> in the data, on an instance with no view path, and on the instance that has
  rendered it before.
\<close>

theorem C6_directive_precedence_witness:
  "plainName ''post'' \<and> plainName ''/views/post''
   \<and> plainObj (locals demoHbs) \<and> plainObj (locals demoAfterPost)
   \<and> plainObj (orEmpty (state demoCtx))
   \<and> plainObj (orEmpty None) \<and> plainObj (orEmpty (Some [(''layout'', JStr ''titled'')]))
   \<and> plainObj (orEmpty (Some [(''layout'', JStr ''absent'')]))
   \<and> plainObj (orEmpty (Some [(''layout'', JBool False)]))
   \<and> resolveTemplate demoWorld demoHbs ''post''
       = (Inr ''/views/post.hbs'', snd (resolveTemplate demoWorld demoHbs ''post''))
   \<and> readFile demoWorld ''/views/post.hbs'' = Some ''{{!< main}}<p>post</p>''
   \<and> rLayoutExec ''{{!< main}}<p>post</p>'' = Some ''main''
   \<and> cache demoHbs ''post'' = None
   \<and> chooseLayout (mergeLocals demoHbs demoCtx None) ''{{!< main}}<p>post</p>'' = Some (JStr ''main'')
   \<and> chooseLayout (mergeLocals demoHbs demoCtx (Some [(''layout'', JStr ''titled'')]))
         ''{{!< main}}<p>post</p>'' = Some (JStr ''titled'')
   \<and> chooseLayout (mergeLocals demoHbs demoCtx (Some [(''layout'', JBool False)]))
         ''{{!< main}}<p>post</p>'' = Some (JBool False)
   \<and> getLayoutPath demoWorld demoHbs (JStr ''main'') = Inr ''/views/main.hbs''
   \<and> readFile demoWorld ''/views/main.hbs'' = Some ''<html>{{{body}}}</html>''
   \<and> getLayoutPath demoWorld demoHbs (JStr ''titled'') = Inr ''/views/titled.hbs''
   \<and> readFile demoWorld ''/views/titled.hbs'' = Some ''<title>{{{block title}}}</title>{{{body}}}''
   \<and> getLayoutPath demoWorld demoHbs (JStr ''absent'') = Inr ''/views/absent.hbs''
   \<and> readFile demoWorld ''/views/absent.hbs'' = None
   \<and> render demoWorld demoHbs demoCtx ''post'' None
       = runTemplates (compile demoWorld ''{{!< main}}<p>post</p>'')
           (Some (compile demoWorld ''<html>{{{body}}}</html>'')) demoCtx
           (mergeLocals demoHbs demoCtx None)
           (withEntry (ensurePartials demoWorld (snd (resolveTemplate demoWorld demoHbs ''post'')))
              ''post''
              \<lparr>template = compile demoWorld ''{{!< main}}<p>post</p>'',
               entryLayoutTemplate = Some (compile demoWorld ''<html>{{{body}}}</html>'')\<rparr>
              [ReadFile ''/views/post.hbs'', Compile ''{{!< main}}<p>post</p>'',
               ReadFile ''/views/main.hbs'', Compile ''<html>{{{body}}}</html>''])
   \<and> fst (render demoWorld demoHbs demoCtx ''post'' None)
       = Inr (demoCtx\<lparr>body := Some ''<html>{{!< main}}<p>post</p></html>''\<rparr>)
   \<and> render demoWorld demoHbs demoCtx ''post'' (Some [(''layout'', JStr ''titled'')])
       = runTemplates (compile demoWorld ''{{!< main}}<p>post</p>'')
           (Some (compile demoWorld ''<title>{{{block title}}}</title>{{{body}}}'')) demoCtx
           (mergeLocals demoHbs demoCtx (Some [(''layout'', JStr ''titled'')]))
           (withEntry (ensurePartials demoWorld (snd (resolveTemplate demoWorld demoHbs ''post'')))
              ''post''
              \<lparr>template = compile demoWorld ''{{!< main}}<p>post</p>'',
               entryLayoutTemplate
                 = Some (compile demoWorld ''<title>{{{block title}}}</title>{{{body}}}'')\<rparr>
              [ReadFile ''/views/post.hbs'', Compile ''{{!< main}}<p>post</p>'',
               ReadFile ''/views/titled.hbs'',
               Compile ''<title>{{{block title}}}</title>{{{body}}}''])
   \<and> fst (render demoWorld demoHbs demoCtx ''post'' (Some [(''layout'', JStr ''titled'')]))
       = Inr (demoCtx\<lparr>body := Some ''<title></title>{{!< main}}<p>post</p>''\<rparr>)
   \<and> render demoWorld demoHbs demoCtx ''post'' (Some [(''layout'', JBool False)])
       = runTemplates (compile demoWorld ''{{!< main}}<p>post</p>'')
           (Some (compile demoWorld ''{{{body}}}'')) demoCtx
           (mergeLocals demoHbs demoCtx (Some [(''layout'', JBool False)]))
           (withEntry (ensurePartials demoWorld (snd (resolveTemplate demoWorld demoHbs ''post'')))
              ''post''
              \<lparr>template = compile demoWorld ''{{!< main}}<p>post</p>'',
               entryLayoutTemplate = Some (compile demoWorld ''{{{body}}}'')\<rparr>
              [ReadFile ''/views/post.hbs'', Compile ''{{!< main}}<p>post</p>'',
               Compile ''{{{body}}}''])
   \<and> fst (render demoWorld demoHbs demoCtx ''post'' (Some [(''layout'', JBool False)]))
       = Inr (demoCtx\<lparr>body := Some ''{{!< main}}<p>post</p>''\<rparr>)
   \<and> render demoWorld demoHbs demoCtx ''post'' (Some [(''layout'', JStr ''absent'')])
       = (Inl (FsError ''/views/absent.hbs''),
          withEntry (ensurePartials demoWorld (snd (resolveTemplate demoWorld demoHbs ''post'')))
            ''post''
            \<lparr>template = compile demoWorld ''{{!< main}}<p>post</p>'', entryLayoutTemplate = None\<rparr>
            [ReadFile ''/views/post.hbs'', Compile ''{{!< main}}<p>post</p>'',
             ReadFile ''/views/absent.hbs''])
   \<and> resolveTemplate demoWorld (demoHbs\<lparr>viewPath := []\<rparr>) ''/views/post''
       = (Inr ''/views/post.hbs'',
          snd (resolveTemplate demoWorld (demoHbs\<lparr>viewPath := []\<rparr>) ''/views/post''))
   \<and> getLayoutPath demoWorld (demoHbs\<lparr>viewPath := []\<rparr>) (JStr ''main'')
       = Inl (TypeError ''The path argument must be of type string. Received undefined'')
   \<and> render demoWorld (demoHbs\<lparr>viewPath := []\<rparr>) demoCtx ''/views/post'' None
       = (Inl (TypeError ''The path argument must be of type string. Received undefined''),
          withEntry
            (ensurePartials demoWorld
               (snd (resolveTemplate demoWorld (demoHbs\<lparr>viewPath := []\<rparr>) ''/views/post'')))
            ''/views/post''
            \<lparr>template = compile demoWorld ''{{!< main}}<p>post</p>'', entryLayoutTemplate = None\<rparr>
            [ReadFile ''/views/post.hbs'', Compile ''{{!< main}}<p>post</p>''])
   \<and> resolveTemplate demoWorld demoAfterPost ''post''
       = (Inr ''/views/post.hbs'', snd (resolveTemplate demoWorld demoAfterPost ''post''))
   \<and> \<not> disableCache demoAfterPost
   \<and> cache demoAfterPost ''post''
       = Some \<lparr>template = compile demoWorld ''{{!< main}}<p>post</p>'',
               entryLayoutTemplate = Some (compile demoWorld ''<html>{{{body}}}</html>'')\<rparr>
   \<and> render demoWorld demoAfterPost demoCtx ''post'' (Some [(''layout'', JStr ''titled'')])
       = runTemplates (compile demoWorld ''{{!< main}}<p>post</p>'')
           (Some (compile demoWorld ''<html>{{{body}}}</html>'')) demoCtx
           (mergeLocals demoAfterPost demoCtx (Some [(''layout'', JStr ''titled'')]))
           (ensurePartials demoWorld (snd (resolveTemplate demoWorld demoAfterPost ''post'')))
   \<and> fst (render demoWorld demoAfterPost demoCtx ''post'' (Some [(''layout'', JStr ''titled'')]))
       = Inr (demoCtx\<lparr>body := Some ''<html>{{!< main}}<p>post</p></html>''\<rparr>)"
proof -
  have pn: "plainName ''post''" "plainName ''/views/post''"
    by (simp_all add: plainName_def protoNames_def)
  have po: "plainObj (locals demoHbs)" "plainObj (locals demoAfterPost)"
    "plainObj (orEmpty (state demoCtx))"
    by (simp_all add: plainObj_def orEmpty_def demoAfterPost_def render_config demoHbs_def
        demoCtx_def)
  have pd: "plainObj (orEmpty None)" "plainObj (orEmpty (Some [(''layout'', JStr ''titled'')]))"
    "plainObj (orEmpty (Some [(''layout'', JStr ''absent'')]))"
    "plainObj (orEmpty (Some [(''layout'', JBool False)]))"
    by (simp_all add: plainObj_def plainName_def protoNames_def orEmpty_def)
  have res: "resolveTemplate demoWorld demoHbs ''post''
       = (Inr ''/views/post.hbs'', snd (resolveTemplate demoWorld demoHbs ''post''))"
    by (simp add: prod_eq_iff model_defs demo_defs)
  have raw: "readFile demoWorld ''/views/post.hbs'' = Some ''{{!< main}}<p>post</p>''"
    by (simp add: demo_defs)
  have dir: "rLayoutExec ''{{!< main}}<p>post</p>'' = Some ''main''"
    by (simp add: model_defs)
  have miss: "cache demoHbs ''post'' = None"
    by (simp add: demoHbs_def)
  have data: "getProp (mergeLocals demoHbs demoCtx None) ''layout'' = JUndefined"
    "getProp (mergeLocals demoHbs demoCtx (Some [(''layout'', JStr ''titled'')])) ''layout'' = JStr ''titled''"
    "getProp (mergeLocals demoHbs demoCtx (Some [(''layout'', JBool False)])) ''layout'' = JBool False"
    "getProp (mergeLocals demoHbs demoCtx (Some [(''layout'', JStr ''absent'')])) ''layout'' = JStr ''absent''"
    by (simp_all add: model_defs demo_defs)
  have lp: "getLayoutPath demoWorld demoHbs (JStr ''main'') = Inr ''/views/main.hbs''"
    "readFile demoWorld ''/views/main.hbs'' = Some ''<html>{{{body}}}</html>''"
    "getLayoutPath demoWorld demoHbs (JStr ''titled'') = Inr ''/views/titled.hbs''"
    "readFile demoWorld ''/views/titled.hbs'' = Some ''<title>{{{block title}}}</title>{{{body}}}''"
    "getLayoutPath demoWorld demoHbs (JStr ''absent'') = Inr ''/views/absent.hbs''"
    "readFile demoWorld ''/views/absent.hbs'' = None"
    by (simp_all add: model_defs demo_defs)
  note inst1 = C6_directive_precedence [OF pn(1) po(1) po(3) pd(1) res raw dir]
  note inst2 = C6_directive_precedence [OF pn(1) po(1) po(3) pd(2) res raw dir]
  note inst3 = C6_directive_precedence [OF pn(1) po(1) po(3) pd(4) res raw dir]
  note inst4 = C6_directive_precedence [OF pn(1) po(1) po(3) pd(3) res raw dir]
  have c1: "chooseLayout (mergeLocals demoHbs demoCtx None) ''{{!< main}}<p>post</p>'' = Some (JStr ''main'')"
    using inst1 [THEN conjunct1] data(1) by simp
  have c2: "chooseLayout (mergeLocals demoHbs demoCtx (Some [(''layout'', JStr ''titled'')]))
         ''{{!< main}}<p>post</p>'' = Some (JStr ''titled'')"
    using inst2 [THEN conjunct1] data(2) by simp
  have c3: "chooseLayout (mergeLocals demoHbs demoCtx (Some [(''layout'', JBool False)]))
         ''{{!< main}}<p>post</p>'' = Some (JBool False)"
    using inst3 [THEN conjunct1] data(3) by simp
  have c4: "chooseLayout (mergeLocals demoHbs demoCtx (Some [(''layout'', JStr ''absent'')]))
         ''{{!< main}}<p>post</p>'' = Some (JStr ''absent'')"
    using inst4 [THEN conjunct1] data(4) by simp
  have neq: "JStr ''main'' \<noteq> JBool False" "JStr ''titled'' \<noteq> JBool False"
    "JStr ''absent'' \<noteq> JBool False"
    by simp_all
  have r1: "render demoWorld demoHbs demoCtx ''post'' None
       = runTemplates (compile demoWorld ''{{!< main}}<p>post</p>'')
           (Some (compile demoWorld ''<html>{{{body}}}</html>'')) demoCtx
           (mergeLocals demoHbs demoCtx None)
           (withEntry (ensurePartials demoWorld (snd (resolveTemplate demoWorld demoHbs ''post'')))
              ''post''
              \<lparr>template = compile demoWorld ''{{!< main}}<p>post</p>'',
               entryLayoutTemplate = Some (compile demoWorld ''<html>{{{body}}}</html>'')\<rparr>
              [ReadFile ''/views/post.hbs'', Compile ''{{!< main}}<p>post</p>'',
               ReadFile ''/views/main.hbs'', Compile ''<html>{{{body}}}</html>''])"
    by (rule mp [OF inst1 [THEN conjunct2, THEN conjunct2, THEN conjunct1]])
       (rule conjI, rule disjI2, rule miss, rule conjI, rule c1, rule conjI, rule neq(1),
        rule conjI, rule lp(1), rule lp(2))
  have o1: "fst (render demoWorld demoHbs demoCtx ''post'' None)
       = Inr (demoCtx\<lparr>body := Some ''<html>{{!< main}}<p>post</p></html>''\<rparr>)"
    by (simp add: model_defs demo_defs)
  have r2: "render demoWorld demoHbs demoCtx ''post'' (Some [(''layout'', JStr ''titled'')])
       = runTemplates (compile demoWorld ''{{!< main}}<p>post</p>'')
           (Some (compile demoWorld ''<title>{{{block title}}}</title>{{{body}}}'')) demoCtx
           (mergeLocals demoHbs demoCtx (Some [(''layout'', JStr ''titled'')]))
           (withEntry (ensurePartials demoWorld (snd (resolveTemplate demoWorld demoHbs ''post'')))
              ''post''
              \<lparr>template = compile demoWorld ''{{!< main}}<p>post</p>'',
               entryLayoutTemplate
                 = Some (compile demoWorld ''<title>{{{block title}}}</title>{{{body}}}'')\<rparr>
              [ReadFile ''/views/post.hbs'', Compile ''{{!< main}}<p>post</p>'',
               ReadFile ''/views/titled.hbs'',
               Compile ''<title>{{{block title}}}</title>{{{body}}}''])"
    by (rule mp [OF inst2 [THEN conjunct2, THEN conjunct2, THEN conjunct1]])
       (rule conjI, rule disjI2, rule miss, rule conjI, rule c2, rule conjI, rule neq(2),
        rule conjI, rule lp(3), rule lp(4))
  have o2: "fst (render demoWorld demoHbs demoCtx ''post'' (Some [(''layout'', JStr ''titled'')]))
       = Inr (demoCtx\<lparr>body := Some ''<title></title>{{!< main}}<p>post</p>''\<rparr>)"
    by (simp add: model_defs demo_defs)
  have r3: "render demoWorld demoHbs demoCtx ''post'' (Some [(''layout'', JBool False)])
       = runTemplates (compile demoWorld ''{{!< main}}<p>post</p>'')
           (Some (compile demoWorld ''{{{body}}}'')) demoCtx
           (mergeLocals demoHbs demoCtx (Some [(''layout'', JBool False)]))
           (withEntry (ensurePartials demoWorld (snd (resolveTemplate demoWorld demoHbs ''post'')))
              ''post''
              \<lparr>template = compile demoWorld ''{{!< main}}<p>post</p>'',
               entryLayoutTemplate = Some (compile demoWorld ''{{{body}}}'')\<rparr>
              [ReadFile ''/views/post.hbs'', Compile ''{{!< main}}<p>post</p>'',
               Compile ''{{{body}}}''])"
    by (rule mp [OF inst3 [THEN conjunct2, THEN conjunct1]])
       (rule conjI, rule disjI2, rule miss, rule c3)
  have o3: "fst (render demoWorld demoHbs demoCtx ''post'' (Some [(''layout'', JBool False)]))
       = Inr (demoCtx\<lparr>body := Some ''{{!< main}}<p>post</p>''\<rparr>)"
    by (simp add: model_defs demo_defs)
  have r4: "render demoWorld demoHbs demoCtx ''post'' (Some [(''layout'', JStr ''absent'')])
       = (Inl (FsError ''/views/absent.hbs''),
          withEntry (ensurePartials demoWorld (snd (resolveTemplate demoWorld demoHbs ''post'')))
            ''post''
            \<lparr>template = compile demoWorld ''{{!< main}}<p>post</p>'', entryLayoutTemplate = None\<rparr>
            [ReadFile ''/views/post.hbs'', Compile ''{{!< main}}<p>post</p>'',
             ReadFile ''/views/absent.hbs''])"
    by (rule mp [OF inst4 [THEN conjunct2, THEN conjunct2, THEN conjunct2, THEN conjunct1]])
       (rule conjI, rule disjI2, rule miss, rule conjI, rule c4, rule conjI, rule neq(3),
        rule conjI, rule lp(5), rule lp(6))
  have poV: "plainObj (locals (demoHbs\<lparr>viewPath := []\<rparr>))"
    by (simp add: plainObj_def demoHbs_def)
  have resV: "resolveTemplate demoWorld (demoHbs\<lparr>viewPath := []\<rparr>) ''/views/post''
       = (Inr ''/views/post.hbs'',
          snd (resolveTemplate demoWorld (demoHbs\<lparr>viewPath := []\<rparr>) ''/views/post''))"
    by (simp add: prod_eq_iff model_defs demo_defs)
  have missV: "cache (demoHbs\<lparr>viewPath := []\<rparr>) ''/views/post'' = None"
    by (simp add: demoHbs_def)
  have lpV: "getLayoutPath demoWorld (demoHbs\<lparr>viewPath := []\<rparr>) (JStr ''main'')
       = Inl (TypeError ''The path argument must be of type string. Received undefined'')"
    by (simp add: model_defs demo_defs)
  note instV = C6_directive_precedence [OF pn(2) poV po(3) pd(1) resV raw dir]
  have dataV: "getProp (mergeLocals (demoHbs\<lparr>viewPath := []\<rparr>) demoCtx None) ''layout'' = JUndefined"
    by (simp add: model_defs demo_defs)
  have cV: "chooseLayout (mergeLocals (demoHbs\<lparr>viewPath := []\<rparr>) demoCtx None)
              ''{{!< main}}<p>post</p>'' = Some (JStr ''main'')"
    using instV [THEN conjunct1] dataV by simp
  have r5: "render demoWorld (demoHbs\<lparr>viewPath := []\<rparr>) demoCtx ''/views/post'' None
       = (Inl (TypeError ''The path argument must be of type string. Received undefined''),
          withEntry
            (ensurePartials demoWorld
               (snd (resolveTemplate demoWorld (demoHbs\<lparr>viewPath := []\<rparr>) ''/views/post'')))
            ''/views/post''
            \<lparr>template = compile demoWorld ''{{!< main}}<p>post</p>'', entryLayoutTemplate = None\<rparr>
            [ReadFile ''/views/post.hbs'', Compile ''{{!< main}}<p>post</p>''])"
    by (rule mp [OF instV [THEN conjunct2, THEN conjunct2, THEN conjunct2, THEN conjunct2,
                           THEN conjunct1]])
       (rule conjI, rule disjI2, rule missV, rule conjI, rule cV, rule conjI, rule neq(1),
        rule lpV)
  have resP: "resolveTemplate demoWorld demoAfterPost ''post''
       = (Inr ''/views/post.hbs'', snd (resolveTemplate demoWorld demoAfterPost ''post''))"
    by (simp add: prod_eq_iff demoAfterPost_def model_defs demo_defs)
  have ndP: "\<not> disableCache demoAfterPost"
    by (simp add: demoAfterPost_def render_config demoHbs_def)
  have cacheP: "cache demoAfterPost ''post''
       = Some \<lparr>template = compile demoWorld ''{{!< main}}<p>post</p>'',
               entryLayoutTemplate = Some (compile demoWorld ''<html>{{{body}}}</html>'')\<rparr>"
    by (simp add: demoAfterPost_def model_defs demo_defs)
  have hit: "render demoWorld demoAfterPost demoCtx ''post'' (Some [(''layout'', JStr ''titled'')])
       = (case pickLayout demoWorld
                 (ensurePartials demoWorld (snd (resolveTemplate demoWorld demoAfterPost ''post'')))
                 \<lparr>template = compile demoWorld ''{{!< main}}<p>post</p>'',
                  entryLayoutTemplate = Some (compile demoWorld ''<html>{{{body}}}</html>'')\<rparr> of
            (lt, h4) \<Rightarrow>
              runTemplates (template \<lparr>template = compile demoWorld ''{{!< main}}<p>post</p>'',
                  entryLayoutTemplate = Some (compile demoWorld ''<html>{{{body}}}</html>'')\<rparr>)
                lt demoCtx
                (mergeLocals demoAfterPost demoCtx (Some [(''layout'', JStr ''titled'')])) h4)"
    by (rule mp [OF C6_directive_precedence [OF pn(1) po(2) po(3) pd(2) resP raw dir, THEN conjunct2, THEN conjunct2,
                         THEN conjunct2, THEN conjunct2, THEN conjunct2]])
       (intro conjI ndP cacheP)
  have hit': "render demoWorld demoAfterPost demoCtx ''post'' (Some [(''layout'', JStr ''titled'')])
       = runTemplates (compile demoWorld ''{{!< main}}<p>post</p>'')
           (Some (compile demoWorld ''<html>{{{body}}}</html>'')) demoCtx
           (mergeLocals demoAfterPost demoCtx (Some [(''layout'', JStr ''titled'')]))
           (ensurePartials demoWorld (snd (resolveTemplate demoWorld demoAfterPost ''post'')))"
    unfolding hit by (simp add: pickLayout_def)
  have oP: "fst (render demoWorld demoAfterPost demoCtx ''post'' (Some [(''layout'', JStr ''titled'')]))
       = Inr (demoCtx\<lparr>body := Some ''<html>{{!< main}}<p>post</p></html>''\<rparr>)"
    by (simp add: demoAfterPost_def model_defs demo_defs)
  show ?thesis
    by (intro conjI pn po pd res raw dir miss c1 c2 c3 lp r1 o1 r2 o2 r3 o3 r4 resV lpV r5
        resP ndP cacheP hit' oP)
qed

text \<open>
  The claim as the specification words it holds for every render. With caching enabled it
  fails in both directions once the name is in the cache. After \<^verbatim>\<open>post\<close> has been rendered
  with \<^verbatim>\<open>layout: false\<close>, a render with no \<^verbatim>\<open>layout\<close> in its data does not use the directive:
  it delivers the bare body. After \<^verbatim>\<open>post\<close> has been rendered with no \<^verbatim>\<open>layout\<close>, a render
  with \<^verbatim>\<open>layout: 'titled'\<close> still uses the directive's layout \<^verbatim>\<open>main\<close>.
\<close>

theorem C6_counterexample:
  "readFile demoWorld ''/views/post.hbs'' = Some ''{{!< main}}<p>post</p>''
   \<and> rLayoutExec ''{{!< main}}<p>post</p>'' = Some ''main''
   \<and> fst (render demoWorld
            (snd (render demoWorld demoHbs demoCtx ''post'' (Some [(''layout'', JBool False)])))
            demoCtx ''post'' None)
       = Inr (demoCtx\<lparr>body := Some ''{{!< main}}<p>post</p>''\<rparr>)
   \<and> fst (render demoWorld
            (snd (render demoWorld demoHbs demoCtx ''post'' None))
            demoCtx ''post'' (Some [(''layout'', JStr ''titled'')]))
       = Inr (demoCtx\<lparr>body := Some ''<html>{{!< main}}<p>post</p></html>''\<rparr>)"
  by (simp add: model_defs demo_defs)

section \<open>The caches\<close>



lemma render_cases:
  obtains (missing) e h1 where "resolveTemplate w h tpl = (Inl e, h1)"
      "render w h ctx tpl callData = (Inl e, h1)"
  | (unread) p h1 e h3 where "resolveTemplate w h tpl = (Inr p, h1)"
      "cacheTemplate w (ensurePartials w h1) tpl p (mergeLocals h ctx callData) = (Inl e, h3)"
      "render w h ctx tpl callData = (Inl e, h3)"
  | (noentry) p h1 h3 where "resolveTemplate w h tpl = (Inr p, h1)"
      "cacheTemplate w (ensurePartials w h1) tpl p (mergeLocals h ctx callData) = (Inr (), h3)"
      "cache h3 tpl = None" "snd (render w h ctx tpl callData) = h3"
  | (run) p h1 h3 e lt h4 where "resolveTemplate w h tpl = (Inr p, h1)"
      "cacheTemplate w (ensurePartials w h1) tpl p (mergeLocals h ctx callData) = (Inr (), h3)"
      "cache h3 tpl = Some e" "pickLayout w h3 e = (lt, h4)"
      "render w h ctx tpl callData = runTemplates (template e) lt ctx (mergeLocals h ctx callData) h4"
proof -
  obtain r1 h1 where r1: "resolveTemplate w h tpl = (r1, h1)"
    by (cases "resolveTemplate w h tpl")
  show thesis
  proof (cases r1)
    case (Inl e)
    with r1 have "render w h ctx tpl callData = (Inl e, h1)" by (simp add: render_def)
    with r1 Inl show thesis using missing by blast
  next
    case (Inr p)
    with r1 have res: "resolveTemplate w h tpl = (Inr p, h1)" by simp
    obtain r3 h3 where r3: "cacheTemplate w (ensurePartials w h1) tpl p (mergeLocals h ctx callData) = (r3, h3)"
      by (cases "cacheTemplate w (ensurePartials w h1) tpl p (mergeLocals h ctx callData)")
    show thesis
    proof (cases r3)
      case (Inl e)
      with r3 have "render w h ctx tpl callData = (Inl e, h3)"
        unfolding render_unfold [OF res] by simp
      with res r3 Inl show thesis using unread by blast
    next
      case u: (Inr u)
      with r3 have r3': "cacheTemplate w (ensurePartials w h1) tpl p (mergeLocals h ctx callData) = (Inr (), h3)"
        by simp
      show thesis
      proof (cases "cache h3 tpl")
        case None
        with r3' have "snd (render w h ctx tpl callData) = h3"
          unfolding render_unfold [OF res] by simp
        with res r3' None show thesis using noentry by blast
      next
        case (Some e)
        obtain lt h4 where pl: "pickLayout w h3 e = (lt, h4)" by (cases "pickLayout w h3 e")
        with r3' Some have "render w h ctx tpl callData
            = runTemplates (template e) lt ctx (mergeLocals h ctx callData) h4"
          unfolding render_unfold [OF res] by simp
        with res r3' Some pl show thesis using run by blast
      qed
    qed
  qed
qed



lemma getTemplatePath_hit:
  "pathCache h tpl = Some p \<Longrightarrow> p \<noteq> [] \<Longrightarrow> getTemplatePath w h tpl = (Some p, h)"
  by (simp add: getTemplatePath_def)



lemma pickLayout_settled:
  assumes "\<not> disableCache h" and "entryLayoutTemplate e \<noteq> None \<or> layoutTemplate h \<noteq> None"
    and "pickLayout w h e = (lt, h')"
  shows "h' = h" and "lt \<noteq> None"
proof -
  from pickLayoutE [OF assms(3)] consider
    (own) "entryLayoutTemplate e = lt" "lt \<noteq> None" "h' = h"
    | (dflt) "entryLayoutTemplate e = None" "getLayoutTemplate w h = (lt, h')"
    by fastforce
  then have "h' = h \<and> lt \<noteq> None"
  proof cases
    case own
    then show ?thesis by simp
  next
    case dflt
    with assms(2) obtain t where t: "layoutTemplate h = Some t" by auto
    from getLayoutTemplate_cached [OF assms(1) t, of w] dflt(2) show ?thesis by simp
  qed
  then show "h' = h" and "lt \<noteq> None" by simp_all
qed

lemma runTemplates_fields:
  "cache (snd (runTemplates t lt ctx m h)) = cache h"
  "pathCache (snd (runTemplates t lt ctx m h)) = pathCache h"
  "layoutTemplate (snd (runTemplates t lt ctx m h)) = layoutTemplate h"
  "disableCache (snd (runTemplates t lt ctx m h)) = disableCache h"
  "trace (snd (runTemplates t lt ctx m h)) = trace h"
  "partials (snd (runTemplates t lt ctx m h)) = partials h"
  "partialsRegistered (snd (runTemplates t lt ctx m h)) = partialsRegistered h"
  "partialsPath (snd (runTemplates t lt ctx m h)) = partialsPath h"
  using runTemplates_snd [of t lt ctx m h] by auto

lemma warmE:
  assumes "warm h tpl"
  obtains p e where "\<not> disableCache h" "pathCache h tpl = Some p" "p \<noteq> []"
    "cache h tpl = Some e" "entryLayoutTemplate e \<noteq> None \<or> layoutTemplate h \<noteq> None"
  using assms by (auto simp: warm_def split: option.splits)


text \<open>A render of a warm name adds to the trace what the partial registration adds.\<close>

lemma warm_trace:
  assumes "warm h tpl"
  shows "trace (snd (render w h ctx tpl callData)) = trace (ensurePartials w h)
       \<or> trace (snd (render w h ctx tpl callData)) = trace h"
proof -
  from assms obtain p e where w: "\<not> disableCache h" "pathCache h tpl = Some p" "p \<noteq> []"
    "cache h tpl = Some e" "entryLayoutTemplate e \<noteq> None \<or> layoutTemplate h \<noteq> None"
    by (rule warmE)
  have gp: "getTemplatePath w h tpl = (Some p, h)" using w(2,3) by (rule getTemplatePath_hit)
  show ?thesis
  proof (cases rule: render_cases [of w h tpl ctx callData])
    case (missing e1 h1)
    from resolveTemplateE [OF missing(1)] gp have "h1 = h" by simp
    with missing(2) show ?thesis by simp
  next
    case (unread q h1 e1 h3)
    from resolveTemplateE [OF unread(1)] gp have h1: "h1 = h" by simp
    have "cacheTemplate w (ensurePartials w h) tpl q (mergeLocals h ctx callData)
            = (Inr (), ensurePartials w h)"
      by (rule cacheTemplate_hit [of _ _ e]) (simp_all add: w)
    with unread(2) h1 show ?thesis by simp
  next
    case (noentry q h1 h3)
    from resolveTemplateE [OF noentry(1)] gp have h1: "h1 = h" by simp
    have "cacheTemplate w (ensurePartials w h) tpl q (mergeLocals h ctx callData)
            = (Inr (), ensurePartials w h)"
      by (rule cacheTemplate_hit [of _ _ e]) (simp_all add: w)
    with noentry(2) h1 have "h3 = ensurePartials w h" by simp
    with noentry(4) show ?thesis by simp
  next
    case (run q h1 h3 e3 lt h4)
    from resolveTemplateE [OF run(1)] gp have h1: "h1 = h" by simp
    have "cacheTemplate w (ensurePartials w h) tpl q (mergeLocals h ctx callData)
            = (Inr (), ensurePartials w h)"
      by (rule cacheTemplate_hit [of _ _ e]) (simp_all add: w)
    with run(2) h1 have h3: "h3 = ensurePartials w h" by simp
    with run(3) w(4) have e3: "e3 = e" by simp
    have "h4 = h3"
      by (rule pickLayout_settled(1) [OF _ _ run(4)]) (use w e3 h3 in auto)
    with run(5) h3 show ?thesis by (simp add: runTemplates_fields)
  qed
qed







lemma globbed_the:
  "None \<notin> set (map (\<lambda>root. glob w pat root) roots) \<Longrightarrow>
     map the (map (\<lambda>root. glob w pat root) roots)
       = map (\<lambda>root. case glob w pat root of None \<Rightarrow> [] | Some fs \<Rightarrow> fs) roots"
  by (induction roots) (auto split: option.splits)


















section \<open>The names of the partials\<close>


lemma registerAll_lookup:
  "registerAll kvs tab k = (case map_of (rev kvs) k of Some v \<Rightarrow> Some v | None \<Rightarrow> tab k)"
proof (induction kvs arbitrary: tab)
  case Nil
  then show ?case by simp
next
  case (Cons kv kvs)
  obtain n s where kv: "kv = (n, s)" by (cases kv)
  show ?case
    by (simp add: kv Cons.IH map_add_def split: option.splits)
qed

lemma sliceOff_ext: "ext \<noteq> [] \<Longrightarrow> sliceOff (rel @ ext) (length ext) = rel"
  by (simp add: sliceOff_def)

lemma partialPairs_files:
  "map snd (partialPairs w n roots rl) = partialFiles w roots rl"
  by (simp add: partialPairs_def partialFiles_def map_concat comp_def case_prod_unfold)

lemma partialPairs_names:
  "length roots = length rl \<Longrightarrow>
     map fst (partialPairs w n roots rl) = concat (map (\<lambda>result. map (\<lambda>f. sliceOff f n) result) rl)"
proof (induction roots rl rule: list_induct2)
  case Nil
  then show ?case by (simp add: partialPairs_def)
next
  case (Cons r roots res rl)
  then show ?case by (simp add: partialPairs_def comp_def)
qed

lemma zip_names_sources:
  "zip (map fst ps) (map (\<lambda>f. the (readFile w f)) (map snd ps))
     = map (\<lambda>(nm, f). (nm, the (readFile w f))) ps"
  by (induction ps) auto

lemma globbed_length: "length (globbed w h) = length (partialRoots h)"
  by (simp add: globbed_def)

lemma registerPartials_ok:
  assumes globs: "\<forall>root \<in> set (partialRoots h). glob w (''**/*'' @ extname h) root \<noteq> None"
    and reads: "\<forall>f \<in> set (partialFiles w (partialRoots h) (globbed w h)). readFile w f \<noteq> None"
    and ne: "partialRoots h \<noteq> []"
  shows "partialsRegistered (registerPartials w h)"
    and "partials (registerPartials w h)
          = registerAll (map (\<lambda>(nm, f). (nm, the (readFile w f)))
                          (partialPairs w (length (extname h)) (partialRoots h) (globbed w h)))
              (partials h)"
proof -
  define roots where "roots = partialRoots h"
  define pat where "pat = ''**/*'' @ extname h"
  define rl where "rl = globbed w h"
  have ok: "None \<notin> set (map (\<lambda>root. glob w pat root) roots)"
    using globs by (auto simp: roots_def pat_def)
  then have the: "map the (map (\<lambda>root. glob w pat root) roots) = rl"
    unfolding rl_def globbed_def roots_def pat_def by (rule globbed_the)
  have rl_ne: "rl \<noteq> []" using ne by (simp add: rl_def globbed_def)
  have rd: "None \<notin> set (map (readFile w) (partialFiles w roots rl))"
    using reads by (auto simp: roots_def rl_def)
  have len: "length roots = length rl" by (simp add: roots_def rl_def globbed_length)
  have names: "partialNames (h\<lparr>partialsPath := PathList roots\<rparr>) rl
                 = map fst (partialPairs w (length (extname h)) roots rl)"
    by (simp add: partialNames_def partialPairs_names [OF len])
  have zipped: "zip (partialNames (h\<lparr>partialsPath := PathList roots\<rparr>) rl)
                    (map the (map (readFile w) (partialFiles w roots rl)))
                 = map (\<lambda>(nm, f). (nm, the (readFile w f)))
                     (partialPairs w (length (extname h)) roots rl)"
    unfolding names partialPairs_files [symmetric, of w roots rl "length (extname h)"]
    using zip_names_sources [of "partialPairs w (length (extname h)) roots rl" w]
    by (simp add: comp_def)
  have reg: "registerPartials w h =
      (emit (map ReadFile (partialFiles w roots rl))
         (emit (map (\<lambda>root. Glob pat root) roots) (h\<lparr>partialsPath := PathList roots\<rparr>)))
       \<lparr>partials := registerAll
            (zip (partialNames (h\<lparr>partialsPath := PathList roots\<rparr>) rl)
                 (map the (map (readFile w) (partialFiles w roots rl))))
            (partials h),
        partialsRegistered := True\<rparr>"
    unfolding registerPartials_def Let_def roots_def [symmetric]
    using ok the rl_ne rd by (simp add: pat_def)
  show "partialsRegistered (registerPartials w h)"
    unfolding reg by simp
  show "partials (registerPartials w h)
          = registerAll (map (\<lambda>(nm, f). (nm, the (readFile w f)))
                          (partialPairs w (length (extname h)) (partialRoots h) (globbed w h)))
              (partials h)"
    unfolding reg zipped by (simp add: roots_def rl_def)
qed

lemma partialPairs_mem:
  "(nm, f) \<in> set (partialPairs w n roots rl) \<longleftrightarrow>
     (\<exists>root result x. (root, result) \<in> set (zip roots rl) \<and> x \<in> set result
        \<and> nm = sliceOff x n \<and> f = path_join w root x)"
  by (auto simp: partialPairs_def)

lemma zip_globbed:
  "(root, result) \<in> set (zip (partialRoots h) (globbed w h)) \<longleftrightarrow>
     root \<in> set (partialRoots h)
     \<and> result = (case glob w (''**/*'' @ extname h) root of None \<Rightarrow> [] | Some fs \<Rightarrow> fs)"
  by (auto simp: globbed_def zip_map2 zip_same_conv_map)

lemma configure_extname: "configure opts = Inr h \<Longrightarrow> extname h \<noteq> []"
  by (auto simp: configure_def orDefault_def split: if_splits option.splits)

text \<open>
  Claim C9. The extension is not empty (\<^verbatim>\<open>configure\<close> sees to it, \<open>configure_extname\<close>),
  and the registration pass succeeds: every glob and every read of a listed file returns.
  A file that the glob of the root number \<open>i\<close> lists at the relative path \<open>rel @ ext\<close> has
  the name \<open>rel\<close>: the extension is cut off and the directories of the relative path stay.
  After the pass the partials count as registered, and the engine's table holds under
  \<open>rel\<close> the source of a listed file of that name; it is the source of this very file
  when no listed file of another path has the same name (the last one registered under
  a name stays).
\<close>

theorem C9_partial_names:
  assumes "extname h \<noteq> []"
    and "\<forall>root \<in> set (partialRoots h). glob w (''**/*'' @ extname h) root \<noteq> None"
    and "\<forall>f \<in> set (partialFiles w (partialRoots h) (globbed w h)). readFile w f \<noteq> None"
    and "i < length (partialRoots h)"
    and "glob w (''**/*'' @ extname h) (partialRoots h ! i) = Some result"
    and "rel @ extname h \<in> set result"
  shows "sliceOff (rel @ extname h) (length (extname h)) = rel
       \<and> partialsRegistered (registerPartials w h)
       \<and> (\<exists>root result' x.
             root \<in> set (partialRoots h)
           \<and> glob w (''**/*'' @ extname h) root = Some result' \<and> x \<in> set result'
           \<and> sliceOff x (length (extname h)) = rel
           \<and> readFile w (path_join w root x) \<noteq> None
           \<and> partials (registerPartials w h) rel = readFile w (path_join w root x))
       \<and> ((\<forall>root result' x.
              root \<in> set (partialRoots h)
            \<and> glob w (''**/*'' @ extname h) root = Some result' \<and> x \<in> set result'
            \<and> sliceOff x (length (extname h)) = rel
            \<longrightarrow> path_join w root x = path_join w (partialRoots h ! i) (rel @ extname h))
          \<longrightarrow> partials (registerPartials w h) rel
                = readFile w (path_join w (partialRoots h ! i) (rel @ extname h)))"
proof -
  define n where "n = length (extname h)"
  define pat where "pat = ''**/*'' @ extname h"
  define pairs where "pairs = partialPairs w n (partialRoots h) (globbed w h)"
  define kvs where "kvs = map (\<lambda>(nm, f). (nm, the (readFile w f))) pairs"
  have name: "sliceOff (rel @ extname h) n = rel"
    unfolding n_def using assms(1) by (rule sliceOff_ext)
  have ne: "partialRoots h \<noteq> []" using assms(4) by auto
  have reg: "partialsRegistered (registerPartials w h)"
    and tab: "partials (registerPartials w h) = registerAll kvs (partials h)"
    using registerPartials_ok [OF assms(2,3) ne] by (simp_all add: kvs_def pairs_def n_def)
  have root_i: "partialRoots h ! i \<in> set (partialRoots h)" using assms(4) by simp
  have "(partialRoots h ! i, result) \<in> set (zip (partialRoots h) (globbed w h))"
    using root_i assms(5) by (simp add: zip_globbed)
  then have mem: "(rel, path_join w (partialRoots h ! i) (rel @ extname h)) \<in> set pairs"
    unfolding pairs_def partialPairs_mem using assms(6) name by metis
  then have "(rel, the (readFile w (path_join w (partialRoots h ! i) (rel @ extname h)))) \<in> set kvs"
    unfolding kvs_def by force
  then have "rel \<in> fst ` set (rev kvs)" by force
  then obtain v where v: "map_of (rev kvs) rel = Some v"
    by (cases "map_of (rev kvs) rel") (auto simp: map_of_eq_None_iff)
  then have "(rel, v) \<in> set kvs" using map_of_SomeD by fastforce
  then obtain f where f: "(rel, f) \<in> set pairs" "v = the (readFile w f)"
    unfolding kvs_def by auto
  from f(1) obtain root result' x where
    x: "(root, result') \<in> set (zip (partialRoots h) (globbed w h))" "x \<in> set result'"
       "rel = sliceOff x n" "f = path_join w root x"
    unfolding pairs_def partialPairs_mem by blast
  have root: "root \<in> set (partialRoots h)" using x(1) by (simp add: zip_globbed)
  with assms(2) obtain fs where fs: "glob w pat root = Some fs" unfolding pat_def by blast
  with x(1) have res': "result' = fs" by (simp add: zip_globbed pat_def)
  have "f \<in> set (map snd pairs)" using f(1) by force
  then have "f \<in> set (partialFiles w (partialRoots h) (globbed w h))"
    unfolding pairs_def partialPairs_files .
  with assms(3) have rf: "readFile w f \<noteq> None" by blast
  have got: "partials (registerPartials w h) rel = readFile w f"
    unfolding tab registerAll_lookup using v f(2) rf by auto
  have ex: "\<exists>root result' x.
             root \<in> set (partialRoots h)
           \<and> glob w pat root = Some result' \<and> x \<in> set result'
           \<and> sliceOff x n = rel
           \<and> readFile w (path_join w root x) \<noteq> None
           \<and> partials (registerPartials w h) rel = readFile w (path_join w root x)"
    using root fs res' x(2,3,4) rf got by blast
  have uniq: "partials (registerPartials w h) rel
                = readFile w (path_join w (partialRoots h ! i) (rel @ extname h))"
    if "\<forall>root result' x.
              root \<in> set (partialRoots h)
            \<and> glob w pat root = Some result' \<and> x \<in> set result'
            \<and> sliceOff x n = rel
            \<longrightarrow> path_join w root x = path_join w (partialRoots h ! i) (rel @ extname h)"
  proof -
    from that root fs res' x(2,3) have "path_join w root x = path_join w (partialRoots h ! i) (rel @ extname h)"
      by blast
    with got x(4) show ?thesis by simp
  qed
  from name reg ex uniq show ?thesis unfolding n_def pat_def by blast
qed

text \<open>
  The theorem at work: the partial root \<^verbatim>\<open>/partials\<close> holds \<^verbatim>\<open>nav.hbs\<close> and
  \<^verbatim>\<open>sub/dir/name.hbs\<close>.
\<close>

theorem C9_partial_names_witness:
  "extname demoPartialsHbs \<noteq> []
   \<and> (0::nat) < length (partialRoots demoPartialsHbs)
   \<and> glob demoWorld (''**/*'' @ extname demoPartialsHbs) (partialRoots demoPartialsHbs ! 0)
       = Some [''nav.hbs'', ''sub/dir/name.hbs'']
   \<and> ''sub/dir/name'' @ extname demoPartialsHbs \<in> set [''nav.hbs'', ''sub/dir/name.hbs'']
   \<and> sliceOff (''sub/dir/name'' @ extname demoPartialsHbs) (length (extname demoPartialsHbs))
       = ''sub/dir/name''
   \<and> partialsRegistered (registerPartials demoWorld demoPartialsHbs)
   \<and> partials (registerPartials demoWorld demoPartialsHbs) ''sub/dir/name''
       = readFile demoWorld
           (path_join demoWorld (partialRoots demoPartialsHbs ! 0) (''sub/dir/name'' @ extname demoPartialsHbs))
   \<and> readFile demoWorld ''/partials/sub/dir/name.hbs'' = Some ''<b></b>''
   \<and> partials (registerPartials demoWorld demoPartialsHbs) ''sub/dir/name'' = Some ''<b></b>''
   \<and> partials (registerPartials demoWorld demoPartialsHbs) ''nav'' = Some ''<nav></nav>''"
proof -
  have ext: "extname demoPartialsHbs \<noteq> []"
    by (simp add: demoPartialsHbs_def demoHbs_def)
  have globs: "\<forall>root \<in> set (partialRoots demoPartialsHbs).
      glob demoWorld (''**/*'' @ extname demoPartialsHbs) root \<noteq> None"
    by (simp add: demoPartialsHbs_def demoHbs_def demoWorld_def partialRoots_def)
  have reads: "\<forall>f \<in> set (partialFiles demoWorld (partialRoots demoPartialsHbs)
      (globbed demoWorld demoPartialsHbs)). readFile demoWorld f \<noteq> None"
    by (simp add: demoPartialsHbs_def demoHbs_def demoWorld_def partialRoots_def partialFiles_def
          globbed_def demoFiles_def)
  have i: "(0::nat) < length (partialRoots demoPartialsHbs)"
    by (simp add: demoPartialsHbs_def demoHbs_def partialRoots_def)
  have res: "glob demoWorld (''**/*'' @ extname demoPartialsHbs) (partialRoots demoPartialsHbs ! 0)
       = Some [''nav.hbs'', ''sub/dir/name.hbs'']"
    by (simp add: demoPartialsHbs_def demoHbs_def demoWorld_def partialRoots_def)
  have rel: "''sub/dir/name'' @ extname demoPartialsHbs \<in> set [''nav.hbs'', ''sub/dir/name.hbs'']"
    by (simp add: demoPartialsHbs_def demoHbs_def)
  have only: "\<forall>root result' x.
        root \<in> set (partialRoots demoPartialsHbs)
      \<and> glob demoWorld (''**/*'' @ extname demoPartialsHbs) root = Some result' \<and> x \<in> set result'
      \<and> sliceOff x (length (extname demoPartialsHbs)) = ''sub/dir/name''
      \<longrightarrow> path_join demoWorld root x
            = path_join demoWorld (partialRoots demoPartialsHbs ! 0)
                (''sub/dir/name'' @ extname demoPartialsHbs)"
    by (auto simp: demoPartialsHbs_def demoHbs_def demoWorld_def partialRoots_def sliceOff_def)
  have src: "readFile demoWorld ''/partials/sub/dir/name.hbs'' = Some ''<b></b>''"
    by (simp add: demo_defs)
  have run: "partials (registerPartials demoWorld demoPartialsHbs) ''sub/dir/name'' = Some ''<b></b>''
     \<and> partials (registerPartials demoWorld demoPartialsHbs) ''nav'' = Some ''<nav></nav>''"
    by (simp add: model_defs demo_defs demoPartialsHbs_def)
  note inst = C9_partial_names [OF ext globs reads i res rel]
  have this_file: "partials (registerPartials demoWorld demoPartialsHbs) ''sub/dir/name''
       = readFile demoWorld
           (path_join demoWorld (partialRoots demoPartialsHbs ! 0) (''sub/dir/name'' @ extname demoPartialsHbs))"
    by (rule mp [OF inst [THEN conjunct2, THEN conjunct2, THEN conjunct2] only])
  show ?thesis
    by (intro conjI ext i res rel inst [THEN conjunct1] inst [THEN conjunct2, THEN conjunct1]
          this_file src run [THEN conjunct1] run [THEN conjunct2])
qed

section \<open>Renders that are rejected\<close>


lemma probe_none:
  "(\<forall>root \<in> set roots. \<not> statSync w (path_join w root (tpl @ extname h)))
     \<Longrightarrow> fst (probe w h tpl roots) = None"
  by (induction roots arbitrary: h) (simp_all add: Let_def)

text \<open>
  Claim C8 on the code. A name that is not absolute, is not in the path cache and has no
  file under any view root is rejected with a \<^verbatim>\<open>MissingTemplateError\<close>, as the claim says.
  But the second constructor argument of line 120 is \<^verbatim>\<open>tplPath\<close>, which is \<^verbatim>\<open>undefined\<close> on
  this branch: the error carries \<^verbatim>\<open>undefined\<close>, neither the name nor a path that was tried.
\<close>

theorem C8_missing_template_payload:
  assumes "\<not> path_isAbsolute w tpl" and "pathCache h tpl = None"
    and "\<forall>root \<in> set (viewPath h). \<not> statSync w (path_join w root (tpl @ extname h))"
  shows "fst (render w h ctx tpl callData)
           = Inl (MissingTemplateError ''The template specified does not exist.'' None)"
proof -
  have "fst (getTemplatePath w h tpl) = None"
    using assms(2) probe_none [OF assms(3)] by (simp add: getTemplatePath_def)
  then obtain h1 where "getTemplatePath w h tpl = (None, h1)"
    by (cases "getTemplatePath w h tpl") simp
  with assms(1) show ?thesis
    by (simp add: render_def resolveTemplate_def)
qed

text \<open>
  The failing input: the name \<^verbatim>\<open>nope\<close> has no file under the one view root. The path
  \<^verbatim>\<open>/views/nope.hbs\<close> is tried, and the error names neither it nor \<^verbatim>\<open>nope\<close>.
\<close>

theorem C8_missing_template_payload_witness:
  "\<not> path_isAbsolute demoWorld ''nope''
   \<and> pathCache demoHbs ''nope'' = None
   \<and> viewPath demoHbs = [''/views'']
   \<and> \<not> statSync demoWorld (path_join demoWorld ''/views'' (''nope'' @ extname demoHbs))
   \<and> fst (render demoWorld demoHbs demoCtx ''nope'' None)
       = Inl (MissingTemplateError ''The template specified does not exist.'' None)
   \<and> trace (snd (render demoWorld demoHbs demoCtx ''nope'' None)) = [StatSync ''/views/nope.hbs'']"
proof -
  have abs: "\<not> path_isAbsolute demoWorld ''nope''"
    by (simp add: demoWorld_def)
  have pc: "pathCache demoHbs ''nope'' = None"
    by (simp add: demoHbs_def)
  have vp: "viewPath demoHbs = [''/views'']"
    by (simp add: demoHbs_def)
  have st: "\<not> statSync demoWorld (path_join demoWorld ''/views'' (''nope'' @ extname demoHbs))"
    by (simp add: demoWorld_def demoHbs_def demoFiles_def)
  have all: "\<forall>root \<in> set (viewPath demoHbs).
      \<not> statSync demoWorld (path_join demoWorld root (''nope'' @ extname demoHbs))"
    using st by (simp add: vp)
  have tr: "trace (snd (render demoWorld demoHbs demoCtx ''nope'' None)) = [StatSync ''/views/nope.hbs'']"
    by (simp add: model_defs demo_defs)
  show ?thesis
    by (intro conjI abs pc vp st tr C8_missing_template_payload [OF abs pc all])
qed

text \<open>
  Claim C3 on the code. The render compiles a template that has no layout of its own (no
  \<^verbatim>\<open>layout\<close> in the data, no directive in the source), the default layout slot is to be
  filled, a default layout is configured, and its file cannot be read. \<^verbatim>\<open>cacheLayout\<close>
  logs the failure, as the claim says, and returns \<^verbatim>\<open>undefined\<close>; but line 158 then calls
  \<^verbatim>\<open>undefined\<close>. The render never delivers the body: it is rejected with the error of the
  body template if that throws, and with a \<^verbatim>\<open>TypeError\<close> otherwise.
\<close>

theorem C3_default_layout_failure:
  assumes "resolveTemplate w h tpl = (Inr p, h1)"
    and "disableCache h \<or> cache h tpl = None"
    and "readFile w p = Some raw"
    and "getProp (mergeLocals h ctx callData) ''layout'' = JUndefined" and "\<not> rLayoutTest raw"
    and "disableCache h \<or> layoutTemplate h = None"
    and "defaultLayout h \<noteq> []" and "getLayoutPath w h (JStr (defaultLayout h)) = Inr lp"
    and "readFile w lp = None"
  shows "fst (render w h ctx tpl callData)
           = (case fst (compile w raw ctx (mergeLocals h ctx callData)
                          (partials (ensurePartials w h1)) (blocks h)) of
                Inl e \<Rightarrow> Inl e
              | Inr b \<Rightarrow> Inl (TypeError ''layoutTemplate is not a function''))
       \<and> trace (snd (render w h ctx tpl callData))
           = trace (ensurePartials w h1)
             @ [ReadFile p, Compile raw, ReadFile lp, LogError (FsError lp)]"
proof -
  have h1: "h1 = snd (getTemplatePath w h tpl)" using assms(1) by (rule resolveTemplateE)
  define h2 where "h2 = ensurePartials w h1"
  define h3 where "h3 = emit [ReadFile p, Compile raw]
      (h2\<lparr>cache := (cache h2)(tpl \<mapsto> \<lparr>template = compile w raw, entryLayoutTemplate = None\<rparr>)\<rparr>)"
  define h4 where "h4 = (emit [ReadFile lp, LogError (FsError lp)] h3)\<lparr>layoutTemplate := None\<rparr>"
  have miss2: "disableCache h2 \<or> cache h2 tpl = None"
    using assms(2) by (simp add: h2_def h1)
  have ct: "cacheTemplate w h2 tpl p (mergeLocals h ctx callData) = (Inr (), h3)"
    unfolding cacheTemplate_miss [OF miss2 assms(3)] h3_def using assms(4,5) by simp
  have e3: "cache h3 tpl = Some \<lparr>template = compile w raw, entryLayoutTemplate = None\<rparr>"
    by (simp add: h3_def)
  have slot3: "disableCache h3 \<or> layoutTemplate h3 = None"
    using assms(6) by (simp add: h3_def h2_def h1)
  have "getLayoutPath w h3 (JStr (defaultLayout h)) = getLayoutPath w h (JStr (defaultLayout h))"
    by (rule getLayoutPath_cong) (simp_all add: h3_def h2_def h1)
  with assms(8) have lp3: "getLayoutPath w h3 (JStr (defaultLayout h3)) = Inr lp"
    by (simp add: h3_def h2_def h1)
  have dl3: "defaultLayout h3 \<noteq> []" using assms(7) by (simp add: h3_def h2_def h1)
  have cl: "cacheLayout w h3 None = (None, emit [ReadFile lp, LogError (FsError lp)] h3)"
    using dl3 lp3 assms(9) by (rule cacheLayout_failure)
  have gl: "getLayoutTemplate w h3 = (None, h4)"
    using slot3 by (auto simp: getLayoutTemplate_def cl h4_def)
  have pl: "pickLayout w h3 \<lparr>template = compile w raw, entryLayoutTemplate = None\<rparr> = (None, h4)"
    by (simp add: pickLayout_def gl)
  have parts: "partials h4 = partials (ensurePartials w h1)" "blocks h4 = blocks h"
    by (simp_all add: h4_def h3_def h2_def h1)
  have tr4: "trace h4 = trace (ensurePartials w h1)
                          @ [ReadFile p, Compile raw, ReadFile lp, LogError (FsError lp)]"
    by (simp add: h4_def h3_def h2_def)
  have r: "render w h ctx tpl callData
          = runTemplates (compile w raw) None ctx (mergeLocals h ctx callData) h4"
    unfolding render_unfold [OF assms(1)] h2_def [symmetric] ct using e3 pl by simp
  have first: "fst (render w h ctx tpl callData)
           = (case fst (compile w raw ctx (mergeLocals h ctx callData)
                          (partials (ensurePartials w h1)) (blocks h)) of
                Inl e \<Rightarrow> Inl e
              | Inr b \<Rightarrow> Inl (TypeError ''layoutTemplate is not a function''))"
    unfolding r runTemplates_def parts by (simp split: prod.splits sum.splits)
  have second: "trace (snd (render w h ctx tpl callData))
           = trace (ensurePartials w h1)
             @ [ReadFile p, Compile raw, ReadFile lp, LogError (FsError lp)]"
    unfolding r by (simp add: runTemplates_fields tr4)
  from first second show ?thesis by simp
qed

text \<open>
  The failing input: the default layout \<^verbatim>\<open>missing\<close> is configured, its file does not exist,
  and \<^verbatim>\<open>home\<close> is rendered with no data. The failure is logged, and the render is rejected
  with the \<^verbatim>\<open>TypeError\<close> instead of delivering \<^verbatim>\<open><p>hi</p>\<close>.
\<close>

theorem C3_default_layout_failure_witness:
  "configure (demoOptions\<lparr>opt_defaultLayout := Some ''missing''\<rparr>) = Inr demoMissingHbs
   \<and> resolveTemplate demoWorld demoMissingHbs ''home''
       = (Inr ''/views/home.hbs'', snd (resolveTemplate demoWorld demoMissingHbs ''home''))
   \<and> cache demoMissingHbs ''home'' = None
   \<and> readFile demoWorld ''/views/home.hbs'' = Some ''<p>hi</p>''
   \<and> getProp (mergeLocals demoMissingHbs demoCtx None) ''layout'' = JUndefined
   \<and> \<not> rLayoutTest ''<p>hi</p>''
   \<and> layoutTemplate demoMissingHbs = None
   \<and> defaultLayout demoMissingHbs \<noteq> []
   \<and> getLayoutPath demoWorld demoMissingHbs (JStr (defaultLayout demoMissingHbs))
       = Inr ''/views/missing.hbs''
   \<and> readFile demoWorld ''/views/missing.hbs'' = None
   \<and> fst (render demoWorld demoMissingHbs demoCtx ''home'' None)
       = Inl (TypeError ''layoutTemplate is not a function'')
   \<and> trace (snd (render demoWorld demoMissingHbs demoCtx ''home'' None))
       = [StatSync ''/views/home.hbs'', ReadFile ''/views/home.hbs'', Compile ''<p>hi</p>'',
          ReadFile ''/views/missing.hbs'', LogError (FsError ''/views/missing.hbs'')]"
proof -
  have cfg: "configure (demoOptions\<lparr>opt_defaultLayout := Some ''missing''\<rparr>) = Inr demoMissingHbs"
    by (simp add: configure_def demoOptions_def orDefault_def demoMissingHbs_def demoHbs_def)
  have res: "resolveTemplate demoWorld demoMissingHbs ''home''
       = (Inr ''/views/home.hbs'', snd (resolveTemplate demoWorld demoMissingHbs ''home''))"
    by (simp add: prod_eq_iff demoMissingHbs_def model_defs demo_defs)
  have miss: "cache demoMissingHbs ''home'' = None"
    by (simp add: demoMissingHbs_def demoHbs_def)
  have raw: "readFile demoWorld ''/views/home.hbs'' = Some ''<p>hi</p>''"
    by (simp add: demo_defs)
  have nol: "getProp (mergeLocals demoMissingHbs demoCtx None) ''layout'' = JUndefined"
    by (simp add: demoMissingHbs_def model_defs demo_defs)
  have nod: "\<not> rLayoutTest ''<p>hi</p>''"
    by (simp add: model_defs)
  have slot: "layoutTemplate demoMissingHbs = None"
    by (simp add: demoMissingHbs_def demoHbs_def)
  have dl: "defaultLayout demoMissingHbs \<noteq> []"
    by (simp add: demoMissingHbs_def)
  have lp: "getLayoutPath demoWorld demoMissingHbs (JStr (defaultLayout demoMissingHbs))
       = Inr ''/views/missing.hbs''"
    by (simp add: demoMissingHbs_def model_defs demo_defs)
  have gone: "readFile demoWorld ''/views/missing.hbs'' = None"
    by (simp add: demo_defs)
  note inst = C3_default_layout_failure [OF res disjI2 [OF miss] raw nol nod disjI2 [OF slot] dl lp gone]
  have out: "fst (render demoWorld demoMissingHbs demoCtx ''home'' None)
       = Inl (TypeError ''layoutTemplate is not a function'')"
    unfolding inst [THEN conjunct1] by (simp add: demo_defs)
  have tr: "trace (snd (render demoWorld demoMissingHbs demoCtx ''home'' None))
       = [StatSync ''/views/home.hbs'', ReadFile ''/views/home.hbs'', Compile ''<p>hi</p>'',
          ReadFile ''/views/missing.hbs'', LogError (FsError ''/views/missing.hbs'')]"
    unfolding inst [THEN conjunct2] by (simp add: demoMissingHbs_def model_defs demo_defs)
  show ?thesis
    by (intro conjI cfg res miss raw nol nod slot dl lp gone out tr)
qed

end
